theory Spec2Isabelle
  imports Complex_Main "HOL-Library.Word" "HOL-Library.AList" "HOL-Library.Code_Target_Numeral"
begin

unbundle bit_operations_syntax

section \<open>JavaScript values shared by the parser, the writer and the image\<close>

text \<open>
  Exceptions of the source are values: \<open>RangeError\<close> is what a \<open>DataView\<close> or a typed
  array constructor raises out of range, \<open>TypeError\<close> is a property read on
  \<open>undefined\<close>/\<open>null\<close> or a call of something that is not a function, and
  \<open>Error msg\<close> is the source's own \<open>throw new Error(msg)\<close>.  The last two are not
  exceptions of the source.  \<open>OutOfFuel\<close>: the recursive descent of the parser and of
  the writer is modelled with a call budget, and this is the value of a run that
  used it up.  \<open>Unmodelled\<close>: a step of the source whose result the model's values
  cannot hold (a number that is not an integer, the text of a float); the model stops
  there and says nothing about what the source does next.
\<close>

datatype error = RangeError | TypeError | Error string | OutOfFuel | Unmodelled

text \<open>The element types of the typed arrays the source allocates.\<close>

datatype tkind = Uint8 | Int8 | Uint16 | Int16 | Uint32 | Int32 | Float32 | Float64

fun BYTES_PER_ELEMENT :: "tkind \<Rightarrow> nat" where
  "BYTES_PER_ELEMENT Uint8 = 1"
| "BYTES_PER_ELEMENT Int8 = 1"
| "BYTES_PER_ELEMENT Uint16 = 2"
| "BYTES_PER_ELEMENT Int16 = 2"
| "BYTES_PER_ELEMENT Uint32 = 4"
| "BYTES_PER_ELEMENT Int32 = 4"
| "BYTES_PER_ELEMENT Float32 = 4"
| "BYTES_PER_ELEMENT Float64 = 8"

text \<open>
  Storing a number into an integer typed array wraps it into the element type
  (ToUint8, ToInt8, ...).  Float arrays are only ever filled here with the integral
  sample values the model carries, which they hold unchanged.
\<close>

definition wrapU :: "nat \<Rightarrow> int \<Rightarrow> int" where
  "wrapU w v = v mod 2 ^ w"

definition wrapS :: "nat \<Rightarrow> int \<Rightarrow> int" where
  "wrapS w v = (let u = v mod 2 ^ w in if u < 2 ^ (w - 1) then u else u - 2 ^ w)"

fun toKind :: "tkind \<Rightarrow> int \<Rightarrow> int" where
  "toKind Uint8 v = wrapU 8 v"
| "toKind Int8 v = wrapS 8 v"
| "toKind Uint16 v = wrapU 16 v"
| "toKind Int16 v = wrapS 16 v"
| "toKind Uint32 v = wrapU 32 v"
| "toKind Int32 v = wrapS 32 v"
| "toKind Float32 v = v"
| "toKind Float64 v = v"

text \<open>
  A float element is carried as the bit pattern of its IEEE encoding.  The patterns
  of a NaN (all exponent bits set, a fraction that is not 0) all read as the one
  number NaN, and which pattern a store of NaN writes is left to the platform: where
  an element goes through a number, the model gives no result for them.
\<close>

fun isNaNPattern :: "tkind \<Rightarrow> int \<Rightarrow> bool" where
  "isNaNPattern Float32 v = ((v div 2 ^ 23) mod 256 = 255 \<and> v mod 2 ^ 23 \<noteq> 0)"
| "isNaNPattern Float64 v = ((v div 2 ^ 52) mod 2048 = 2047 \<and> v mod 2 ^ 52 \<noteq> 0)"
| "isNaNPattern _ v = False"

record typedArray =
  kind :: tkind
  elems :: "int list"

text \<open>\<open>new T(n)\<close>: a zero-filled typed array.\<close>

definition newTyped :: "tkind \<Rightarrow> nat \<Rightarrow> typedArray" where
  "newTyped k n = \<lparr>kind = k, elems = replicate n 0\<rparr>"

text \<open>
  \<open>target.set(source, offset)\<close>: copies the source's elements, converted to the
  target's element type, and raises RangeError when they do not fit.
\<close>

definition ta_set :: "typedArray \<Rightarrow> typedArray \<Rightarrow> nat \<Rightarrow> error + typedArray" where
  "ta_set target source off =
     (if off + length (elems source) > length (elems target) then Inl RangeError
      else Inr (target\<lparr>elems := take off (elems target)
                         @ map (toKind (kind target)) (elems source)
                         @ drop (off + length (elems source)) (elems target)\<rparr>))"

text \<open>
  A relative index of \<open>subarray\<close>/\<open>slice\<close>: a negative one counts from the end, and
  the result is clamped to the array.
\<close>

definition relIndex :: "nat \<Rightarrow> int \<Rightarrow> nat" where
  "relIndex len i = (if i < 0 then nat (max 0 (int len + i)) else min len (nat i))"

definition jsSlice :: "'a list \<Rightarrow> int \<Rightarrow> int \<Rightarrow> 'a list" where
  "jsSlice xs b e = (let bi = relIndex (length xs) b; ei = relIndex (length xs) e
                     in take (ei - bi) (drop bi xs))"

definition subarray :: "typedArray \<Rightarrow> int \<Rightarrow> int \<Rightarrow> typedArray" where
  "subarray a b e = a\<lparr>elems := jsSlice (elems a) b e\<rparr>"

definition subarrayFrom :: "typedArray \<Rightarrow> int \<Rightarrow> typedArray" where
  "subarrayFrom a b = a\<lparr>elems := jsSlice (elems a) b (int (length (elems a)))\<rparr>"

text \<open>\<open>getTypedArray(bitsAllocated, pixelRepresentation, size)\<close>; \<open>None\<close> is its \<open>null\<close>.\<close>

definition getTypedArray :: "nat \<Rightarrow> nat \<Rightarrow> nat \<Rightarrow> typedArray option" where
  "getTypedArray bitsAllocated pixelRepresentation sz =
     (if bitsAllocated = 8 then
        (if pixelRepresentation = 0 then Some (newTyped Uint8 sz) else Some (newTyped Int8 sz))
      else if bitsAllocated = 16 then
        (if pixelRepresentation = 0 then Some (newTyped Uint16 sz) else Some (newTyped Int16 sz))
      else if bitsAllocated = 32 then
        (if pixelRepresentation = 0 then Some (newTyped Uint32 sz) else Some (newTyped Int32 sz))
      else None)"

section \<open>Geometry\<close>

record Point3D =
  getX :: real
  getY :: real
  getZ :: real

text \<open>
  Modelled from the spec: the files \<open>math/point\<close>, \<open>math/vector\<close> and \<open>math/matrix\<close>
  (\<open>Point3D.getDistance\<close>, \<open>Point3D.minus\<close>, \<open>Vector3D.dotProduct\<close>, \<open>Matrix33.get\<close>,
  \<open>getIdentityMat33\<close>) are not among the sources.  The spec speaks of the distance
  between two origins, of the difference of two points and of the dot product with
  row 2 of the orientation; they are the Euclidean ones, over exact reals.
\<close>

definition getDistance :: "Point3D \<Rightarrow> Point3D \<Rightarrow> real" where
  "getDistance p q = sqrt ((getX p - getX q)\<^sup>2 + (getY p - getY q)\<^sup>2 + (getZ p - getZ q)\<^sup>2)"

definition minusPoint :: "Point3D \<Rightarrow> Point3D \<Rightarrow> Point3D" where
  "minusPoint p q = \<lparr>getX = getX p - getX q, getY = getY p - getY q, getZ = getZ p - getZ q\<rparr>"

definition dotProduct :: "Point3D \<Rightarrow> Point3D \<Rightarrow> real" where
  "dotProduct u v = getX u * getX v + getY u * getY v + getZ u * getZ v"

type_synonym Matrix33 = "nat \<Rightarrow> nat \<Rightarrow> real"

definition getIdentityMat33 :: Matrix33 where
  "getIdentityMat33 = (\<lambda>r c. if r = c then 1 else 0)"

record Size =
  numberOfColumns :: nat
  numberOfRows :: nat
  numberOfSlices :: "nat option"

definition getNumberOfSlices :: "Size \<Rightarrow> nat" where
  "getNumberOfSlices s = (case numberOfSlices s of None \<Rightarrow> 1 | Some n \<Rightarrow> if n = 0 then 1 else n)"

definition getSliceSize :: "Size \<Rightarrow> nat" where
  "getSliceSize s = numberOfColumns s * numberOfRows s"

definition getTotalSize :: "Size \<Rightarrow> nat" where
  "getTotalSize s = getSliceSize s * getNumberOfSlices s"

record Geometry =
  origin :: Point3D
  origins :: "Point3D list"
  gsize :: Size
  orientation :: Matrix33

text \<open>The constructor: one origin, the given size and orientation.\<close>

definition newGeometry :: "Point3D \<Rightarrow> Size \<Rightarrow> Matrix33 \<Rightarrow> Geometry" where
  "newGeometry org sz ori = \<lparr>origin = org, origins = [org], gsize = sz, orientation = ori\<rparr>"

text \<open>
  The loop of \<open>getSliceIndex\<close>: \<open>closest\<close> runs over \<open>origins\<close> from index \<open>i\<close>, keeping
  the first index of the least distance seen (the comparison is strict).
\<close>

fun closest :: "Point3D \<Rightarrow> Point3D list \<Rightarrow> nat \<Rightarrow> nat \<Rightarrow> real \<Rightarrow> nat" where
  "closest point [] i closestSliceIndex minDist = closestSliceIndex"
| "closest point (o1 # os) i closestSliceIndex minDist =
     (let dist = getDistance point o1
      in if dist < minDist then closest point os (Suc i) i dist
         else closest point os (Suc i) closestSliceIndex minDist)"

text \<open>
  \<open>origins\<close> is never empty (the constructor puts the first origin in and nothing
  removes one); on an empty list \<open>origins[0]\<close> is \<open>undefined\<close> and the source raises
  a TypeError.
\<close>

definition getSliceIndex :: "Geometry \<Rightarrow> Point3D \<Rightarrow> error + nat" where
  "getSliceIndex g point =
     (case origins g of
        [] \<Rightarrow> Inl TypeError
      | o0 # _ \<Rightarrow>
          let closestSliceIndex = closest point (origins g) 0 0 (getDistance point o0);
              normal = \<lparr>getX = orientation g 2 0, getY = orientation g 2 1,
                        getZ = orientation g 2 2\<rparr>;
              dotProd = dotProduct normal (minusPoint point (origins g ! closestSliceIndex))
          in Inr (if dotProd > 0 then closestSliceIndex + 1 else closestSliceIndex))"

text \<open>\<open>xs.splice(index, 0, x)\<close>: an index past the end appends.\<close>

definition splice :: "nat \<Rightarrow> 'a \<Rightarrow> 'a list \<Rightarrow> 'a list" where
  "splice index x xs = take index xs @ [x] @ drop index xs"

definition appendOrigin :: "Geometry \<Rightarrow> Point3D \<Rightarrow> nat \<Rightarrow> Geometry" where
  "appendOrigin g org index =
     g\<lparr>origins := splice index org (origins g),
       gsize := \<lparr>numberOfColumns = numberOfColumns (gsize g),
                 numberOfRows = numberOfRows (gsize g),
                 numberOfSlices = Some (getNumberOfSlices (gsize g) + 1)\<rparr>\<rparr>"

definition indexToOffset :: "Geometry \<Rightarrow> nat \<Rightarrow> nat \<Rightarrow> nat \<Rightarrow> nat" where
  "indexToOffset g i j k = i + j * numberOfColumns (gsize g) + k * getSliceSize (gsize g)"

section \<open>Image\<close>

record RescaleSlopeAndIntercept =
  getSlope :: real
  getIntercept :: real

definition rsi_apply :: "RescaleSlopeAndIntercept \<Rightarrow> real \<Rightarrow> real" where
  "rsi_apply r v = v * getSlope r + getIntercept r"

definition isID :: "RescaleSlopeAndIntercept \<Rightarrow> bool" where
  "isID r = (getSlope r = 1 \<and> getIntercept r = 0)"

text \<open>The values of the image's \<open>meta\<close> object: strings, numbers and the flag \<open>IsSigned\<close>.\<close>

datatype metaValue = MStr string | MNum int | MBool bool

fun truthy :: "metaValue option \<Rightarrow> bool" where
  "truthy None = False"
| "truthy (Some (MStr s)) = (s \<noteq> [])"
| "truthy (Some (MNum n)) = (n \<noteq> 0)"
| "truthy (Some (MBool b)) = b"

text \<open>
  The private state of an \<open>Image\<close>.  The overlays, the cached data range and the
  histogram serve the display only and are left out.
\<close>

record Image =
  geometry :: Geometry
  buffer :: "typedArray list"
  rsis :: "RescaleSlopeAndIntercept list"
  isIdentityRSI :: bool
  isConstantRSI :: bool
  photometricInterpretation :: string
  planarConfiguration :: nat
  meta :: "(string \<times> metaValue) list"

definition newImage :: "Geometry \<Rightarrow> typedArray list \<Rightarrow> Image" where
  "newImage g buf =
     \<lparr>geometry = g, buffer = buf,
      rsis = replicate (getNumberOfSlices (gsize g)) \<lparr>getSlope = 1, getIntercept = 0\<rparr>,
      isIdentityRSI = True, isConstantRSI = True,
      photometricInterpretation = ''MONOCHROME2'', planarConfiguration = 0, meta = []\<rparr>"

text \<open>
  \<open>rsis[k] = inRsi\<close> on a JavaScript array: an index past the end would leave holes,
  which the model does not represent, so the setter is modelled for \<open>k\<close> up to the
  length (where it overwrites or appends) and raises the model's TypeError beyond,
  where the source's flag loop would read \<open>isID\<close> of a hole.
\<close>

definition constantRSI :: "RescaleSlopeAndIntercept list \<Rightarrow> bool" where
  "constantRSI rs = (\<forall>s \<in> {1 ..< length rs}. rs ! s = rs ! (s - 1))"

definition setRescaleSlopeAndIntercept ::
  "Image \<Rightarrow> RescaleSlopeAndIntercept \<Rightarrow> nat \<Rightarrow> error + Image" where
  "setRescaleSlopeAndIntercept img inRsi k =
     (if k > length (rsis img) then Inl TypeError
      else let rs = (if k < length (rsis img) then (rsis img)[k := inRsi]
                     else rsis img @ [inRsi])
           in Inr (img\<lparr>rsis := rs, isIdentityRSI := list_all isID rs,
                       isConstantRSI := constantRSI rs\<rparr>))"

definition getValueAtOffset :: "Image \<Rightarrow> nat \<Rightarrow> nat \<Rightarrow> error + int option" where
  "getValueAtOffset img off frame =
     (if frame \<ge> length (buffer img) then Inl TypeError
      else let a = elems (buffer img ! frame)
           in Inr (if off < length a then Some (a ! off) else None))"

text \<open>
  \<open>getValue(i, j, k, f)\<close>.  The value is \<open>None\<close> for JavaScript's \<open>undefined\<close> (an
  offset outside the frame).
\<close>

definition getValue :: "Image \<Rightarrow> nat \<Rightarrow> nat \<Rightarrow> nat \<Rightarrow> nat \<Rightarrow> error + int option" where
  "getValue img i j k f = getValueAtOffset img (indexToOffset (geometry img) i j k) f"

text \<open>
  \<open>getRescaledValue(i, j, k, f)\<close>: the stored \<open>isIdentityRSI\<close> flag decides whether
  the slice's RSI is applied.  \<open>rsis[k]\<close> outside the list is \<open>undefined\<close>, whose
  \<open>apply\<close> raises; \<open>undefined * slope + intercept\<close> is NaN, the \<open>None\<close> of the result.
\<close>

definition getRescaledValue :: "Image \<Rightarrow> nat \<Rightarrow> nat \<Rightarrow> nat \<Rightarrow> nat \<Rightarrow> error + real option" where
  "getRescaledValue img i j k f =
     (case getValue img i j k f of
        Inl e \<Rightarrow> Inl e
      | Inr val \<Rightarrow>
          if \<not> isIdentityRSI img then
            (if k \<ge> length (rsis img) then Inl TypeError
             else Inr (map_option (\<lambda>v. rsi_apply (rsis img ! k) (of_int v)) val))
          else Inr (map_option of_int val))"

text \<open>
  \<open>appendSlice(rhs, frame)\<close>, the checks in the source's order.  \<open>None\<close> for \<open>rhs\<close> is
  \<open>null\<close>, \<open>None\<close> for \<open>frame\<close> is a call without the second argument.
\<close>

definition metaDiffers :: "(string \<times> metaValue) list \<Rightarrow> (string \<times> metaValue) list \<Rightarrow> string option" where
  "metaDiffers m rm =
     (case filter (\<lambda>(key, v). map_of rm key \<noteq> Some v) m of
        [] \<Rightarrow> None
      | (key, _) # _ \<Rightarrow> Some key)"

definition appendSlice :: "Image \<Rightarrow> Image option \<Rightarrow> nat option \<Rightarrow> error + (Image \<times> nat)" where
  "appendSlice img rhs0 frame =
     (case rhs0 of
        None \<Rightarrow> Inl (Error ''Cannot append null slice'')
      | Some rhs \<Rightarrow>
        let rhsSize = gsize (geometry rhs); sz = gsize (geometry img) in
        if getNumberOfSlices rhsSize \<noteq> 1 then
          Inl (Error ''Cannot append more than one slice'')
        else if numberOfColumns sz \<noteq> numberOfColumns rhsSize then
          Inl (Error ''Cannot append a slice with different number of columns'')
        else if numberOfRows sz \<noteq> numberOfRows rhsSize then
          Inl (Error ''Cannot append a slice with different number of rows'')
        else if photometricInterpretation img \<noteq> photometricInterpretation rhs then
          Inl (Error ''Cannot append a slice with different photometric interpretation'')
        else case metaDiffers (meta img) (meta rhs) of
          Some key \<Rightarrow> Inl (Error (''Cannot append a slice with different '' @ key))
        | None \<Rightarrow>
          let f = (case frame of None \<Rightarrow> 0 | Some fr \<Rightarrow> fr);
              mul = (if photometricInterpretation img = ''RGB''
                        \<or> photometricInterpretation img = ''YBR_FULL_422'' then 3 else 1);
              sliceSize = mul * getSliceSize sz
          in
          if f \<ge> length (buffer img) then Inl TypeError
          else
          let old = buffer img ! f in
          case getSliceIndex (geometry img) (origin (geometry rhs)) of
            Inl e \<Rightarrow> Inl e
          | Inr newSliceNb \<Rightarrow>
          (case getTypedArray (BYTES_PER_ELEMENT (kind old) * 8)
                  (if truthy (map_of (meta img) ''IsSigned'') then 1 else 0)
                  (sliceSize * (getNumberOfSlices sz + 1)) of
            None \<Rightarrow> Inl TypeError
          | Some newBuffer \<Rightarrow>
            if f \<ge> length (buffer rhs) then Inl TypeError
            else
            let rf = buffer rhs ! f;
                filled =
                  (if newSliceNb = 0 then
                     (case ta_set newBuffer rf 0 of Inl e \<Rightarrow> Inl e
                      | Inr b1 \<Rightarrow> ta_set b1 old sliceSize)
                   else if newSliceNb = getNumberOfSlices sz then
                     (case ta_set newBuffer old 0 of Inl e \<Rightarrow> Inl e
                      | Inr b1 \<Rightarrow> ta_set b1 rf (getNumberOfSlices sz * sliceSize))
                   else
                     (let off = newSliceNb * sliceSize in
                      case ta_set newBuffer (subarray old 0 (int off - 1)) 0 of Inl e \<Rightarrow> Inl e
                      | Inr b1 \<Rightarrow>
                        (case ta_set b1 rf off of Inl e \<Rightarrow> Inl e
                         | Inr b2 \<Rightarrow> ta_set b2 (subarrayFrom old (int off)) (off + sliceSize))))
            in
            case filled of
              Inl e \<Rightarrow> Inl e
            | Inr nb \<Rightarrow>
              (case rsis rhs of
                 [] \<Rightarrow> Inl TypeError
               | r0 # _ \<Rightarrow>
                 Inr (img\<lparr>geometry := appendOrigin (geometry img) (origin (geometry rhs)) newSliceNb,
                          rsis := splice newSliceNb r0 (rsis img),
                          buffer := (buffer img)[f := nb]\<rparr>, newSliceNb))))"

section \<open>DataReader\<close>

type_synonym byte = "8 word"

text \<open>
  A \<open>DataReader\<close> wraps the input \<open>ArrayBuffer\<close> and a byte order.  The byte order of
  the platform (\<open>isNativeLittleEndianFunc\<close>) is a field of the model's reader.  The
  model is of an environment without \<open>window.TextDecoder\<close>, where the reader's text
  decoder is the source's own \<open>defaultTextDecoder\<close> and \<open>setUtfLabel\<close> does nothing.
\<close>

record DataReader =
  bytes :: "byte list"
  isLittleEndian :: bool
  isNativeLittleEndian :: bool

definition needFlip :: "DataReader \<Rightarrow> bool" where
  "needFlip r = (isLittleEndian r \<noteq> isNativeLittleEndian r)"

text \<open>The number a byte string stands for, least significant byte first.\<close>

definition leValue :: "byte list \<Rightarrow> nat" where
  "leValue bs = foldr (\<lambda>b acc. unat b + 256 * acc) bs 0"

text \<open>
  A window of the buffer; a \<open>DataView\<close> getter and a typed-array constructor raise
  RangeError when it does not lie inside.
\<close>

definition viewBytes :: "byte list \<Rightarrow> nat \<Rightarrow> nat \<Rightarrow> error + byte list" where
  "viewBytes buf off n =
     (if off + n > length buf then Inl RangeError else Inr (take n (drop off buf)))"

text \<open>
  The value of one array element from its bytes, in the given byte order.  A float
  element is carried as its IEEE bit pattern.
\<close>

definition interp :: "tkind \<Rightarrow> bool \<Rightarrow> byte list \<Rightarrow> int" where
  "interp k le bs = toKind k (int (leValue (if le then bs else rev bs)))"

text \<open>\<open>view.getXxx(byteOffset, littleEndian)\<close> for the element type \<open>k\<close>.\<close>

definition dvGet :: "tkind \<Rightarrow> byte list \<Rightarrow> nat \<Rightarrow> bool \<Rightarrow> error + int" where
  "dvGet k buf off le =
     (case viewBytes buf off (BYTES_PER_ELEMENT k) of
        Inl e \<Rightarrow> Inl e
      | Inr bs \<Rightarrow> Inr (interp k le bs))"

definition readUint16 :: "DataReader \<Rightarrow> nat \<Rightarrow> error + int" where
  "readUint16 r byteOffset = dvGet Uint16 (bytes r) byteOffset (isLittleEndian r)"

definition readUint32 :: "DataReader \<Rightarrow> nat \<Rightarrow> error + int" where
  "readUint32 r byteOffset = dvGet Uint32 (bytes r) byteOffset (isLittleEndian r)"

text \<open>Cutting a byte string into elements of \<open>n\<close> bytes; an incomplete tail is dropped.\<close>

fun chunks :: "nat \<Rightarrow> 'a list \<Rightarrow> 'a list list" where
  "chunks n xs = (if n = 0 \<or> length xs < n then [] else take n xs # chunks n (drop n xs))"

declare chunks.simps [simp del]

text \<open>
  \<open>flipArrayEndianness\<close>: the bytes of every element are reversed (the inner loop
  swaps \<open>u8[k]\<close> and \<open>u8[j]\<close> from both ends of the element).
\<close>

definition flipArrayEndianness :: "nat \<Rightarrow> byte list \<Rightarrow> byte list" where
  "flipArrayEndianness bpel u8 = concat (map rev (chunks bpel u8))"

text \<open>
  The aligned path of the array readers: \<open>new T(buffer, byteOffset, arraySize)\<close> is a
  view of the buffer in the platform's byte order, whose bytes are flipped when the
  reader's byte order is the other one.  \<open>flipArrayEndianness\<close> works in place, on the
  input buffer itself: afterwards the caller's buffer, and every other view of these
  bytes, hold them flipped.  The model gives the contents of the array that is
  returned and does not carry the changed buffer.  Within \<open>parse\<close> the bytes of an
  array are looked at a second time in one place only, the raw value of an item of
  explicit length, a \<open>Uint8Array\<close> view made before the elements of the item are
  read; \<open>readItemDataElement\<close> gives no result there when the reader flips.
\<close>

definition readAligned :: "tkind \<Rightarrow> DataReader \<Rightarrow> nat \<Rightarrow> nat \<Rightarrow> error + typedArray" where
  "readAligned k r byteOffset arraySize =
     (case viewBytes (bytes r) byteOffset (arraySize * BYTES_PER_ELEMENT k) of
        Inl e \<Rightarrow> Inl e
      | Inr bs \<Rightarrow>
          let bs' = (if needFlip r then flipArrayEndianness (BYTES_PER_ELEMENT k) bs else bs)
          in Inr \<lparr>kind = k, elems =
                   map (interp k (isNativeLittleEndian r)) (chunks (BYTES_PER_ELEMENT k) bs')\<rparr>)"

text \<open>The first error of a list of results, or all the values.\<close>

fun collect :: "(error + 'a) list \<Rightarrow> error + 'a list" where
  "collect [] = Inr []"
| "collect (Inl e # _) = Inl e"
| "collect (Inr x # xs) = (case collect xs of Inl e \<Rightarrow> Inl e | Inr ys \<Rightarrow> Inr (x # ys))"

text \<open>
  The fallback path: \<open>new T(arraySize)\<close> and one \<open>DataView\<close> read per index
  \<open>i < arraySize\<close>.  \<open>arraySize = size / BYTES_PER_ELEMENT\<close> is not rounded by the
  source: the constructor truncates it, the loop runs while \<open>i\<close> is below the
  fraction, and a store past the end of the new array is ignored.  \<open>g\<close> is the
  element type of the getter the source calls.  Every element goes through a number
  here, so a float array with a NaN among the elements stored has no result in the
  model.
\<close>

definition readFallback :: "tkind \<Rightarrow> tkind \<Rightarrow> DataReader \<Rightarrow> nat \<Rightarrow> nat \<Rightarrow> error + typedArray" where
  "readFallback k g r byteOffset sz =
     (let bpe = BYTES_PER_ELEMENT k;
          len = sz div bpe;
          iterations = (sz + bpe - 1) div bpe
      in case collect (map (\<lambda>i. dvGet g (bytes r) (byteOffset + bpe * i) (isLittleEndian r))
                        [0 ..< iterations]) of
           Inl e \<Rightarrow> Inl e
         | Inr vs \<Rightarrow>
             if list_ex (isNaNPattern k) (take len vs) then Inl Unmodelled
             else Inr \<lparr>kind = k, elems = map (toKind k) (take len vs)\<rparr>)"

definition readArray :: "tkind \<Rightarrow> tkind \<Rightarrow> DataReader \<Rightarrow> nat \<Rightarrow> nat \<Rightarrow> error + typedArray" where
  "readArray k g r byteOffset sz =
     (if byteOffset mod BYTES_PER_ELEMENT k = 0
      then readAligned k r byteOffset (sz div BYTES_PER_ELEMENT k)
      else readFallback k g r byteOffset sz)"

definition readUint8Array :: "DataReader \<Rightarrow> nat \<Rightarrow> nat \<Rightarrow> error + typedArray" where
  "readUint8Array r byteOffset sz =
     (case viewBytes (bytes r) byteOffset sz of
        Inl e \<Rightarrow> Inl e
      | Inr bs \<Rightarrow> Inr \<lparr>kind = Uint8, elems = map (\<lambda>b. interp Uint8 True [b]) bs\<rparr>)"

definition readInt8Array :: "DataReader \<Rightarrow> nat \<Rightarrow> nat \<Rightarrow> error + typedArray" where
  "readInt8Array r byteOffset sz =
     (case viewBytes (bytes r) byteOffset sz of
        Inl e \<Rightarrow> Inl e
      | Inr bs \<Rightarrow> Inr \<lparr>kind = Int8, elems = map (\<lambda>b. interp Int8 True [b]) bs\<rparr>)"

text \<open>The fallback of \<open>readUint16Array\<close> calls \<open>view.getInt16\<close>, as the source has it.\<close>

definition readUint16Array :: "DataReader \<Rightarrow> nat \<Rightarrow> nat \<Rightarrow> error + typedArray" where
  "readUint16Array = readArray Uint16 Int16"

definition readInt16Array :: "DataReader \<Rightarrow> nat \<Rightarrow> nat \<Rightarrow> error + typedArray" where
  "readInt16Array = readArray Int16 Int16"

definition readUint32Array :: "DataReader \<Rightarrow> nat \<Rightarrow> nat \<Rightarrow> error + typedArray" where
  "readUint32Array = readArray Uint32 Uint32"

definition readInt32Array :: "DataReader \<Rightarrow> nat \<Rightarrow> nat \<Rightarrow> error + typedArray" where
  "readInt32Array = readArray Int32 Int32"

definition readFloat32Array :: "DataReader \<Rightarrow> nat \<Rightarrow> nat \<Rightarrow> error + typedArray" where
  "readFloat32Array = readArray Float32 Float32"

definition readFloat64Array :: "DataReader \<Rightarrow> nat \<Rightarrow> nat \<Rightarrow> error + typedArray" where
  "readFloat64Array = readArray Float64 Float64"

text \<open>\<open>Number.prototype.toString(16)\<close> of a non-negative integer, and \<open>toUpperCase\<close>.\<close>

definition hexDigit :: "nat \<Rightarrow> char" where
  "hexDigit d = (''0123456789abcdef'') ! d"

fun toString16 :: "nat \<Rightarrow> string" where
  "toString16 n = (if n < 16 then [hexDigit n] else toString16 (n div 16) @ [hexDigit (n mod 16)])"

declare toString16.simps [simp del]

definition toUpperChar :: "char \<Rightarrow> char" where
  "toUpperChar c = (let n = (of_char c :: nat)
                    in if 97 \<le> n \<and> n \<le> 122 then char_of (n - 32) else c)"

definition toUpperCase :: "string \<Rightarrow> string" where
  "toUpperCase s = map toUpperChar s"

definition readHex :: "DataReader \<Rightarrow> nat \<Rightarrow> error + string" where
  "readHex r byteOffset =
     (case readUint16 r byteOffset of
        Inl e \<Rightarrow> Inl e
      | Inr v \<Rightarrow> let str = toString16 (nat v)
                 in Inr (take (6 - length str) ''0x0000'' @ toUpperCase str))"

text \<open>\<open>defaultTextDecoder.decode\<close>: one character per byte, \<open>String.fromCharCode\<close>.\<close>

definition decode :: "byte list \<Rightarrow> string" where
  "decode buf = map (\<lambda>b. char_of (unat b)) buf"

definition readString :: "DataReader \<Rightarrow> nat \<Rightarrow> nat \<Rightarrow> error + string" where
  "readString r byteOffset nChars =
     (case viewBytes (bytes r) byteOffset nChars of
        Inl e \<Rightarrow> Inl e
      | Inr bs \<Rightarrow> Inr (decode bs))"

text \<open>Without \<open>window.TextDecoder\<close> the special strings are decoded the same way.\<close>

definition readSpecialString :: "DataReader \<Rightarrow> nat \<Rightarrow> nat \<Rightarrow> error + string" where
  "readSpecialString r byteOffset nChars = readString r byteOffset nChars"


section \<open>Data elements\<close>

text \<open>
  What \<open>readTag\<close> returns, and the \<open>tag\<close> of an element.  The elements the writer
  builds itself have no \<open>name\<close> and no \<open>endOffset\<close> in their tag.
\<close>

record Tag =
  group :: string
  element :: string
  name :: "string option"
  tagEndOffset :: "nat option"

text \<open>A value length: a number, or the string \<open>'u/l'\<close> for an undefined length.\<close>

datatype vlen = VL nat | UndefinedLength

text \<open>
  The values the parser and the writer handle: strings, numbers, typed arrays, plain
  arrays, and items (objects from tag key to data element, in the order of their
  keys).  \<open>startOffset\<close> and \<open>endOffset\<close> are \<open>None\<close> when the property is missing or
  is not a number.
\<close>

datatype jsval =
    JUndefined
  | JNull
  | JStr string
  | JNum int
  | JTyped typedArray
  | JArr "jsval list"
  | JObj "(string \<times> dataElement) list"
and dataElement =
    DataElement (tag: Tag) (vr: string) (vl: vlen) (val: jsval)
                (startOffset: "nat option") (endOffset: "nat option")

type_synonym elements = "(string \<times> dataElement) list"

text \<open>
  The dictionary (\<open>./dictionary\<close>) and the table \<open>TagGroups\<close> are not among the
  sources; they are parameters of the model.  A dictionary entry is
  \<open>[vr, vm, keyword]\<close>.
\<close>

record Env =
  dictionary :: "(string \<times> (string \<times> (string \<times> string \<times> string)) list) list"
  TagGroups :: "(string \<times> string) list"

definition dictEntry :: "Env \<Rightarrow> string \<Rightarrow> string \<Rightarrow> (string \<times> string \<times> string) option" where
  "dictEntry env g e =
     (case map_of (dictionary env) g of None \<Rightarrow> None | Some es \<Rightarrow> map_of es e)"

definition bind :: "error + 'a \<Rightarrow> ('a \<Rightarrow> error + 'b) \<Rightarrow> error + 'b" where
  "bind m f = (case m of Inl e \<Rightarrow> Inl e | Inr x \<Rightarrow> f x)"

subsection \<open>Coercions of JavaScript\<close>

definition isFloatKind :: "tkind \<Rightarrow> bool" where
  "isFloatKind k = (k = Float32 \<or> k = Float64)"

text \<open>\<open>v[i]\<close>.  An element of a float array is a number the model does not hold.\<close>

definition jsIndex :: "jsval \<Rightarrow> nat \<Rightarrow> error + jsval" where
  "jsIndex v i =
     (case v of
        JUndefined \<Rightarrow> Inl TypeError
      | JNull \<Rightarrow> Inl TypeError
      | JStr s \<Rightarrow> Inr (if i < length s then JStr [s ! i] else JUndefined)
      | JNum n \<Rightarrow> Inr JUndefined
      | JTyped a \<Rightarrow>
          (if i < length (elems a)
           then (if isFloatKind (kind a) then Inl Unmodelled else Inr (JNum (elems a ! i)))
           else Inr JUndefined)
      | JArr xs \<Rightarrow> Inr (if i < length xs then xs ! i else JUndefined)
      | JObj kes \<Rightarrow> Inl Unmodelled)"

text \<open>\<open>v.length\<close>; \<open>None\<close> is \<open>undefined\<close>.\<close>

definition jsLength :: "jsval \<Rightarrow> error + nat option" where
  "jsLength v =
     (case v of
        JUndefined \<Rightarrow> Inl TypeError
      | JNull \<Rightarrow> Inl TypeError
      | JStr s \<Rightarrow> Inr (Some (length s))
      | JNum n \<Rightarrow> Inr None
      | JTyped a \<Rightarrow> Inr (Some (length (elems a)))
      | JArr xs \<Rightarrow> Inr (Some (length xs))
      | JObj kes \<Rightarrow> Inl Unmodelled)"

text \<open>The white space \<open>trim\<close>, \<open>parseInt\<close> and ToNumber skip, among the 8-bit characters.\<close>

definition isWhiteSpace :: "char \<Rightarrow> bool" where
  "isWhiteSpace c = ((of_char c :: nat) \<in> {9, 10, 11, 12, 13, 32, 160})"

definition trim :: "string \<Rightarrow> string" where
  "trim s = rev (dropWhile isWhiteSpace (rev (dropWhile isWhiteSpace s)))"

definition isDigit :: "char \<Rightarrow> bool" where
  "isDigit c = (48 \<le> (of_char c :: nat) \<and> (of_char c :: nat) \<le> 57)"

definition digitsValue :: "string \<Rightarrow> nat" where
  "digitsValue ds = foldl (\<lambda>acc c. 10 * acc + (of_char c - 48)) 0 ds"

text \<open>
  \<open>parseInt(str, 10)\<close>: leading white space, a sign, then the longest run of digits;
  \<open>None\<close> is NaN.
\<close>

definition parseInt10 :: "string \<Rightarrow> int option" where
  "parseInt10 str =
     (let s = dropWhile isWhiteSpace str;
          neg = (s \<noteq> [] \<and> hd s = CHR ''-'');
          s' = (if s \<noteq> [] \<and> (hd s = CHR ''-'' \<or> hd s = CHR ''+'') then tl s else s);
          ds = takeWhile isDigit s'
      in if ds = [] then None
         else Some (if neg then - int (digitsValue ds) else int (digitsValue ds)))"

text \<open>
  \<open>parseInt(v, 10)\<close> of a value: the value is turned into a string first.  An array
  prints its elements separated by commas, so only the text of its first element can
  be read as the number; \<open>undefined\<close>, \<open>null\<close> and objects print no digits.
\<close>

fun parseInt :: "jsval \<Rightarrow> int option" where
  "parseInt (JNum n) = Some n"
| "parseInt (JStr s) = parseInt10 s"
| "parseInt (JTyped a) = (case elems a of [] \<Rightarrow> None | x # _ \<Rightarrow> Some x)"
| "parseInt (JArr []) = None"
| "parseInt (JArr (x # _)) = parseInt x"
| "parseInt JUndefined = None"
| "parseInt JNull = None"
| "parseInt (JObj _) = None"

definition hexValue :: "char \<Rightarrow> nat option" where
  "hexValue c = (let n = (of_char c :: nat)
                 in if 48 \<le> n \<and> n \<le> 57 then Some (n - 48)
                    else if 65 \<le> n \<and> n \<le> 70 then Some (n - 55)
                    else if 97 \<le> n \<and> n \<le> 102 then Some (n - 87)
                    else None)"

text \<open>
  The strings ToNumber reads as a number (StringNumericLiteral, after trimming):
  an optionally signed \<open>Infinity\<close> or decimal literal with an optional fraction and
  exponent, or an unsigned binary, octal or hexadecimal integer literal.
\<close>

definition isExponentPart :: "string \<Rightarrow> bool" where
  "isExponentPart e =
     (e = [] \<or>
      ((hd e = CHR ''e'' \<or> hd e = CHR ''E'') \<and>
       (let r = tl e;
            ds = (if r \<noteq> [] \<and> (hd r = CHR ''+'' \<or> hd r = CHR ''-'') then tl r else r)
        in ds \<noteq> [] \<and> list_all isDigit ds)))"

definition isUnsignedDecimal :: "string \<Rightarrow> bool" where
  "isUnsignedDecimal s =
     (s = ''Infinity'' \<or>
      (let ds = takeWhile isDigit s; r = dropWhile isDigit s in
       if ds \<noteq> [] then
         (if r \<noteq> [] \<and> hd r = CHR ''.'' then isExponentPart (dropWhile isDigit (tl r))
          else isExponentPart r)
       else r \<noteq> [] \<and> hd r = CHR ''.'' \<and> takeWhile isDigit (tl r) \<noteq> []
            \<and> isExponentPart (dropWhile isDigit (tl r))))"

definition isNonDecimalLiteral :: "string \<Rightarrow> bool" where
  "isNonDecimalLiteral s =
     (length s > 2 \<and> hd s = CHR ''0'' \<and>
      (((s ! 1 = CHR ''x'' \<or> s ! 1 = CHR ''X'') \<and> list_all (\<lambda>c. hexValue c \<noteq> None) (drop 2 s))
       \<or> ((s ! 1 = CHR ''o'' \<or> s ! 1 = CHR ''O'')
           \<and> list_all (\<lambda>c. 48 \<le> (of_char c :: nat) \<and> (of_char c :: nat) \<le> 55) (drop 2 s))
       \<or> ((s ! 1 = CHR ''b'' \<or> s ! 1 = CHR ''B'')
           \<and> list_all (\<lambda>c. c = CHR ''0'' \<or> c = CHR ''1'') (drop 2 s))))"

definition isStrNumericLiteral :: "string \<Rightarrow> bool" where
  "isStrNumericLiteral s =
     (isNonDecimalLiteral s
      \<or> isUnsignedDecimal (if s \<noteq> [] \<and> (hd s = CHR ''+'' \<or> hd s = CHR ''-'') then tl s else s))"

text \<open>
  ToNumber, for the integers the model holds: a number, or a string that is a
  decimal integer literal between white space (the empty string is 0).  \<open>None\<close> is
  NaN: \<open>undefined\<close>, an object, a string that is no numeric literal.  A numeric
  literal of another form (a fraction, an exponent, \<open>Infinity\<close>, another base) and
  an array are \<open>Unmodelled\<close>.
\<close>

definition toNumber :: "jsval \<Rightarrow> error + int option" where
  "toNumber v =
     (case v of
        JNum n \<Rightarrow> Inr (Some n)
      | JUndefined \<Rightarrow> Inr None
      | JNull \<Rightarrow> Inr (Some 0)
      | JStr str \<Rightarrow>
          (let s = trim str;
               neg = (s \<noteq> [] \<and> hd s = CHR ''-'');
               ds = (if s \<noteq> [] \<and> (hd s = CHR ''-'' \<or> hd s = CHR ''+'') then tl s else s)
           in if s = [] then Inr (Some 0)
              else if ds \<noteq> [] \<and> list_all isDigit ds
              then Inr (Some (if neg then - int (digitsValue ds) else int (digitsValue ds)))
              else if isStrNumericLiteral s then Inl Unmodelled
              else Inr None)
      | JObj kes \<Rightarrow> Inr None
      | _ \<Rightarrow> Inl Unmodelled)"

text \<open>
  \<open>cleanString\<close>.  \<open>String.fromCharCode('u200B')\<close> is the character of code 0 (the
  argument is not a number), so what is removed at the end is one NUL.  A falsy
  input is returned as it is; \<open>trim\<close> of a truthy value that is no string is not a
  function.
\<close>

definition cleanString :: "jsval \<Rightarrow> error + jsval" where
  "cleanString inputStr =
     (case inputStr of
        JUndefined \<Rightarrow> Inr JUndefined
      | JNull \<Rightarrow> Inr JNull
      | JNum n \<Rightarrow> (if n = 0 then Inr (JNum 0) else Inl TypeError)
      | JStr s \<Rightarrow>
          (if s = [] then Inr (JStr s)
           else let res = trim s
                in Inr (JStr (if res \<noteq> [] \<and> last res = char_of (0::nat) then butlast res else res)))
      | _ \<Rightarrow> Inl TypeError)"

subsection \<open>Transfer syntaxes\<close>

text \<open>
  \<open>syntax.match(/1.2.840.10008.1.2.4.9/)\<close>: the pattern is searched anywhere in the
  string, and its dots stand for any character but a line terminator.
\<close>

fun matchHere :: "string \<Rightarrow> string \<Rightarrow> bool" where
  "matchHere [] s = True"
| "matchHere (p # ps) [] = False"
| "matchHere (p # ps) (c # cs) =
     ((if p = CHR ''.'' then (of_char c :: nat) \<noteq> 10 \<and> (of_char c :: nat) \<noteq> 13 else p = c)
      \<and> matchHere ps cs)"

fun regexSearch :: "string \<Rightarrow> string \<Rightarrow> bool" where
  "regexSearch pat [] = matchHere pat []"
| "regexSearch pat (c # cs) = (matchHere pat (c # cs) \<or> regexSearch pat cs)"

definition isImplicitTransferSyntax :: "jsval \<Rightarrow> bool" where
  "isImplicitTransferSyntax syntax = (syntax = JStr ''1.2.840.10008.1.2'')"

definition isBigEndianTransferSyntax :: "jsval \<Rightarrow> bool" where
  "isBigEndianTransferSyntax syntax = (syntax = JStr ''1.2.840.10008.1.2.2'')"

definition isJpegBaselineTransferSyntax :: "jsval \<Rightarrow> bool" where
  "isJpegBaselineTransferSyntax syntax =
     (syntax = JStr ''1.2.840.10008.1.2.4.50'' \<or> syntax = JStr ''1.2.840.10008.1.2.4.51'')"

definition isJpegLosslessTransferSyntax :: "jsval \<Rightarrow> bool" where
  "isJpegLosslessTransferSyntax syntax =
     (syntax = JStr ''1.2.840.10008.1.2.4.57'' \<or> syntax = JStr ''1.2.840.10008.1.2.4.70'')"

definition isJpeg2000TransferSyntax :: "jsval \<Rightarrow> error + bool" where
  "isJpeg2000TransferSyntax syntax =
     (case syntax of
        JStr s \<Rightarrow> Inr (regexSearch ''1.2.840.10008.1.2.4.9'' s)
      | _ \<Rightarrow> Inl TypeError)"

definition isReadSupportedTransferSyntax :: "jsval \<Rightarrow> error + bool" where
  "isReadSupportedTransferSyntax syntax =
     (if syntax = JStr ''1.2.840.10008.1.2'' \<or> syntax = JStr ''1.2.840.10008.1.2.1''
         \<or> syntax = JStr ''1.2.840.10008.1.2.2''
         \<or> isJpegBaselineTransferSyntax syntax \<or> isJpegLosslessTransferSyntax syntax
      then Inr True
      else isJpeg2000TransferSyntax syntax)"

subsection \<open>Tags and value representations\<close>

definition getGroupElementKey :: "string \<Rightarrow> string \<Rightarrow> string" where
  "getGroupElementKey g e = ''x'' @ take 6 (drop 2 g) @ take 6 (drop 2 e)"

definition is32bitVLVRFunc :: "string \<Rightarrow> bool" where
  "is32bitVLVRFunc v =
     (v = ''OB'' \<or> v = ''OW'' \<or> v = ''OF'' \<or> v = ''ox'' \<or> v = ''UT'' \<or> v = ''SQ'' \<or> v = ''UN'')"

definition isTagWithVR :: "string \<Rightarrow> string \<Rightarrow> bool" where
  "isTagWithVR g e =
     (\<not> (g = ''0xFFFE'' \<and> (e = ''0xE000'' \<or> e = ''0xE00D'' \<or> e = ''0xE0DD'')))"

definition getDataElementPrefixByteSize :: "string \<Rightarrow> bool \<Rightarrow> nat" where
  "getDataElementPrefixByteSize v isImplicit = (if isImplicit \<or> \<not> is32bitVLVRFunc v then 8 else 12)"

definition readTag :: "DataReader \<Rightarrow> nat \<Rightarrow> error + Tag" where
  "readTag r offset =
     bind (readHex r offset) (\<lambda>g.
     bind (readHex r (offset + 2)) (\<lambda>e.
       Inr \<lparr>group = g, element = e, name = Some (getGroupElementKey g e),
            tagEndOffset = Some (offset + 4)\<rparr>))"

text \<open>
  The first half of \<open>readDataElement\<close>: the tag, the VR, the value length.  The
  result is the tag, the VR, the \<open>vl\<close> the element will carry (\<open>vlString\<close>), the number
  of bytes to read (0 for an undefined length) and the offset of the value.
\<close>

definition readHeader ::
  "Env \<Rightarrow> DataReader \<Rightarrow> nat \<Rightarrow> bool \<Rightarrow> error + (Tag \<times> string \<times> vlen \<times> nat \<times> nat)" where
  "readHeader env r offset0 implicit =
     bind (readTag r offset0) (\<lambda>t.
     let offset = offset0 + 4 in
     bind (if isTagWithVR (group t) (element t) then
             (if implicit then
                Inr ((case dictEntry env (group t) (element t) of
                        None \<Rightarrow> ''UN'' | Some (v, _, _) \<Rightarrow> v), True, offset)
              else
                bind (readString r offset 2) (\<lambda>v.
                  Inr (v, is32bitVLVRFunc v,
                       if is32bitVLVRFunc v then offset + 2 + 2 else offset + 2)))
           else Inr (''UN'', True, offset)) (\<lambda>(v, is32bitVLVR, offset).
     bind (if is32bitVLVR then bind (readUint32 r offset) (\<lambda>n. Inr (nat n, offset + 4))
           else bind (readUint16 r offset) (\<lambda>n. Inr (nat n, offset + 2))) (\<lambda>(n, offset).
       Inr (t, v, if n = 4294967295 then UndefinedLength else VL n,
            if n = 4294967295 then 0 else n, offset))))"

subsection \<open>Reading the value of an element\<close>

definition mapR :: "('a \<Rightarrow> 'b) \<Rightarrow> error + 'a \<Rightarrow> error + 'b" where
  "mapR f m = (case m of Inl e \<Rightarrow> Inl e | Inr x \<Rightarrow> Inr (f x))"

text \<open>
  Pixel data of explicit length.  \<open>readUint64Array\<close> and \<open>readInt64Array\<close> are not
  methods of the \<open>DataReader\<close>: calling them is a TypeError.  For other values of
  BitsAllocated \<open>data\<close> stays \<open>null\<close>.
\<close>

definition readPixelValue :: "elements \<Rightarrow> DataReader \<Rightarrow> nat \<Rightarrow> nat \<Rightarrow> error + jsval" where
  "readPixelValue els r offset n =
     bind (case map_of els ''x00280100'' of
             None \<Rightarrow> Inr (JNum 16) | Some e \<Rightarrow> jsIndex (val e) 0) (\<lambda>bitsAllocated.
     bind (case map_of els ''x00280103'' of
             None \<Rightarrow> Inr (JNum 0) | Some e \<Rightarrow> jsIndex (val e) 0) (\<lambda>pixelRepresentation.
       if bitsAllocated = JNum 8 then
         (if pixelRepresentation = JNum 0 then mapR JTyped (readUint8Array r offset n)
          else mapR JTyped (readInt8Array r offset n))
       else if bitsAllocated = JNum 16 then
         (if pixelRepresentation = JNum 0 then mapR JTyped (readUint16Array r offset n)
          else mapR JTyped (readInt16Array r offset n))
       else if bitsAllocated = JNum 32 then
         (if pixelRepresentation = JNum 0 then mapR JTyped (readUint32Array r offset n)
          else mapR JTyped (readInt32Array r offset n))
       else if bitsAllocated = JNum 64 then Inl TypeError
       else Inr JNull))"

text \<open>An attribute tag (VR AT): \<open>"(GGGG,EEEE)"\<close> for every pair of the 16-bit array.\<close>

definition pad4 :: "int \<Rightarrow> string" where
  "pad4 v = (let str = toString16 (nat v) in take (4 - length str) ''0000'' @ toUpperCase str)"

fun atStrings :: "int list \<Rightarrow> error + jsval list" where
  "atStrings [] = Inr []"
| "atStrings [x] = Inl TypeError"
| "atStrings (x # y # rest) =
     mapR (\<lambda>ds. JStr (''('' @ pad4 x @ '','' @ pad4 y @ '')'') # ds) (atStrings rest)"

text \<open>
  The branches of \<open>readDataElement\<close> from \<open>OB\<close> to \<open>UN\<close>, in the source's order;
  \<open>None\<close> when the VR is none of them.  \<open>readInt64Array\<close> does not exist.
\<close>

definition readNumericValue :: "DataReader \<Rightarrow> string \<Rightarrow> nat \<Rightarrow> nat \<Rightarrow> (error + jsval) option" where
  "readNumericValue r v offset n =
     (if v = ''OB'' then Some (mapR JTyped (readInt8Array r offset n))
      else if v = ''OW'' then Some (mapR JTyped (readInt16Array r offset n))
      else if v = ''OF'' then Some (mapR JTyped (readInt32Array r offset n))
      else if v = ''OD'' then Some (Inl TypeError)
      else if v = ''US'' then Some (mapR JTyped (readUint16Array r offset n))
      else if v = ''UL'' then Some (mapR JTyped (readUint32Array r offset n))
      else if v = ''SS'' then Some (mapR JTyped (readInt16Array r offset n))
      else if v = ''SL'' then Some (mapR JTyped (readInt32Array r offset n))
      else if v = ''FL'' then Some (mapR JTyped (readFloat32Array r offset n))
      else if v = ''FD'' then Some (mapR JTyped (readFloat64Array r offset n))
      else if v = ''AT'' then
        Some (bind (readUint16Array r offset n) (\<lambda>raw. mapR JArr (atStrings (elems raw))))
      else if v = ''UN'' then Some (mapR JTyped (readUint8Array r offset n))
      else None)"

text \<open>\<open>str.split('\\')\<close>: the pieces between backslashes; one empty piece for \<open>''\<close>.\<close>

fun jsSplit :: "char \<Rightarrow> string \<Rightarrow> string list" where
  "jsSplit c [] = [[]]"
| "jsSplit c (x # xs) =
     (if x = c then [] # jsSplit c xs
      else (case jsSplit c xs of [] \<Rightarrow> [[x]] | y # ys \<Rightarrow> (x # y) # ys))"

definition backslash :: char where
  "backslash = char_of (92 :: nat)"

definition readStringValue :: "DataReader \<Rightarrow> string \<Rightarrow> nat \<Rightarrow> nat \<Rightarrow> error + jsval" where
  "readStringValue r v offset n =
     mapR (\<lambda>data. JArr (map JStr (jsSplit backslash data)))
       (if v = ''SH'' \<or> v = ''LO'' \<or> v = ''ST'' \<or> v = ''PN'' \<or> v = ''LT'' \<or> v = ''UT''
        then readSpecialString r offset n else readString r offset n)"

text \<open>The key under which an element is stored: \<open>item.tag.name\<close> as a property name.\<close>

definition tagName :: "Tag \<Rightarrow> string" where
  "tagName t = (case name t of None \<Rightarrow> ''undefined'' | Some n \<Rightarrow> n)"

subsection \<open>The recursive descent\<close>

text \<open>
  \<open>readDataElement\<close>, \<open>readItemDataElement\<close> and \<open>readPixelItemDataElement\<close> call each
  other; their \<open>while\<close> loops are the functions whose names end in \<open>Loop\<close>.  The first
  argument is the call budget: every call and every turn of a loop takes one.  An
  element is returned with its end offset (the number also stored in the element).
  \<open>els\<close> is \<open>this.dicomElements\<close>, which the pixel data branch consults.  The raw
  value of an item of explicit length is a view of the bytes its elements are then
  read from: when the reader flips the bytes of arrays in place the view shows them
  flipped, which the model does not follow, and \<open>readItemDataElement\<close> has no result
  for such an item.
\<close>

function (sequential) readDataElement ::
      "nat \<Rightarrow> Env \<Rightarrow> elements \<Rightarrow> DataReader \<Rightarrow> nat \<Rightarrow> bool \<Rightarrow> error + (dataElement \<times> nat)"
  and readItemDataElement ::
      "nat \<Rightarrow> Env \<Rightarrow> elements \<Rightarrow> DataReader \<Rightarrow> nat \<Rightarrow> bool \<Rightarrow> error + (elements \<times> nat \<times> bool)"
  and itemExplicitLoop ::
      "nat \<Rightarrow> Env \<Rightarrow> elements \<Rightarrow> DataReader \<Rightarrow> bool \<Rightarrow> nat \<Rightarrow> nat \<Rightarrow> elements
         \<Rightarrow> error + (elements \<times> nat)"
  and itemImplicitLoop ::
      "nat \<Rightarrow> Env \<Rightarrow> elements \<Rightarrow> DataReader \<Rightarrow> bool \<Rightarrow> nat \<Rightarrow> elements
         \<Rightarrow> error + (elements \<times> nat)"
  and readPixelItemDataElement ::
      "nat \<Rightarrow> Env \<Rightarrow> elements \<Rightarrow> DataReader \<Rightarrow> nat \<Rightarrow> bool \<Rightarrow> error + (jsval list \<times> nat \<times> vlen)"
  and pixelItemLoop ::
      "nat \<Rightarrow> Env \<Rightarrow> elements \<Rightarrow> DataReader \<Rightarrow> bool \<Rightarrow> nat \<Rightarrow> jsval list
         \<Rightarrow> error + (jsval list \<times> nat)"
  and sqExplicitLoop ::
      "nat \<Rightarrow> Env \<Rightarrow> elements \<Rightarrow> DataReader \<Rightarrow> bool \<Rightarrow> nat \<Rightarrow> nat \<Rightarrow> jsval list
         \<Rightarrow> error + (jsval list \<times> nat)"
  and sqImplicitLoop ::
      "nat \<Rightarrow> Env \<Rightarrow> elements \<Rightarrow> DataReader \<Rightarrow> bool \<Rightarrow> nat \<Rightarrow> jsval list
         \<Rightarrow> error + (jsval list \<times> nat)"
where
  "readDataElement 0 env els r offset0 implicit = Inl OutOfFuel"
| "readDataElement (Suc fuel) env els r offset0 implicit =
     bind (readHeader env r offset0 implicit) (\<lambda>(t, v, vlString, n, offset).
     let isPixelData = (name t = Some ''x7FE00010'') in
     if isPixelData \<and> vlString = UndefinedLength then
       bind (readPixelItemDataElement fuel env els r offset implicit)
         (\<lambda>(data, endOff, offsetTableVl).
            Inr (DataElement t v vlString (JArr data)
                   (case offsetTableVl of VL m \<Rightarrow> Some (offset + m) | UndefinedLength \<Rightarrow> None)
                   (Some endOff), endOff))
     else if isPixelData \<and> (v = ''OB'' \<or> v = ''OW'' \<or> v = ''OF'' \<or> v = ''ox'') then
       bind (readPixelValue els r offset n) (\<lambda>data.
         Inr (DataElement t v vlString data (Some offset) (Some (offset + n)), offset + n))
     else
       (case readNumericValue r v offset n of
          Some res \<Rightarrow>
            bind res (\<lambda>data.
              Inr (DataElement t v vlString data (Some offset) (Some (offset + n)), offset + n))
        | None \<Rightarrow>
            if v = ''SQ'' then
              bind (if vlString \<noteq> UndefinedLength then
                      (if n \<noteq> 0 then sqExplicitLoop fuel env els r implicit offset (offset + n) []
                       else Inr ([], offset))
                    else sqImplicitLoop fuel env els r implicit offset [])
                (\<lambda>(data, endOff).
                   Inr (DataElement t v vlString (JArr data) (Some offset) (Some endOff), endOff))
            else
              bind (readStringValue r v offset n) (\<lambda>data.
                Inr (DataElement t v vlString data (Some offset) (Some (offset + n)),
                     offset + n))))"
| "readItemDataElement 0 env els r offset0 implicit = Inl OutOfFuel"
| "readItemDataElement (Suc fuel) env els r offset0 implicit =
     bind (readDataElement fuel env els r offset0 implicit) (\<lambda>(item, offset).
     if name (tag item) = Some ''xFFFEE0DD'' then Inr ([], offset, True)
     else
       let itemData = [(tagName (tag item), item)] in
       (case vl item of
          VL n \<Rightarrow>
            if n \<noteq> 0 then
              (if needFlip r then Inl Unmodelled
               else bind (itemExplicitLoop fuel env els r implicit (offset - n) offset itemData)
                      (\<lambda>(d, off). Inr (d, off, False)))
            else Inr (itemData, offset, False)
        | UndefinedLength \<Rightarrow>
            bind (itemImplicitLoop fuel env els r implicit offset itemData)
              (\<lambda>(d, off). Inr (d, off, False))))"
| "itemExplicitLoop 0 env els r implicit offset endOff itemData = Inl OutOfFuel"
| "itemExplicitLoop (Suc fuel) env els r implicit offset endOff itemData =
     (if offset < endOff then
        bind (readDataElement fuel env els r offset implicit) (\<lambda>(item, off).
          itemExplicitLoop fuel env els r implicit off endOff
            (AList.update (tagName (tag item)) item itemData))
      else Inr (itemData, offset))"
| "itemImplicitLoop 0 env els r implicit offset itemData = Inl OutOfFuel"
| "itemImplicitLoop (Suc fuel) env els r implicit offset itemData =
     bind (readDataElement fuel env els r offset implicit) (\<lambda>(item, off).
       if name (tag item) = Some ''xFFFEE00D'' then Inr (itemData, off)
       else itemImplicitLoop fuel env els r implicit off
              (AList.update (tagName (tag item)) item itemData))"
| "readPixelItemDataElement 0 env els r offset0 implicit = Inl OutOfFuel"
| "readPixelItemDataElement (Suc fuel) env els r offset0 implicit =
     bind (readDataElement fuel env els r offset0 implicit) (\<lambda>(item, offset).
     bind (pixelItemLoop fuel env els r implicit offset []) (\<lambda>(itemData, off).
       Inr (itemData, off, vl item)))"
| "pixelItemLoop 0 env els r implicit offset itemData = Inl OutOfFuel"
| "pixelItemLoop (Suc fuel) env els r implicit offset itemData =
     bind (readDataElement fuel env els r offset implicit) (\<lambda>(item, off).
       if name (tag item) = Some ''xFFFEE0DD'' then Inr (itemData, off)
       else pixelItemLoop fuel env els r implicit off (itemData @ [val item]))"
| "sqExplicitLoop 0 env els r implicit offset sqEndOffset data = Inl OutOfFuel"
| "sqExplicitLoop (Suc fuel) env els r implicit offset sqEndOffset data =
     (if offset < sqEndOffset then
        bind (readItemDataElement fuel env els r offset implicit) (\<lambda>(itemData, off, isSeqDelim).
          sqExplicitLoop fuel env els r implicit off sqEndOffset (data @ [JObj itemData]))
      else Inr (data, offset))"
| "sqImplicitLoop 0 env els r implicit offset data = Inl OutOfFuel"
| "sqImplicitLoop (Suc fuel) env els r implicit offset data =
     bind (readItemDataElement fuel env els r offset implicit) (\<lambda>(itemData, off, isSeqDelim).
       if isSeqDelim then Inr (data, off)
       else sqImplicitLoop fuel env els r implicit off (data @ [JObj itemData]))"
  by pat_completeness auto

termination
  by (relation "measure (case_sum (case_sum (case_sum fst fst) (case_sum fst fst))
                          (case_sum (case_sum fst fst) (case_sum fst fst)))") auto

section \<open>DicomParser.parse\<close>

definition isJpegRetiredTransferSyntax :: "string \<Rightarrow> bool" where
  "isJpegRetiredTransferSyntax syntax =
     (regexSearch ''1.2.840.10008.1.2.4.5'' syntax \<or> regexSearch ''1.2.840.10008.1.2.4.6'' syntax)"

definition isJpeglsTransferSyntax :: "string \<Rightarrow> bool" where
  "isJpeglsTransferSyntax syntax = regexSearch ''1.2.840.10008.1.2.4.8'' syntax"

definition getTransferSyntaxName :: "string \<Rightarrow> string" where
  "getTransferSyntaxName syntax =
     (if syntax = ''1.2.840.10008.1.2'' then ''Little Endian Implicit''
      else if syntax = ''1.2.840.10008.1.2.1'' then ''Little Endian Explicit''
      else if syntax = ''1.2.840.10008.1.2.1.99'' then ''Little Endian Deflated Explicit''
      else if syntax = ''1.2.840.10008.1.2.2'' then ''Big Endian Explicit''
      else if isJpegBaselineTransferSyntax (JStr syntax) then
        (if syntax = ''1.2.840.10008.1.2.4.50'' then ''JPEG Baseline''
         else ''JPEG Extended, Process 2+4'')
      else if isJpegLosslessTransferSyntax (JStr syntax) then
        (if syntax = ''1.2.840.10008.1.2.4.57''
         then ''JPEG Lossless, Nonhierarchical (Processes 14)''
         else ''JPEG Lossless, Non-hierarchical, 1st Order Prediction'')
      else if isJpegRetiredTransferSyntax syntax then ''Retired JPEG''
      else if isJpeglsTransferSyntax syntax then ''JPEG-LS''
      else if regexSearch ''1.2.840.10008.1.2.4.9'' syntax then
        (if syntax = ''1.2.840.10008.1.2.4.91'' then ''JPEG 2000 (Lossless or Lossy)''
         else ''JPEG 2000 (Lossless only)'')
      else if syntax = ''1.2.840.10008.1.2.4.100'' then ''MPEG2''
      else if syntax = ''1.2.840.10008.1.2.5'' then ''RLE''
      else ''Unknown'')"

definition notDicomMagic :: error where
  "notDicomMagic = Error ''Not a valid DICOM file (no magic DICM word found)''"

definition notDicomSyntax :: error where
  "notDicomSyntax = Error ''Not a valid DICOM file (no TransferSyntaxUID found)''"

definition unsupportedSyntax :: "string \<Rightarrow> error" where
  "unsupportedSyntax syntax =
     Error (''Unsupported DICOM transfer syntax: '' @ [CHR 0x27] @ syntax @ [CHR 0x27]
            @ '' ('' @ getTransferSyntaxName syntax @ '')'')"

text \<open>
  The loops of \<open>parse\<close> store every element they read in \<open>this.dicomElements\<close>; an
  exception leaves there what was stored before it.  They return the exception (if
  any), the elements and the offset.
\<close>

primrec metaLoop ::
  "nat \<Rightarrow> Env \<Rightarrow> DataReader \<Rightarrow> nat \<Rightarrow> int option \<Rightarrow> elements \<Rightarrow> error option \<times> elements \<times> nat" where
  "metaLoop 0 env r offset metaEnd els = (Some OutOfFuel, els, offset)"
| "metaLoop (Suc fuel) env r offset metaEnd els =
     (if (case metaEnd of None \<Rightarrow> False | Some m \<Rightarrow> int offset < m) then
        (case readDataElement fuel env els r offset False of
           Inl e \<Rightarrow> (Some e, els, offset)
         | Inr (dataElement, off) \<Rightarrow>
             metaLoop fuel env r off metaEnd
               (AList.update (tagName (tag dataElement)) dataElement els))
      else (None, els, offset))"

text \<open>
  The character set check of the data loop.  Without \<open>window.TextDecoder\<close> the
  label it computes is dropped; what remains is that \<open>cleanString\<close> can raise.
\<close>

definition checkCharacterSet :: "dataElement \<Rightarrow> error + unit" where
  "checkCharacterSet dataElement =
     (if name (tag dataElement) = Some ''x00080005'' then
        bind (jsLength (val dataElement)) (\<lambda>len.
        bind (jsIndex (val dataElement) (if len = Some 1 then 0 else 1)) (\<lambda>term.
        bind (cleanString term) (\<lambda>charSetTerm. Inr ())))
      else Inr ())"

primrec dataLoop ::
  "nat \<Rightarrow> Env \<Rightarrow> DataReader \<Rightarrow> bool \<Rightarrow> nat \<Rightarrow> elements \<Rightarrow> error option \<times> elements \<times> nat" where
  "dataLoop 0 env r implicit offset els = (Some OutOfFuel, els, offset)"
| "dataLoop (Suc fuel) env r implicit offset els =
     (if offset < length (bytes r) then
        (case readDataElement fuel env els r offset implicit of
           Inl e \<Rightarrow> (Some e, els, offset)
         | Inr (dataElement, off) \<Rightarrow>
             (case checkCharacterSet dataElement of
                Inl e \<Rightarrow> (Some e, els, offset)
              | Inr _ \<Rightarrow>
                  dataLoop fuel env r implicit off
                    (AList.update (tagName (tag dataElement)) dataElement els)))
      else (None, els, offset))"

subsection \<open>The pixel buffer\<close>

text \<open>\<open>this.dicomElements.xGGGGEEEE.value[0]\<close>; a missing element is a TypeError.\<close>

definition value0 :: "elements \<Rightarrow> string \<Rightarrow> error + jsval" where
  "value0 els key =
     (case map_of els key of None \<Rightarrow> Inl TypeError | Some e \<Rightarrow> jsIndex (val e) 0)"

text \<open>A product of numbers; \<open>None\<close> is NaN.\<close>

definition timesNum :: "int option \<Rightarrow> int option \<Rightarrow> int option" where
  "timesNum a b = (case a of None \<Rightarrow> None | Some x \<Rightarrow> map_option (\<lambda>y. x * y) b)"

text \<open>\<open>pixData.slice(b, e)\<close> on what the value of the element can be.\<close>

definition sliceValue :: "jsval \<Rightarrow> int \<Rightarrow> int \<Rightarrow> error + jsval" where
  "sliceValue v b e =
     (case v of
        JTyped a \<Rightarrow> Inr (JTyped (a\<lparr>elems := jsSlice (elems a) b e\<rparr>))
      | JArr xs \<Rightarrow> Inr (JArr (jsSlice xs b e))
      | JStr s \<Rightarrow> Inr (JStr (jsSlice s b e))
      | _ \<Rightarrow> Inl TypeError)"

text \<open>
  Pixel data of explicit length: \<open>numberOfFrames\<close> slices of \<open>sliceSize\<close> elements.
  With a NaN slice size both arguments of \<open>slice\<close> are NaN, which it reads as 0.
\<close>

definition sliceFrames :: "jsval \<Rightarrow> int option \<Rightarrow> int option \<Rightarrow> error + jsval list" where
  "sliceFrames pixData sliceSize numberOfFrames =
     (case numberOfFrames of
        None \<Rightarrow> Inr []
      | Some nf \<Rightarrow>
          collect (map (\<lambda>g. case sliceSize of
                               None \<Rightarrow> sliceValue pixData 0 0
                             | Some ss \<Rightarrow> sliceValue pixData (int g * ss) (int g * ss + ss))
                     [0 ..< nat nf]))"

text \<open>
  Encapsulated pixel data: the fragments of one frame copied into a new array of the
  type of \<open>pixItems[0]\<close>.  The model covers fragments that are typed arrays.
\<close>

fun typedOf :: "jsval \<Rightarrow> typedArray option" where
  "typedOf (JTyped a) = Some a"
| "typedOf _ = None"

definition concatFragments :: "tkind \<Rightarrow> typedArray list \<Rightarrow> jsval" where
  "concatFragments k frs =
     JTyped \<lparr>kind = k, elems = concat (map (\<lambda>a. map (toKind k) (elems a)) frs)\<rparr>"

definition groupFragments :: "jsval list \<Rightarrow> int \<Rightarrow> error + jsval list" where
  "groupFragments pixItems nf =
     (if nf \<le> 0 then Inr []
      else if \<not> list_all (\<lambda>v. typedOf v \<noteq> None) pixItems then Inl Unmodelled
      else if int (length pixItems) mod nf \<noteq> 0 then Inl TypeError
      else
        let frs = map (\<lambda>v. the (typedOf v)) pixItems;
            nItemPerFrame = length pixItems div nat nf
        in Inr (map (\<lambda>f. concatFragments (kind (hd frs))
                            (take nItemPerFrame (drop (f * nItemPerFrame) frs)))
                  [0 ..< nat nf]))"

definition setValue :: "dataElement \<Rightarrow> jsval \<Rightarrow> dataElement" where
  "setValue e v = DataElement (tag e) (vr e) (vl e) v (startOffset e) (endOffset e)"

text \<open>
  The last part of \<open>parse\<close>: the value of \<open>(7FE0,0010)\<close> becomes an array of frames.
  \<open>syntax\<close> is only used for a warning.
\<close>

definition pixelBuffer :: "elements \<Rightarrow> error + elements" where
  "pixelBuffer els =
     (case map_of els ''x7FE00010'' of
        None \<Rightarrow> Inr els
      | Some px \<Rightarrow>
          bind (case map_of els ''x00280008'' of
                  None \<Rightarrow> Inr (JNum 1) | Some e \<Rightarrow> jsIndex (val e) 0) (\<lambda>numberOfFrames.
          if vl px \<noteq> UndefinedLength then
            bind (value0 els ''x00280011'') (\<lambda>columns.
            bind (value0 els ''x00280010'') (\<lambda>rows.
            bind (value0 els ''x00280002'') (\<lambda>samplesPerPixel.
            bind (toNumber columns) (\<lambda>c.
            bind (toNumber rows) (\<lambda>rw.
            bind (toNumber samplesPerPixel) (\<lambda>sp.
            bind (toNumber numberOfFrames) (\<lambda>nf.
            bind (sliceFrames (val px) (timesNum (timesNum c rw) sp) nf) (\<lambda>newPixData.
              Inr (AList.update ''x7FE00010'' (setValue px (JArr newPixData)) els)))))))))
          else
            bind (jsLength (val px)) (\<lambda>len.
              case val px of
                JArr pixItems \<Rightarrow>
                  if length pixItems > 1 then
                    bind (toNumber numberOfFrames) (\<lambda>nf.
                      case nf of
                        None \<Rightarrow> Inr els
                      | Some n \<Rightarrow>
                          if int (length pixItems) > n then
                            bind (groupFragments pixItems n) (\<lambda>newPixItems.
                              Inr (AList.update ''x7FE00010'' (setValue px (JArr newPixItems)) els))
                          else Inr els)
                  else Inr els
              | _ \<Rightarrow> Inl Unmodelled)))"

text \<open>
  \<open>parse(buffer)\<close> on a new parser (\<open>this.dicomElements = {}\<close>), in the source's
  order: the magic word, the element at offset 132 and the meta loop
  (\<open>readFileMeta\<close>), the transfer syntax (\<open>getSyntax\<close>), the data loop and the pixel
  buffer (\<open>readDataSet\<close>).  The result is the exception raised, if any, and
  \<open>this.dicomElements\<close> afterwards.  \<open>native\<close> is the byte order of the platform,
  \<open>fuel\<close> the call budget of every loop and of every element read at top level.
\<close>

definition readFileMeta :: "Env \<Rightarrow> DataReader \<Rightarrow> nat \<Rightarrow> error option \<times> elements \<times> nat" where
  "readFileMeta env metaReader fuel =
     (case readDataElement fuel env [] metaReader 132 False of
        Inl e \<Rightarrow> (Some e, [], 132)
      | Inr (dataElement, offset) \<Rightarrow>
          let els0 = [(tagName (tag dataElement), dataElement)] in
          (case jsIndex (val dataElement) 0 of
             Inl e \<Rightarrow> (Some e, els0, offset)
           | Inr v0 \<Rightarrow>
               metaLoop fuel env metaReader offset
                 (map_option (\<lambda>metaLength. int offset + metaLength) (parseInt v0)) els0))"

definition getSyntax :: "elements \<Rightarrow> error + jsval" where
  "getSyntax els =
     (case map_of els ''x00020010'' of
        None \<Rightarrow> Inl notDicomSyntax
      | Some ts \<Rightarrow>
          bind (jsIndex (val ts) 0) (\<lambda>v.
          bind (cleanString v) (\<lambda>syntax.
          bind (isReadSupportedTransferSyntax syntax) (\<lambda>supported.
            if \<not> supported
            then Inl (unsupportedSyntax (case syntax of JStr str \<Rightarrow> str | _ \<Rightarrow> []))
            else Inr syntax))))"

definition readDataSet ::
  "Env \<Rightarrow> bool \<Rightarrow> nat \<Rightarrow> byte list \<Rightarrow> jsval \<Rightarrow> nat \<Rightarrow> elements \<Rightarrow> error option \<times> elements" where
  "readDataSet env native fuel buf syntax offset els =
     (let implicit = isImplicitTransferSyntax syntax;
          dataReader = \<lparr>bytes = buf, isLittleEndian = \<not> isBigEndianTransferSyntax syntax,
                        isNativeLittleEndian = native\<rparr>;
          looped = dataLoop fuel env dataReader implicit offset els
      in case fst looped of
           Some e \<Rightarrow> (Some e, fst (snd looped))
         | None \<Rightarrow>
             (case pixelBuffer (fst (snd looped)) of
                Inl e \<Rightarrow> (Some e, fst (snd looped))
              | Inr els' \<Rightarrow> (None, els')))"

definition parse :: "Env \<Rightarrow> bool \<Rightarrow> nat \<Rightarrow> byte list \<Rightarrow> error option \<times> elements" where
  "parse env native fuel buf =
     (let metaReader = \<lparr>bytes = buf, isLittleEndian = True, isNativeLittleEndian = native\<rparr> in
      case readString metaReader 128 4 of
        Inl e \<Rightarrow> (Some e, [])
      | Inr magicword \<Rightarrow>
          if magicword \<noteq> ''DICM'' then (Some notDicomMagic, [])
          else
            let fm = readFileMeta env metaReader fuel in
            (case fst fm of
               Some e \<Rightarrow> (Some e, fst (snd fm))
             | None \<Rightarrow>
                 (case getSyntax (fst (snd fm)) of
                    Inl e \<Rightarrow> (Some e, fst (snd fm))
                  | Inr syntax \<Rightarrow>
                      readDataSet env native fuel buf syntax (snd (snd fm)) (fst (snd fm)))))"

section \<open>DataWriter\<close>

text \<open>
  The output \<open>ArrayBuffer\<close> is shared by the two writers of \<open>getBuffer\<close>; the model
  passes it through every write.  A write returns the buffer and the new offset.
\<close>

text \<open>The \<open>n\<close> bytes of a number, least significant first; the number is wrapped.\<close>

fun leBytes :: "nat \<Rightarrow> int \<Rightarrow> byte list" where
  "leBytes 0 v = []"
| "leBytes (Suc n) v = word_of_int (v mod 256) # leBytes n (v div 256)"

text \<open>
  \<open>view.setXxx(byteOffset, value, littleEndian)\<close> for an element of \<open>n\<close> bytes: a
  RangeError outside the buffer.  \<open>None\<close> is NaN or \<open>undefined\<close>, stored as 0.
\<close>

definition dvSet :: "nat \<Rightarrow> byte list \<Rightarrow> nat \<Rightarrow> int option \<Rightarrow> bool \<Rightarrow> error + (byte list \<times> nat)" where
  "dvSet n buf byteOffset v le =
     (if byteOffset + n > length buf then Inl RangeError
      else let bs = leBytes n (case v of None \<Rightarrow> 0 | Some x \<Rightarrow> x)
           in Inr (take byteOffset buf @ (if le then bs else rev bs) @ drop (byteOffset + n) buf,
                   byteOffset + n))"

text \<open>\<open>Number.prototype.toString()\<close> of an integer.\<close>

fun toString10 :: "nat \<Rightarrow> string" where
  "toString10 n = (if n < 10 then [hexDigit n] else toString10 (n div 10) @ [hexDigit (n mod 10)])"

declare toString10.simps [simp del]

definition numberToString :: "int \<Rightarrow> string" where
  "numberToString v = (if v < 0 then ''-'' @ toString10 (nat (- v)) else toString10 (nat v))"

text \<open>
  \<open>parseInt(str, 16)\<close>: white space, a sign, an optional \<open>0x\<close>, then the longest run
  of hexadecimal digits; \<open>None\<close> is NaN.
\<close>

definition parseInt16 :: "string \<Rightarrow> int option" where
  "parseInt16 str =
     (let s = dropWhile isWhiteSpace str;
          neg = (s \<noteq> [] \<and> hd s = CHR ''-'');
          s1 = (if s \<noteq> [] \<and> (hd s = CHR ''-'' \<or> hd s = CHR ''+'') then tl s else s);
          s2 = (if take 2 s1 = ''0x'' \<or> take 2 s1 = ''0X'' then drop 2 s1 else s1);
          ds = takeWhile (\<lambda>c. hexValue c \<noteq> None) s2;
          n = foldl (\<lambda>acc c. 16 * acc + the (hexValue c)) 0 ds
      in if ds = [] then None else Some (if neg then - int n else int n))"

definition writeHex :: "bool \<Rightarrow> byte list \<Rightarrow> nat \<Rightarrow> string \<Rightarrow> error + (byte list \<times> nat)" where
  "writeHex le buf byteOffset str = dvSet 2 buf byteOffset (parseInt16 (drop 2 str)) le"

text \<open>\<open>writeString\<close>: one \<open>setUint8\<close> per character.\<close>

fun writeString :: "byte list \<Rightarrow> nat \<Rightarrow> string \<Rightarrow> error + (byte list \<times> nat)" where
  "writeString buf byteOffset [] = Inr (buf, byteOffset)"
| "writeString buf byteOffset (c # cs) =
     bind (dvSet 1 buf byteOffset (Some (int (of_char c :: nat))) True)
       (\<lambda>(buf', off). writeString buf' off cs)"

text \<open>
  \<open>writeUint8Array\<close> ... \<open>writeFloat64Array\<close>: one \<open>DataView\<close> store of \<open>n\<close> bytes per
  element.  The elements are numbers already (\<open>None\<close> for NaN).
\<close>

fun writeNumbers ::
  "nat \<Rightarrow> bool \<Rightarrow> byte list \<Rightarrow> nat \<Rightarrow> int option list \<Rightarrow> error + (byte list \<times> nat)" where
  "writeNumbers n le buf byteOffset [] = Inr (buf, byteOffset)"
| "writeNumbers n le buf byteOffset (v # vs) =
     bind (dvSet n buf byteOffset v le) (\<lambda>(buf', off). writeNumbers n le buf' off vs)"

text \<open>
  The elements of an array-like value as the numbers a \<open>DataView\<close> store makes of
  them.  The characters of a string and the elements of a plain array go through
  ToNumber; a number and an object have no \<open>length\<close>, so the loop over them does not
  run.  Floats cannot be stored through an integer setter in the model.
\<close>

definition numbersOf :: "jsval \<Rightarrow> error + int option list" where
  "numbersOf v =
     (case v of
        JUndefined \<Rightarrow> Inl TypeError
      | JNull \<Rightarrow> Inl TypeError
      | JNum n \<Rightarrow> Inr []
      | JObj kes \<Rightarrow> Inl Unmodelled
      | JStr s \<Rightarrow> collect (map (\<lambda>c. toNumber (JStr [c])) s)
      | JArr xs \<Rightarrow> collect (map toNumber xs)
      | JTyped a \<Rightarrow> (if isFloatKind (kind a) \<and> elems a \<noteq> [] then Inl Unmodelled
                     else Inr (map Some (elems a))))"

definition writeIntArray ::
  "nat \<Rightarrow> bool \<Rightarrow> byte list \<Rightarrow> nat \<Rightarrow> jsval \<Rightarrow> error + (byte list \<times> nat)" where
  "writeIntArray n le buf byteOffset array =
     bind (numbersOf array) (\<lambda>vs. writeNumbers n le buf byteOffset vs)"

text \<open>
  \<open>writeFloat32Array\<close> and \<open>writeFloat64Array\<close>: a float array of the same width is
  written back as the bit patterns it holds, every element going through a number (so
  a NaN among them has no result in the model); other non-empty values would need the
  float encoding of a number.
\<close>

definition writeFloatArray ::
  "tkind \<Rightarrow> bool \<Rightarrow> byte list \<Rightarrow> nat \<Rightarrow> jsval \<Rightarrow> error + (byte list \<times> nat)" where
  "writeFloatArray k le buf byteOffset array =
     (case array of
        JUndefined \<Rightarrow> Inl TypeError
      | JNull \<Rightarrow> Inl TypeError
      | JNum n \<Rightarrow> Inr (buf, byteOffset)
      | JTyped a \<Rightarrow>
          (if elems a = [] then Inr (buf, byteOffset)
           else if kind a = k \<and> \<not> list_ex (isNaNPattern k) (elems a)
           then writeNumbers (BYTES_PER_ELEMENT k) le buf byteOffset (map Some (elems a))
           else Inl Unmodelled)
      | JArr xs \<Rightarrow> (if xs = [] then Inr (buf, byteOffset) else Inl Unmodelled)
      | JStr str \<Rightarrow> (if str = [] then Inr (buf, byteOffset) else Inl Unmodelled)
      | JObj kes \<Rightarrow> Inl Unmodelled)"

text \<open>\<open>x.toString()\<close> of an array element, for strings and integers.\<close>

definition valueToString :: "jsval \<Rightarrow> error + string" where
  "valueToString x =
     (case x of
        JStr str \<Rightarrow> Inr str
      | JNum n \<Rightarrow> Inr (numberToString n)
      | JUndefined \<Rightarrow> Inl TypeError
      | JNull \<Rightarrow> Inl TypeError
      | _ \<Rightarrow> Inl Unmodelled)"

fun writeStrings :: "byte list \<Rightarrow> nat \<Rightarrow> bool \<Rightarrow> jsval list \<Rightarrow> error + (byte list \<times> nat)" where
  "writeStrings buf byteOffset first [] = Inr (buf, byteOffset)"
| "writeStrings buf byteOffset first (x # xs) =
     bind (if first then Inr (buf, byteOffset) else writeString buf byteOffset [backslash])
       (\<lambda>(buf1, off1).
     bind (valueToString x) (\<lambda>str.
     bind (writeString buf1 off1 str) (\<lambda>(buf2, off2). writeStrings buf2 off2 False xs)))"

definition writeStringArray :: "byte list \<Rightarrow> nat \<Rightarrow> jsval \<Rightarrow> error + (byte list \<times> nat)" where
  "writeStringArray buf byteOffset array =
     (case array of
        JArr xs \<Rightarrow> writeStrings buf byteOffset True xs
      | JStr str \<Rightarrow> writeStrings buf byteOffset True (map (\<lambda>c. JStr [c]) str)
      | JNum n \<Rightarrow> Inr (buf, byteOffset)
      | JUndefined \<Rightarrow> Inl TypeError
      | JNull \<Rightarrow> Inl TypeError
      | _ \<Rightarrow> Inl Unmodelled)"

text \<open>
  The VR \<open>AT\<close> branch of \<open>writeDataElementValue\<close>: characters 1 to 4 and 6 to 9 of
  every value, read as hexadecimal, written as two 16-bit numbers.
\<close>

fun writeAttributeTags :: "bool \<Rightarrow> byte list \<Rightarrow> nat \<Rightarrow> jsval list \<Rightarrow> error + (byte list \<times> nat)" where
  "writeAttributeTags le buf byteOffset [] = Inr (buf, byteOffset)"
| "writeAttributeTags le buf byteOffset (x # xs) =
     bind (case x of JStr str \<Rightarrow> Inr str | JNum n \<Rightarrow> Inr (numberToString n)
           | JUndefined \<Rightarrow> Inr ''undefined'' | JNull \<Rightarrow> Inr ''null''
           | _ \<Rightarrow> Inl Unmodelled) (\<lambda>hexString.
     bind (writeNumbers 2 le buf byteOffset
             [parseInt16 (take 4 (drop 1 hexString)), parseInt16 (take 4 (drop 6 hexString))])
       (\<lambda>(buf', off). writeAttributeTags le buf' off xs))"

text \<open>
  \<open>writeDataElementValue\<close> without its \<open>SQ\<close> branch: first by the type of the value,
  then by the VR.  \<open>writeInt64Array\<close> does not exist.
\<close>

definition writeFlatValue ::
  "bool \<Rightarrow> string \<Rightarrow> byte list \<Rightarrow> nat \<Rightarrow> jsval \<Rightarrow> error + (byte list \<times> nat)" where
  "writeFlatValue le v buf byteOffset x =
     (case (case x of JTyped a \<Rightarrow> if isFloatKind (kind a) then None else Some (kind a)
                    | _ \<Rightarrow> None) of
        Some k \<Rightarrow> writeIntArray (BYTES_PER_ELEMENT k) le buf byteOffset x
      | None \<Rightarrow>
          if v = ''UN'' then writeIntArray 1 le buf byteOffset x
          else if v = ''OB'' then writeIntArray 1 le buf byteOffset x
          else if v = ''OW'' then writeIntArray 2 le buf byteOffset x
          else if v = ''OF'' then writeIntArray 4 le buf byteOffset x
          else if v = ''OD'' then Inl TypeError
          else if v = ''US'' then writeIntArray 2 le buf byteOffset x
          else if v = ''SS'' then writeIntArray 2 le buf byteOffset x
          else if v = ''UL'' then writeIntArray 4 le buf byteOffset x
          else if v = ''SL'' then writeIntArray 4 le buf byteOffset x
          else if v = ''FL'' then writeFloatArray Float32 le buf byteOffset x
          else if v = ''FD'' then writeFloatArray Float64 le buf byteOffset x
          else if v = ''AT'' then
            (case x of
               JArr xs \<Rightarrow> writeAttributeTags le buf byteOffset xs
             | JNum n \<Rightarrow> Inr (buf, byteOffset)
             | JUndefined \<Rightarrow> Inl TypeError
             | JNull \<Rightarrow> Inl TypeError
             | _ \<Rightarrow> Inl Unmodelled)
          else writeStringArray buf byteOffset x)"

subsection \<open>Writing elements\<close>

definition isImplicitLengthSequence :: "dataElement \<Rightarrow> bool" where
  "isImplicitLengthSequence e = (vr e = ''SQ'' \<and> vl e = UndefinedLength)"

definition isImplicitLengthItem :: "dataElement \<Rightarrow> bool" where
  "isImplicitLengthItem e = (name (tag e) = Some ''xFFFEE000'' \<and> vl e = UndefinedLength)"

definition isImplicitLengthPixels :: "dataElement \<Rightarrow> bool" where
  "isImplicitLengthPixels e = (name (tag e) = Some ''x7FE00010'' \<and> vl e = UndefinedLength)"

definition seqDelimElement :: dataElement where
  "seqDelimElement =
     DataElement \<lparr>group = ''0xFFFE'', element = ''0xE0DD'', name = Some ''SequenceDelimitationItem'',
                  tagEndOffset = None\<rparr> ''NONE'' (VL 0) (JArr []) None None"

definition itemDelimElement :: dataElement where
  "itemDelimElement =
     DataElement \<lparr>group = ''0xFFFE'', element = ''0xE00D'', name = Some ''ItemDelimitationItem'',
                  tagEndOffset = None\<rparr> ''NONE'' (VL 0) (JArr []) None None"

definition itemTag :: Tag where
  "itemTag = \<lparr>group = ''0xFFFE'', element = ''0xE000'', name = Some ''xFFFEE000'',
              tagEndOffset = None\<rparr>"

text \<open>
  \<open>flattenArrayOfTypedArrays\<close>: a new array of the type of the first frame, of
  \<open>frames * length of the first frame\<close> elements, into which frame \<open>i\<close> is copied at
  \<open>i * length of the first frame\<close>.  The model covers frames that are typed arrays.
\<close>

fun setFrames :: "typedArray \<Rightarrow> nat \<Rightarrow> nat \<Rightarrow> typedArray list \<Rightarrow> error + typedArray" where
  "setFrames flattenedArray arrayLength i [] = Inr flattenedArray"
| "setFrames flattenedArray arrayLength i (fr # frs) =
     bind (ta_set flattenedArray fr (i * arrayLength))
       (\<lambda>fa. setFrames fa arrayLength (Suc i) frs)"

definition flattenArrayOfTypedArrays :: "jsval list \<Rightarrow> error + jsval" where
  "flattenArrayOfTypedArrays initialArray =
     (if \<not> list_all (\<lambda>v. typedOf v \<noteq> None) initialArray \<or> initialArray = [] then Inl Unmodelled
      else
        let frs = map (\<lambda>v. the (typedOf v)) initialArray;
            arrayLength = length (elems (hd frs))
        in mapR JTyped
             (setFrames (newTyped (kind (hd frs)) (length frs * arrayLength)) arrayLength 0 frs))"

text \<open>
  The item \<open>writePixelDataElementValue\<close> builds for encapsulated pixel data: an empty
  basic offset table under the key \<open>xFFFEE000\<close> and one element per fragment under
  the keys \<open>0, 1, ...\<close>.  \<open>Object.keys\<close> lists the integer keys first, in ascending
  order.
\<close>

definition fragmentElements :: "string \<Rightarrow> jsval list \<Rightarrow> error + (string \<times> dataElement) list" where
  "fragmentElements v frags =
     collect (map (\<lambda>i. case jsLength (frags ! i) of
                          Inl e \<Rightarrow> Inl e
                        | Inr None \<Rightarrow> Inl Unmodelled
                        | Inr (Some len) \<Rightarrow>
                            Inr (toString10 i, DataElement itemTag v (VL len) (frags ! i) None None))
                [0 ..< length frags])"

definition offsetTableElement :: dataElement where
  "offsetTableElement = DataElement itemTag ''UN'' (VL 0) (JArr []) None None"

text \<open>
  \<open>writeDataElement\<close>, \<open>writeDataElementValue\<close>, \<open>writeDataElementItems\<close> and
  \<open>writePixelDataElementValue\<close> call each other; \<open>writeItemRest\<close> is the inner loop of
  \<open>writeDataElementItems\<close>.  The first argument is the call budget, \<open>le\<close> the byte
  order of the writer.  \<open>writeDataElementItems\<close> also stores an empty \<open>value\<close> and, for
  an undefined length, the \<open>vl\<close> \<open>0xffffffff\<close> in the item element of the caller's
  item; the bytes written do not depend on that and the model does not carry the
  changed item.
\<close>

function (sequential) writeDataElement ::
      "nat \<Rightarrow> bool \<Rightarrow> byte list \<Rightarrow> dataElement \<Rightarrow> nat \<Rightarrow> bool \<Rightarrow> error + (byte list \<times> nat)"
  and writeDataElementValue ::
      "nat \<Rightarrow> bool \<Rightarrow> byte list \<Rightarrow> string \<Rightarrow> nat \<Rightarrow> jsval \<Rightarrow> bool \<Rightarrow> error + (byte list \<times> nat)"
  and writeDataElementItems ::
      "nat \<Rightarrow> bool \<Rightarrow> byte list \<Rightarrow> nat \<Rightarrow> jsval list \<Rightarrow> bool \<Rightarrow> error + (byte list \<times> nat)"
  and writeItemRest ::
      "nat \<Rightarrow> bool \<Rightarrow> byte list \<Rightarrow> nat \<Rightarrow> (string \<times> dataElement) list \<Rightarrow> bool
         \<Rightarrow> error + (byte list \<times> nat)"
  and writePixelDataElementValue ::
      "nat \<Rightarrow> bool \<Rightarrow> byte list \<Rightarrow> string \<Rightarrow> vlen \<Rightarrow> nat \<Rightarrow> jsval \<Rightarrow> bool
         \<Rightarrow> error + (byte list \<times> nat)"
where
  "writeDataElement 0 le buf e byteOffset isImplicit = Inl OutOfFuel"
| "writeDataElement (Suc fuel) le buf e byteOffset isImplicit =
     (let withVR = isTagWithVR (group (tag e)) (element (tag e));
          is32bitVLVR = (if isImplicit \<or> \<not> withVR then True else is32bitVLVRFunc (vr e));
          undefinedLength = (isImplicitLengthSequence e \<or> isImplicitLengthItem e
                             \<or> isImplicitLengthPixels e)
      in
      bind (writeHex le buf byteOffset (group (tag e))) (\<lambda>(b1, o1).
      bind (writeHex le b1 o1 (element (tag e))) (\<lambda>(b2, o2).
      bind (if withVR \<and> \<not> isImplicit then
              bind (writeString b2 o2 (vr e))
                (\<lambda>(b, off). Inr (b, if is32bitVLVR then off + 2 else off))
            else Inr (b2, o2)) (\<lambda>(b3, o3).
      bind (dvSet (if is32bitVLVR then 4 else 2) b3 o3
              (if undefinedLength then Some 4294967295
               else (case vl e of VL n \<Rightarrow> Some (int n) | UndefinedLength \<Rightarrow> None)) le)
        (\<lambda>(b4, o4).
      bind (if name (tag e) = Some ''x7FE00010''
            then writePixelDataElementValue fuel le b4 (vr e) (vl e) o4
                   (if val e = JUndefined then JArr [] else val e) isImplicit
            else writeDataElementValue fuel le b4 (vr e) o4
                   (if val e = JUndefined then JArr [] else val e) isImplicit) (\<lambda>(b5, o5).
        if isImplicitLengthSequence e \<or> isImplicitLengthPixels e
        then writeDataElement fuel le b5 seqDelimElement o5 isImplicit
        else Inr (b5, o5)))))))"
| "writeDataElementValue 0 le buf v byteOffset x isImplicit = Inl OutOfFuel"
| "writeDataElementValue (Suc fuel) le buf v byteOffset x isImplicit =
     (if v = ''SQ'' \<and> (case x of JTyped a \<Rightarrow> isFloatKind (kind a) | _ \<Rightarrow> True) then
        (case x of
           JArr items \<Rightarrow> writeDataElementItems fuel le buf byteOffset items isImplicit
         | JNum n \<Rightarrow> Inr (buf, byteOffset)
         | JUndefined \<Rightarrow> Inl TypeError
         | JNull \<Rightarrow> Inl TypeError
         | _ \<Rightarrow> Inl Unmodelled)
      else writeFlatValue le v buf byteOffset x)"
| "writeDataElementItems 0 le buf byteOffset items isImplicit = Inl OutOfFuel"
| "writeDataElementItems (Suc fuel) le buf byteOffset items0 isImplicit =
     (case items0 of [] \<Rightarrow> Inr (buf, byteOffset) | item # items \<Rightarrow>
      case item of
        JObj kes \<Rightarrow>
          if kes = [] then writeDataElementItems fuel le buf byteOffset items isImplicit
          else
            (case map_of kes ''xFFFEE000'' of
               None \<Rightarrow> Inl TypeError
             | Some itemElement \<Rightarrow>
                 let implicitLength = (vl itemElement = UndefinedLength) in
                 bind (writeDataElement fuel le buf
                         (DataElement (tag itemElement) (vr itemElement)
                            (if implicitLength then VL 4294967295 else vl itemElement) (JArr [])
                            (startOffset itemElement) (endOffset itemElement))
                         byteOffset isImplicit) (\<lambda>(b1, o1).
                 bind (writeItemRest fuel le b1 o1
                         (filter (\<lambda>(k, x). k \<noteq> ''xFFFEE000'' \<and> k \<noteq> ''xFFFEE00D'') kes)
                         isImplicit) (\<lambda>(b2, o2).
                 bind (if implicitLength
                       then writeDataElement fuel le b2 itemDelimElement o2 isImplicit
                       else Inr (b2, o2)) (\<lambda>(b3, o3).
                   writeDataElementItems fuel le b3 o3 items isImplicit))))
      | _ \<Rightarrow> Inl Unmodelled)"
| "writeItemRest 0 le buf byteOffset kes isImplicit = Inl OutOfFuel"
| "writeItemRest (Suc fuel) le buf byteOffset kes0 isImplicit =
     (case kes0 of
        [] \<Rightarrow> Inr (buf, byteOffset)
      | ke # kes \<Rightarrow>
          bind (writeDataElement fuel le buf (snd ke) byteOffset isImplicit)
            (\<lambda>(b1, o1). writeItemRest fuel le b1 o1 kes isImplicit))"
| "writePixelDataElementValue 0 le buf v vlen byteOffset x isImplicit = Inl OutOfFuel"
| "writePixelDataElementValue (Suc fuel) le buf v vlen byteOffset x isImplicit =
     (if vlen \<noteq> UndefinedLength then
        bind (jsLength x) (\<lambda>len.
        bind (if (case len of None \<Rightarrow> False | Some l \<Rightarrow> l > 1)
              then (case x of JArr frames \<Rightarrow> flattenArrayOfTypedArrays frames
                    | _ \<Rightarrow> Inl Unmodelled)
              else jsIndex x 0) (\<lambda>finalValue.
          writeDataElementValue fuel le buf v byteOffset finalValue isImplicit))
      else
        (case x of
           JArr frags \<Rightarrow>
             bind (fragmentElements v frags) (\<lambda>fes.
               writeDataElementItems fuel le buf byteOffset
                 [JObj (fes @ [(''xFFFEE000'', offsetTableElement)])] isImplicit)
         | _ \<Rightarrow> Inl Unmodelled))"
  by pat_completeness auto

termination
  by (relation "measure (case_sum (case_sum fst fst) (case_sum fst (case_sum fst fst)))") auto

section \<open>DicomWriter\<close>

text \<open>A rule \<open>{ action: ..., value: ... }\<close> and the table of rules, by key.\<close>

record Rule =
  action :: string
  ruleValue :: jsval

type_synonym rules = "(string \<times> Rule) list"

definition defaultRules :: rules where
  "defaultRules = [(''default'', \<lparr>action = ''copy'', ruleValue = JNull\<rparr>)]"

definition anonymisationRules :: rules where
  "anonymisationRules =
     [(''default'', \<lparr>action = ''remove'', ruleValue = JNull\<rparr>),
      (''PatientName'', \<lparr>action = ''replace'', ruleValue = JStr ''Anonymized''\<rparr>),
      (''Meta Element'', \<lparr>action = ''copy'', ruleValue = JNull\<rparr>),
      (''Acquisition'', \<lparr>action = ''copy'', ruleValue = JNull\<rparr>),
      (''Image Presentation'', \<lparr>action = ''copy'', ruleValue = JNull\<rparr>),
      (''Procedure'', \<lparr>action = ''copy'', ruleValue = JNull\<rparr>),
      (''Pixel Data'', \<lparr>action = ''copy'', ruleValue = JNull\<rparr>)]"

text \<open>
  \<open>item.value[0] = x\<close>.  A plain array takes any value (an empty one grows by one
  element); an integer typed array stores ToNumber of it, NaN as 0, and ignores a
  store past its end; the module is strict code, where a store into a string or a
  number raises, as one into \<open>null\<close> or \<open>undefined\<close> does.
\<close>

definition setIndex0 :: "jsval \<Rightarrow> jsval \<Rightarrow> error + jsval" where
  "setIndex0 v x =
     (case v of
        JArr xs \<Rightarrow> Inr (JArr (x # tl xs))
      | JTyped a \<Rightarrow>
          (if elems a = [] then Inr (JTyped a)
           else if isFloatKind (kind a) then Inl Unmodelled
           else bind (toNumber x) (\<lambda>n.
                  Inr (JTyped (a\<lparr>elems := toKind (kind a) (case n of None \<Rightarrow> 0 | Some m \<Rightarrow> m)
                                          # tl (elems a)\<rparr>))))
      | JObj kes \<Rightarrow> Inl Unmodelled
      | _ \<Rightarrow> Inl TypeError)"

text \<open>
  The actions.  The result is what the action returns (\<open>None\<close> for \<open>null\<close>) and the
  element object it was given as the call leaves it: \<open>clear\<close> and \<open>replace\<close> assign
  to the fields of that object and return it.
\<close>

definition actionCopy :: "dataElement \<Rightarrow> error + (dataElement option \<times> dataElement)" where
  "actionCopy item = Inr (Some item, item)"

definition actionRemove :: "dataElement \<Rightarrow> error + (dataElement option \<times> dataElement)" where
  "actionRemove item = Inr (None, item)"

definition actionClear :: "dataElement \<Rightarrow> error + (dataElement option \<times> dataElement)" where
  "actionClear item =
     bind (setIndex0 (val item) (JStr [])) (\<lambda>v.
       let item' = DataElement (tag item) (vr item) (VL 0) v (startOffset item) (startOffset item)
       in Inr (Some item', item'))"

definition actionReplace :: "dataElement \<Rightarrow> jsval \<Rightarrow> error + (dataElement option \<times> dataElement)" where
  "actionReplace item x =
     bind (setIndex0 (val item) x) (\<lambda>v.
     bind (jsLength x) (\<lambda>len.
       case len of
         None \<Rightarrow> Inl Unmodelled
       | Some n \<Rightarrow>
           let item' = DataElement (tag item) (vr item) (VL n) v (startOffset item)
                         (map_option (\<lambda>st. st + n) (startOffset item))
           in Inr (Some item', item')))"

text \<open>
  The rule \<open>getElementToWrite\<close> selects: by \<open>element.tag.name\<close>, then by the keyword
  of the dictionary, then by the name of the group, then \<open>default\<close>.  A missing
  property used as a key is the key \<open>undefined\<close>.
\<close>

definition selectRule :: "Env \<Rightarrow> rules \<Rightarrow> dataElement \<Rightarrow> Rule option" where
  "selectRule env rs e =
     (let groupName = map_of (TagGroups env) (drop 1 (group (tag e)));
          keyword = map_option (\<lambda>(v, m, kw). kw) (dictEntry env (group (tag e)) (element (tag e)))
      in if map_of rs (tagName (tag e)) \<noteq> None then map_of rs (tagName (tag e))
         else if keyword \<noteq> None \<and> map_of rs (the keyword) \<noteq> None then map_of rs (the keyword)
         else if map_of rs (case groupName of None \<Rightarrow> ''undefined'' | Some g \<Rightarrow> g) \<noteq> None
         then map_of rs (case groupName of None \<Rightarrow> ''undefined'' | Some g \<Rightarrow> g)
         else map_of rs ''default'')"

text \<open>
  \<open>actions\<close> is an object literal: the name of a method it inherits from
  \<open>Object.prototype\<close> is also found in it.  Such a call is not modelled; any other
  unknown action is a call of \<open>undefined\<close>.
\<close>

definition inheritedMethods :: "string list" where
  "inheritedMethods =
     [''constructor'', ''toString'', ''toLocaleString'', ''valueOf'', ''hasOwnProperty'',
      ''isPrototypeOf'', ''propertyIsEnumerable'', ''__defineGetter__'', ''__defineSetter__'',
      ''__lookupGetter__'', ''__lookupSetter__'']"

definition getElementToWrite ::
  "Env \<Rightarrow> rules \<Rightarrow> dataElement \<Rightarrow> error + (dataElement option \<times> dataElement)" where
  "getElementToWrite env rs e =
     (case selectRule env rs e of
        None \<Rightarrow> Inl TypeError
      | Some rule \<Rightarrow>
          if action rule = ''copy'' then actionCopy e
          else if action rule = ''remove'' then actionRemove e
          else if action rule = ''clear'' then actionClear e
          else if action rule = ''replace'' then actionReplace e (ruleValue rule)
          else if action rule \<in> set inheritedMethods then Inl Unmodelled
          else Inl TypeError)"

subsection \<open>getBuffer\<close>

text \<open>
  \<open>getGroupElementFromName\<close>: the dictionary is searched in the order of its keys;
  when the keyword is not found, \<open>group\<close> and \<open>element\<close> are the last keys visited.
\<close>

fun findInGroup ::
  "(string \<times> (string \<times> string \<times> string)) list \<Rightarrow> string \<Rightarrow> string option \<Rightarrow> bool \<times> string option" where
  "findInGroup [] tagKeyword el = (False, el)"
| "findInGroup ((e, entry) # rest) tagKeyword el =
     (if snd (snd entry) = tagKeyword then (True, Some e)
      else findInGroup rest tagKeyword (Some e))"

fun findInDictionary ::
  "(string \<times> (string \<times> (string \<times> string \<times> string)) list) list \<Rightarrow> string
     \<Rightarrow> string option \<Rightarrow> string option \<Rightarrow> string option \<times> string option" where
  "findInDictionary [] tagKeyword g el = (g, el)"
| "findInDictionary ((grp, es) # rest) tagKeyword g el =
     (if fst (findInGroup es tagKeyword el) then (Some grp, snd (findInGroup es tagKeyword el))
      else findInDictionary rest tagKeyword (Some grp) (snd (findInGroup es tagKeyword el)))"

definition getGroupElementFromName :: "Env \<Rightarrow> string \<Rightarrow> string option \<times> string option" where
  "getGroupElementFromName env tagKeyword = findInDictionary (dictionary env) tagKeyword None None"

text \<open>
  \<open>getDicomElement\<close>: the element has no value and no offsets yet; its \<open>vl\<close> is the
  dictionary's multiplicity until \<open>setElementValue\<close> overwrites it (the model puts 0).
\<close>

definition getDicomElement :: "Env \<Rightarrow> string \<Rightarrow> error + dataElement" where
  "getDicomElement env tagKeyword =
     (case getGroupElementFromName env tagKeyword of
        (Some g, Some e) \<Rightarrow>
          (case dictEntry env g e of
             None \<Rightarrow> Inl TypeError
           | Some (v, m, kw) \<Rightarrow>
               Inr (DataElement \<lparr>group = g, element = e, name = None, tagEndOffset = None\<rparr>
                      v (VL 0) JUndefined None None))
      | _ \<Rightarrow> Inl TypeError)"

text \<open>
  \<open>setElementValue\<close> for the values \<open>getBuffer\<close> passes (a string, a number) and an
  element that is no sequence: the element with its value and \<open>vl\<close>, and the size.
\<close>

definition setElementValue :: "dataElement \<Rightarrow> jsval \<Rightarrow> error + (dataElement \<times> nat)" where
  "setElementValue e x =
     (if vr e = ''SQ'' then Inl Unmodelled
      else
        bind (case x of JStr str \<Rightarrow> Inr (length str) | JNum n \<Rightarrow> Inr 1 | _ \<Rightarrow> Inl Unmodelled)
          (\<lambda>sz.
        let bytesPerElement =
              (if vr e = ''US'' \<or> vr e = ''OW'' then 2
               else if vr e = ''SS'' then 2
               else if vr e = ''UL'' then 4
               else if vr e = ''SL'' then 4
               else if vr e = ''FL'' then 4
               else if vr e = ''FD'' then 8
               else 1)
        in Inr (DataElement (tag e) (vr e) (VL (sz * bytesPerElement)) (JArr [x])
                  (startOffset e) (endOffset e), sz * bytesPerElement)))"

definition getVersion :: string where
  "getVersion = ''1.0.0''"

definition plusNum :: "int option \<Rightarrow> int option \<Rightarrow> int option" where
  "plusNum a b = (case a of None \<Rightarrow> None | Some x \<Rightarrow> map_option (\<lambda>y. x + y) b)"

text \<open>
  The first loop of \<open>getBuffer\<close>: the rule of every element is applied, the elements
  to write are sorted into \<open>metaElements\<close> and \<open>rawElements\<close>, and the sizes are
  added up (\<open>None\<close> is NaN).  \<open>elementsAfter\<close> is the caller's \<open>dicomElements\<close> as the
  loop leaves it.
\<close>

record Selection =
  totalSize :: "int option"
  metaLength :: "int option"
  metaElements :: "dataElement list"
  rawElements :: "dataElement list"
  elementsAfter :: elements

definition isWriterTag :: "dataElement \<Rightarrow> bool" where
  "isWriterTag e =
     (group (tag e) = ''0x0002''
      \<and> (element (tag e) = ''0x0000'' \<or> element (tag e) = ''0x0012''
           \<or> element (tag e) = ''0x0013''))"

definition localSize :: "Env \<Rightarrow> bool \<Rightarrow> dataElement \<Rightarrow> int option" where
  "localSize env isImplicit e =
     (let groupName = map_of (TagGroups env) (drop 1 (group (tag e)));
          prefix = (if groupName = Some ''Meta Element''
                    then getDataElementPrefixByteSize (vr e) False
                    else getDataElementPrefixByteSize (vr e) isImplicit);
          realVl = (case (endOffset e, startOffset e) of
                      (Some a, Some b) \<Rightarrow> Some (int a - int b) | _ \<Rightarrow> None)
      in plusNum (plusNum (Some (int prefix)) realVl)
           (Some (if isImplicitLengthSequence e \<or> isImplicitLengthPixels e
                  then int (getDataElementPrefixByteSize ''NONE'' isImplicit) else 0)))"

fun selectElements :: "Env \<Rightarrow> rules \<Rightarrow> bool \<Rightarrow> elements \<Rightarrow> Selection \<Rightarrow> error + Selection" where
  "selectElements env rs isImplicit [] sel = Inr sel"
| "selectElements env rs isImplicit ((key, e0) # rest) sel =
     bind (getElementToWrite env rs e0) (\<lambda>(ret, e1).
       let sel1 = sel\<lparr>elementsAfter := elementsAfter sel @ [(key, e1)]\<rparr> in
       case ret of
         None \<Rightarrow> selectElements env rs isImplicit rest sel1
       | Some e \<Rightarrow>
           if isWriterTag e then selectElements env rs isImplicit rest sel1
           else if map_of (TagGroups env) (drop 1 (group (tag e))) = Some ''Meta Element'' then
             selectElements env rs isImplicit rest
               (sel1\<lparr>metaElements := metaElements sel1 @ [e],
                      metaLength := plusNum (metaLength sel1) (localSize env isImplicit e),
                      totalSize := plusNum (totalSize sel1) (localSize env isImplicit e)\<rparr>)
           else
             selectElements env rs isImplicit rest
               (sel1\<lparr>rawElements := rawElements sel1 @ [e],
                      totalSize := plusNum (totalSize sel1) (localSize env isImplicit e)\<rparr>))"

text \<open>The elements of a list written one after the other.\<close>

fun writeElements ::
  "nat \<Rightarrow> bool \<Rightarrow> byte list \<Rightarrow> nat \<Rightarrow> dataElement list \<Rightarrow> bool \<Rightarrow> error + (byte list \<times> nat)" where
  "writeElements fuel le buf offset [] isImplicit = Inr (buf, offset)"
| "writeElements fuel le buf offset (e # es) isImplicit =
     bind (writeDataElement fuel le buf e offset isImplicit)
       (\<lambda>(buf', off). writeElements fuel le buf' off es isImplicit)"

text \<open>\<open>new ArrayBuffer(totalSize)\<close>: zero bytes; NaN is length 0.\<close>

definition newArrayBuffer :: "int option \<Rightarrow> error + byte list" where
  "newArrayBuffer n =
     (case n of
        None \<Rightarrow> Inr []
      | Some t \<Rightarrow> if t < 0 then Inl RangeError else Inr (replicate (nat t) 0))"

text \<open>
  The three elements the writer makes itself and their sizes, after the first loop.
  The prefix sizes are computed with the data set's \<open>isImplicit\<close>, as the source does.
\<close>

definition writerElements ::
  "Env \<Rightarrow> bool \<Rightarrow> Selection \<Rightarrow> error + (dataElement \<times> Selection)" where
  "writerElements env isImplicit sel =
     bind (getDicomElement env ''ImplementationClassUID'') (\<lambda>icUID0.
     bind (setElementValue icUID0 (JStr (''1.2.826.0.1.3680043.9.7278.1.'' @ getVersion)))
       (\<lambda>(icUID, icSize).
     bind (getDicomElement env ''ImplementationVersionName'') (\<lambda>ivn0.
     let ivnValue0 = ''DWV_'' @ getVersion;
         ivnValue = (if length ivnValue0 mod 2 = 1 then ivnValue0 @ [char_of (0::nat)]
                     else ivnValue0) in
     bind (setElementValue ivn0 (JStr ivnValue)) (\<lambda>(ivn, ivnSize0).
     let icUIDSize = int (getDataElementPrefixByteSize (vr icUID0) isImplicit) + int icSize;
         ivnSize = int (getDataElementPrefixByteSize (vr ivn0) isImplicit) + int ivnSize0;
         metaLength1 = plusNum (plusNum (metaLength sel) (Some icUIDSize)) (Some ivnSize);
         totalSize1 = plusNum (plusNum (totalSize sel) (Some icUIDSize)) (Some ivnSize) in
     bind (getDicomElement env ''FileMetaInformationGroupLength'') (\<lambda>fmigl0.
     bind (setElementValue fmigl0 (JNum (case metaLength1 of None \<Rightarrow> 0 | Some m \<Rightarrow> m)))
       (\<lambda>(fmigl, fmSize).
       Inr (fmigl,
            sel\<lparr>metaElements := metaElements sel @ [icUID, ivn],
                 metaLength := metaLength1,
                 totalSize := plusNum totalSize1
                   (Some (int (getDataElementPrefixByteSize (vr fmigl0) isImplicit)
                          + int fmSize))\<rparr>)))))))"

text \<open>
  The beginning of \<open>getBuffer(dicomElements)\<close> with the rules \<open>rs\<close>: the transfer
  syntax and the first loop.
\<close>

definition applyRules :: "Env \<Rightarrow> rules \<Rightarrow> elements \<Rightarrow> error + (jsval \<times> Selection)" where
  "applyRules env rs dicomElements =
     bind (value0 dicomElements ''x00020010'') (\<lambda>v.
     bind (cleanString v) (\<lambda>syntax.
     bind (selectElements env rs (isImplicitTransferSyntax syntax) dicomElements
             \<lparr>totalSize = Some 132, metaLength = Some 0, metaElements = [],
              rawElements = [], elementsAfter = []\<rparr>) (\<lambda>sel. Inr (syntax, sel))))"

text \<open>
  \<open>getBuffer(dicomElements)\<close>: the bytes of the new buffer.  \<open>fuel\<close> is the call
  budget of every element written at top level.
\<close>

definition getBuffer :: "Env \<Rightarrow> rules \<Rightarrow> nat \<Rightarrow> elements \<Rightarrow> error + byte list" where
  "getBuffer env rs fuel dicomElements =
     bind (applyRules env rs dicomElements) (\<lambda>(syntax, sel0).
     let isImplicit = isImplicitTransferSyntax syntax;
         isBigEndian = isBigEndianTransferSyntax syntax in
     bind (writerElements env isImplicit sel0) (\<lambda>(fmigl, sel).
     bind (newArrayBuffer (totalSize sel)) (\<lambda>buf0.
     bind (writeString buf0 128 ''DICM'') (\<lambda>(b1, o1).
     bind (writeDataElement fuel True b1 fmigl o1 False) (\<lambda>(b2, o2).
     bind (writeElements fuel True b2 o2 (metaElements sel) False) (\<lambda>(b3, o3).
     bind (writeElements fuel (\<not> isBigEndian) b3 o3 (rawElements sel) isImplicit)
       (\<lambda>(b4, o4). Inr b4)))))))"

section \<open>Example inputs\<close>

text \<open>
  An excerpt of the DICOM dictionary and of the group names, with the entries the
  examples use.
\<close>

definition exampleEnv :: Env where
  "exampleEnv =
     \<lparr>dictionary =
        [(''0x0002'',
          [(''0x0000'', (''UL'', ''1'', ''FileMetaInformationGroupLength'')),
           (''0x0010'', (''UI'', ''1'', ''TransferSyntaxUID'')),
           (''0x0012'', (''UI'', ''1'', ''ImplementationClassUID'')),
           (''0x0013'', (''SH'', ''1'', ''ImplementationVersionName''))]),
         (''0x0008'', [(''0x0060'', (''CS'', ''1'', ''Modality''))]),
         (''0x0010'', [(''0x0010'', (''PN'', ''1'', ''PatientName''))]),
         (''0x0028'',
          [(''0x0002'', (''US'', ''1'', ''SamplesPerPixel'')),
           (''0x0008'', (''IS'', ''1'', ''NumberOfFrames'')),
           (''0x0010'', (''US'', ''1'', ''Rows'')),
           (''0x0011'', (''US'', ''1'', ''Columns''))]),
         (''0x7FE0'', [(''0x0010'', (''ox'', ''1'', ''PixelData''))])],
      TagGroups =
        [(''x0002'', ''Meta Element''), (''x0008'', ''Identifying''), (''x0010'', ''Patient''),
         (''x0028'', ''Image Presentation''), (''x7FE0'', ''Pixel Data'')]\<rparr>"


text \<open>A slice of one pixel at height \<open>z\<close>, with the default orientation.\<close>

definition exPoint :: "real \<Rightarrow> Point3D" where
  "exPoint z = \<lparr>getX = 0, getY = 0, getZ = z\<rparr>"

definition exSlice :: "real \<Rightarrow> int \<Rightarrow> Image" where
  "exSlice z v =
     newImage (newGeometry (exPoint z)
                 \<lparr>numberOfColumns = 1, numberOfRows = 1, numberOfSlices = None\<rparr> getIdentityMat33)
       [\<lparr>kind = Uint8, elems = [v]\<rparr>]"

text \<open>A little-endian reader on a little-endian platform, and two explicit-VR elements.\<close>

definition exReader :: "byte list \<Rightarrow> DataReader" where
  "exReader buf = \<lparr>bytes = buf, isLittleEndian = True, isNativeLittleEndian = True\<rparr>"

definition exElementOB :: "byte list" where
  "exElementOB = [16, 0, 32, 0, 79, 66, 0, 0, 2, 0, 0, 0, 7, 9]"

definition exElementOD :: "byte list" where
  "exElementOD = [16, 0, 32, 0, 79, 68, 0, 0, 8, 0, 0, 0, 1, 2, 3, 4, 5, 6, 7, 8]"

text \<open>
  An element whose VR is written \<open>ox\<close>: two reserved bytes, the 32-bit length 2 and
  the value \<open>AB\<close>.
\<close>

definition exElementOx :: "byte list" where
  "exElementOx = [16, 0, 32, 0, 111, 120, 0, 0, 2, 0, 0, 0, 65, 66]"

text \<open>
  The elements the parser returns for a small explicit little endian file: the
  transfer syntax, a patient name, an image type and the number of rows.
\<close>

definition exTransferSyntax :: dataElement where
  "exTransferSyntax =
     DataElement \<lparr>group = ''0x0002'', element = ''0x0010'', name = Some ''x00020010'',
                  tagEndOffset = Some 148\<rparr>
       ''UI'' (VL 20) (JArr [JStr (''1.2.840.10008.1.2.1'' @ [char_of (0::nat)])])
       (Some 152) (Some 172)"

definition exImageType :: dataElement where
  "exImageType =
     DataElement \<lparr>group = ''0x0008'', element = ''0x0008'', name = Some ''x00080008'',
                  tagEndOffset = Some 176\<rparr>
       ''CS'' (VL 16) (JArr [JStr ''ORIGINAL'', JStr ''PRIMARY'']) (Some 180) (Some 196)"

definition exPatientName :: dataElement where
  "exPatientName =
     DataElement \<lparr>group = ''0x0010'', element = ''0x0010'', name = Some ''x00100010'',
                  tagEndOffset = Some 200\<rparr>
       ''PN'' (VL 8) (JArr [JStr ''Doe^John'']) (Some 204) (Some 212)"

definition exRows :: dataElement where
  "exRows =
     DataElement \<lparr>group = ''0x0028'', element = ''0x0010'', name = Some ''x00280010'',
                  tagEndOffset = Some 216\<rparr>
       ''US'' (VL 2) (JTyped \<lparr>kind = Uint16, elems = [512]\<rparr>) (Some 220) (Some 222)"

definition exElements :: elements where
  "exElements =
     [(''x00020010'', exTransferSyntax), (''x00080008'', exImageType),
      (''x00100010'', exPatientName), (''x00280010'', exRows)]"

definition clearRules :: rules where
  "clearRules = [(''default'', \<lparr>action = ''clear'', ruleValue = JNull\<rparr>)]"

text \<open>What the first loop of \<open>getBuffer\<close> makes of them under the anonymisation rules.\<close>

definition exAnonymised :: Selection where
  "exAnonymised =
     \<lparr>totalSize = Some 188, metaLength = Some 28,
      metaElements = [exTransferSyntax],
      rawElements =
        [DataElement (tag exPatientName) ''PN'' (VL 10) (JArr [JStr ''Anonymized''])
           (Some 204) (Some 214), exRows],
      elementsAfter =
        [(''x00020010'', exTransferSyntax), (''x00080008'', exImageType),
         (''x00100010'',
          DataElement (tag exPatientName) ''PN'' (VL 10) (JArr [JStr ''Anonymized''])
            (Some 204) (Some 214)),
         (''x00280010'', exRows)]\<rparr>"

definition removeRules :: rules where
  "removeRules = [(''default'', \<lparr>action = ''remove'', ruleValue = JNull\<rparr>)]"


text \<open>
  A result that is not the raising of a plain \<open>Error\<close>: the reader itself raises
  none, its exceptions are those of the platform.
\<close>

definition noPlainError :: "error + 'a \<Rightarrow> bool" where
  "noPlainError m = (case m of Inl (Error s) \<Rightarrow> False | _ \<Rightarrow> True)"

text \<open>
  Three buffers: a preamble followed by \<open>XXXX\<close>; a preamble and the magic word and
  nothing else; a preamble, the magic word and a file meta group that is its group
  length element alone, with the value 0.
\<close>

definition exNoMagicFile :: "byte list" where
  "exNoMagicFile = replicate 128 0 @ [88, 88, 88, 88]"

definition exMagicOnlyFile :: "byte list" where
  "exMagicOnlyFile = replicate 128 0 @ [68, 73, 67, 77]"

definition exNoSyntaxFile :: "byte list" where
  "exNoSyntaxFile = replicate 128 0 @ [68, 73, 67, 77] @ [2, 0, 0, 0, 85, 76, 4, 0, 0, 0, 0, 0]"

definition exGroupLength :: dataElement where
  "exGroupLength =
     DataElement \<lparr>group = ''0x0002'', element = ''0x0000'', name = Some ''x00020000'',
                  tagEndOffset = Some 136\<rparr>
       ''UL'' (VL 4) (JTyped \<lparr>kind = Uint32, elems = [0]\<rparr>) (Some 140) (Some 144)"

text \<open>
  A write that returns leaves the buffer at its length: an \<open>ArrayBuffer\<close> does not
  grow.
\<close>

definition keepsLength :: "byte list \<Rightarrow> error + (byte list \<times> nat) \<Rightarrow> bool" where
  "keepsLength buf m = (case m of Inl e \<Rightarrow> True | Inr (b, off) \<Rightarrow> length b = length buf)"

text \<open>
  An explicit little endian file whose data set is one empty sequence of undefined
  length, \<open>(0008,1140)\<close> followed by its sequence delimitation item, and the
  elements \<open>parse\<close> returns for it.  The file meta group has the implementation
  class UID and version name that the writer puts.
\<close>

definition exSequenceFile :: "byte list" where
  "exSequenceFile =
     [0, 0, 0, 0, 0, 0, 0, 0, 0, 0, 0, 0, 0, 0, 0, 0, 0, 0, 0, 0, 0, 0, 0, 0, 0, 0, 0, 0,
      0, 0, 0, 0, 0, 0, 0, 0, 0, 0, 0, 0, 0, 0, 0, 0, 0, 0, 0, 0, 0, 0, 0, 0, 0, 0, 0, 0,
      0, 0, 0, 0, 0, 0, 0, 0, 0, 0, 0, 0, 0, 0, 0, 0, 0, 0, 0, 0, 0, 0, 0, 0, 0, 0, 0, 0,
      0, 0, 0, 0, 0, 0, 0, 0, 0, 0, 0, 0, 0, 0, 0, 0, 0, 0, 0, 0, 0, 0, 0, 0, 0, 0, 0, 0,
      0, 0, 0, 0, 0, 0, 0, 0, 0, 0, 0, 0, 0, 0, 0, 0, 68, 73, 67, 77, 2, 0, 0, 0, 85, 76,
      4, 0, 88, 0, 0, 0, 2, 0, 16, 0, 85, 73, 20, 0, 49, 46, 50, 46, 56, 52, 48, 46, 49,
      48, 48, 48, 56, 46, 49, 46, 50, 46, 49, 0, 2, 0, 18, 0, 85, 73, 34, 0, 49, 46, 50,
      46, 56, 50, 54, 46, 48, 46, 49, 46, 51, 54, 56, 48, 48, 52, 51, 46, 57, 46, 55, 50,
      55, 56, 46, 49, 46, 49, 46, 48, 46, 48, 2, 0, 19, 0, 83, 72, 10, 0, 68, 87, 86, 95,
      49, 46, 48, 46, 48, 0, 8, 0, 64, 17, 83, 81, 0, 0, 255, 255, 255, 255, 254, 255, 221,
      224, 0, 0, 0, 0]"

definition exSequenceElements :: elements where
  "exSequenceElements =
     [(''x00020000'',
       DataElement \<lparr>group = ''0x0002'', element = ''0x0000'', name = Some ''x00020000'',
                    tagEndOffset = Some 136\<rparr>
         ''UL'' (VL 4) (JTyped \<lparr>kind = Uint32, elems = [88]\<rparr>) (Some 140) (Some 144)),
      (''x00020010'',
       DataElement \<lparr>group = ''0x0002'', element = ''0x0010'', name = Some ''x00020010'',
                    tagEndOffset = Some 148\<rparr>
         ''UI'' (VL 20) (JArr [JStr (''1.2.840.10008.1.2.1'' @ [char_of (0::nat)])])
         (Some 152) (Some 172)),
      (''x00020012'',
       DataElement \<lparr>group = ''0x0002'', element = ''0x0012'', name = Some ''x00020012'',
                    tagEndOffset = Some 176\<rparr>
         ''UI'' (VL 34) (JArr [JStr ''1.2.826.0.1.3680043.9.7278.1.1.0.0''])
         (Some 180) (Some 214)),
      (''x00020013'',
       DataElement \<lparr>group = ''0x0002'', element = ''0x0013'', name = Some ''x00020013'',
                    tagEndOffset = Some 218\<rparr>
         ''SH'' (VL 10) (JArr [JStr (''DWV_1.0.0'' @ [char_of (0::nat)])])
         (Some 222) (Some 232)),
      (''x00081140'',
       DataElement \<lparr>group = ''0x0008'', element = ''0x1140'', name = Some ''x00081140'',
                    tagEndOffset = Some 236\<rparr>
         ''SQ'' UndefinedLength (JArr []) (Some 244) (Some 252))]"





text \<open>
  A JPEG baseline file of two frames in four fragments: the number of frames, and
  pixel data of undefined length with an empty offset table and four items.
\<close>

definition exFragmentsFile :: "byte list" where
  "exFragmentsFile =
     [0, 0, 0, 0, 0, 0, 0, 0, 0, 0, 0, 0, 0, 0, 0, 0, 0, 0, 0, 0, 0, 0, 0, 0, 0, 0, 0, 0,
      0, 0, 0, 0, 0, 0, 0, 0, 0, 0, 0, 0, 0, 0, 0, 0, 0, 0, 0, 0, 0, 0, 0, 0, 0, 0, 0, 0,
      0, 0, 0, 0, 0, 0, 0, 0, 0, 0, 0, 0, 0, 0, 0, 0, 0, 0, 0, 0, 0, 0, 0, 0, 0, 0, 0, 0,
      0, 0, 0, 0, 0, 0, 0, 0, 0, 0, 0, 0, 0, 0, 0, 0, 0, 0, 0, 0, 0, 0, 0, 0, 0, 0, 0, 0,
      0, 0, 0, 0, 0, 0, 0, 0, 0, 0, 0, 0, 0, 0, 0, 0, 68, 73, 67, 77, 2, 0, 0, 0, 85, 76,
      4, 0, 30, 0, 0, 0, 2, 0, 16, 0, 85, 73, 22, 0, 49, 46, 50, 46, 56, 52, 48, 46, 49,
      48, 48, 48, 56, 46, 49, 46, 50, 46, 52, 46, 53, 48, 40, 0, 8, 0, 73, 83, 2, 0, 50,
      32, 224, 127, 16, 0, 79, 66, 0, 0, 255, 255, 255, 255, 254, 255, 0, 224, 0, 0, 0, 0,
      254, 255, 0, 224, 2, 0, 0, 0, 1, 2, 254, 255, 0, 224, 1, 0, 0, 0, 3, 254, 255, 0,
      224, 1, 0, 0, 0, 4, 254, 255, 0, 224, 2, 0, 0, 0, 5, 6, 254, 255, 221, 224, 0, 0, 0,
      0]"

definition exFragmentsMeta :: elements where
  "exFragmentsMeta =
     [(''x00020000'',
       DataElement \<lparr>group = ''0x0002'', element = ''0x0000'', name = Some ''x00020000'',
                    tagEndOffset = Some 136\<rparr>
         ''UL'' (VL 4) (JTyped \<lparr>kind = Uint32, elems = [30]\<rparr>) (Some 140) (Some 144)),
      (''x00020010'',
       DataElement \<lparr>group = ''0x0002'', element = ''0x0010'', name = Some ''x00020010'',
                    tagEndOffset = Some 148\<rparr>
         ''UI'' (VL 22) (JArr [JStr ''1.2.840.10008.1.2.4.50'']) (Some 152) (Some 174))]"

definition exFragments :: "typedArray list" where
  "exFragments =
     [\<lparr>kind = Uint8, elems = [1, 2]\<rparr>, \<lparr>kind = Uint8, elems = [3]\<rparr>,
      \<lparr>kind = Uint8, elems = [4]\<rparr>, \<lparr>kind = Uint8, elems = [5, 6]\<rparr>]"

definition exPixelFragments :: "jsval \<Rightarrow> dataElement" where
  "exPixelFragments v =
     DataElement \<lparr>group = ''0x7FE0'', element = ''0x0010'', name = Some ''x7FE00010'',
                  tagEndOffset = Some 188\<rparr>
       ''OB'' UndefinedLength v (Some 196) (Some 250)"

definition exFragmentsRead :: elements where
  "exFragmentsRead =
     exFragmentsMeta @
     [(''x00280008'',
       DataElement \<lparr>group = ''0x0028'', element = ''0x0008'', name = Some ''x00280008'',
                    tagEndOffset = Some 178\<rparr>
         ''IS'' (VL 2) (JArr [JStr ''2 '']) (Some 182) (Some 184)),
      (''x7FE00010'', exPixelFragments (JArr (map JTyped exFragments)))]"


section \<open>Properties of the array readers\<close>


lemma chunks_concat:
  "0 < n \<Longrightarrow> \<forall>c \<in> set cs. length c = n \<Longrightarrow> chunks n (concat cs) = cs"
proof (induction cs)
  case Nil
  then show ?case by (simp add: chunks.simps)
next
  case (Cons c cs)
  then show ?case by (subst chunks.simps) simp
qed

lemma chunks_length: "c \<in> set (chunks n xs) \<Longrightarrow> length c = n"
proof (induction n xs rule: chunks.induct)
  case (1 n xs)
  then show ?case
    by (subst (asm) (2) chunks.simps) (auto split: if_splits)
qed

lemma chunks_nth:
  "0 < n \<Longrightarrow> chunks n xs = map (\<lambda>i. take n (drop (i * n) xs)) [0 ..< length xs div n]"
proof (induction n xs rule: chunks.induct)
  case (1 n xs)
  show ?case
  proof (cases "length xs < n")
    case True
    then show ?thesis using 1(2) by (subst chunks.simps) simp
  next
    case False
    then obtain m where m: "length xs div n = Suc m"
      using 1(2) by (metis div_greater_zero_iff not_less gr0_implies_Suc)
    have len: "length (drop n xs) div n = m"
      using m False 1(2) le_div_geq[of n "length xs"] by simp
    have "chunks n xs = take n xs # chunks n (drop n xs)"
      using False 1(2) by (subst chunks.simps) simp
    also have "chunks n (drop n xs) = map (\<lambda>i. take n (drop (i * n) (drop n xs))) [0 ..< m]"
      using 1(1) False 1(2) len by simp
    also have "\<dots> = map (\<lambda>i. take n (drop (Suc i * n) xs)) [0 ..< m]"
      by (simp add: add.commute)
    finally show ?thesis
      unfolding m by (simp add: upt_rec[of 0 "Suc m"] map_Suc_upt[symmetric] del: upt_Suc)
  qed
qed


lemma wrapU_wrapS: "0 < w \<Longrightarrow> wrapU w (wrapS w v) = wrapU w v"
  by (simp add: wrapU_def wrapS_def Let_def)

lemma wrapS_wrapS: "0 < w \<Longrightarrow> wrapS w (wrapS w v) = wrapS w v"
  by (simp add: wrapS_def Let_def)

lemma wrapU_wrapU: "wrapU w (wrapU w v) = wrapU w v"
  by (simp add: wrapU_def)

lemma interp_rev: "interp k le (rev c) = interp k (\<not> le) c"
  by (simp add: interp_def)

lemma collect_map_Inr:
  "(\<And>i. i \<in> set js \<Longrightarrow> f i = Inr (g i)) \<Longrightarrow> collect (map f js) = Inr (map g js)"
  by (induction js) auto


lemma take_drop_take: "i + n \<le> m \<Longrightarrow> take n (drop i (take m xs)) = take n (drop i xs)"
  by (simp add: drop_take min_def)

lemma BPE_pos: "0 < BYTES_PER_ELEMENT k"
  by (cases k) simp_all

lemma readAligned_value:
  assumes "off + cnt * BYTES_PER_ELEMENT k \<le> length (bytes r)"
  shows "readAligned k r off cnt =
           Inr \<lparr>kind = k, elems = map (\<lambda>i. interp k (isLittleEndian r)
                   (take (BYTES_PER_ELEMENT k) (drop (off + i * BYTES_PER_ELEMENT k) (bytes r))))
                 [0 ..< cnt]\<rparr>"
proof -
  define n where "n = BYTES_PER_ELEMENT k"
  define bs where "bs = take (cnt * n) (drop off (bytes r))"
  have n: "0 < n" by (simp add: n_def BPE_pos)
  have len: "length bs = cnt * n" using assms by (simp add: bs_def n_def)
  have ch: "chunks n bs = map (\<lambda>i. take n (drop (off + i * n) (bytes r))) [0 ..< cnt]"
  proof -
    have "chunks n bs = map (\<lambda>i. take n (drop (i * n) bs)) [0 ..< cnt]"
      using n len by (simp add: chunks_nth)
    also have "\<dots> = map (\<lambda>i. take n (drop (off + i * n) (bytes r))) [0 ..< cnt]"
    proof (rule map_cong[OF refl])
      fix i assume "i \<in> set [0 ..< cnt]"
      then have "Suc i \<le> cnt" by simp
      then have "Suc i * n \<le> cnt * n" by (rule mult_le_mono1)
      then have "i * n + n \<le> cnt * n" by simp
      then show "take n (drop (i * n) bs) = take n (drop (off + i * n) (bytes r))"
        unfolding bs_def by (simp only: take_drop_take drop_drop add.commute)
    qed
    finally show ?thesis .
  qed
  have fl: "chunks n (flipArrayEndianness n bs) = map rev (chunks n bs)"
    unfolding flipArrayEndianness_def using n
    by (intro chunks_concat) (auto dest: chunks_length)
  show ?thesis
    using assms unfolding readAligned_def viewBytes_def Let_def n_def[symmetric] bs_def[symmetric]
    by (simp add: fl ch needFlip_def interp_rev o_def)
qed

lemma readFallback_value:
  assumes "off + ((sz + BYTES_PER_ELEMENT k - 1) div BYTES_PER_ELEMENT k) * BYTES_PER_ELEMENT k
             \<le> length (bytes r)"
    and g: "BYTES_PER_ELEMENT g = BYTES_PER_ELEMENT k"
    and compat: "\<And>c. toKind k (interp g (isLittleEndian r) c) = interp k (isLittleEndian r) c"
    and nn: "\<And>v. \<not> isNaNPattern k v"
  shows "readFallback k g r off sz =
           Inr \<lparr>kind = k, elems = map (\<lambda>i. interp k (isLittleEndian r)
                   (take (BYTES_PER_ELEMENT k) (drop (off + i * BYTES_PER_ELEMENT k) (bytes r))))
                 [0 ..< sz div BYTES_PER_ELEMENT k]\<rparr>"
proof -
  define n where "n = BYTES_PER_ELEMENT k"
  define it where "it = (sz + n - 1) div n"
  have n: "0 < n" by (simp add: n_def BPE_pos)
  have le: "sz div n \<le> it"
    unfolding it_def using n by (intro div_le_mono) simp
  have rd: "dvGet g (bytes r) (off + n * i) (isLittleEndian r)
            = Inr (interp g (isLittleEndian r) (take n (drop (off + i * n) (bytes r))))"
    if "i \<in> set [0 ..< it]" for i
  proof -
    have "Suc i \<le> it" using that by simp
    then have "Suc i * n \<le> it * n" by (rule mult_le_mono1)
    then have "off + n * i + n \<le> length (bytes r)"
      using assms(1) by (simp add: n_def it_def algebra_simps)
    then show ?thesis by (simp add: dvGet_def viewBytes_def g n_def mult.commute)
  qed
  have "collect (map (\<lambda>i. dvGet g (bytes r) (off + n * i) (isLittleEndian r)) [0 ..< it])
        = Inr (map (\<lambda>i. interp g (isLittleEndian r) (take n (drop (off + i * n) (bytes r)))) [0 ..< it])"
    by (rule collect_map_Inr) (rule rd)
  moreover have "take (sz div n) [0 ..< it] = [0 ..< sz div n]"
    using le by (simp add: take_upt)
  ultimately show ?thesis
    unfolding readFallback_def Let_def n_def[symmetric] it_def[symmetric]
    by (simp add: take_map compat o_def list_ex_iff nn)
qed


lemma window_elem:
  assumes "i * n + n \<le> sz"
  shows "take n (drop (off + i * n) xs) = take n (drop (i * n) (take sz (drop off xs)))"
  using assms by (simp add: take_drop_take add.commute)

text \<open>
  Where the two paths of \<open>readUint16Array\<close> do agree.  The fallback path (an odd
  offset \<open>offA\<close>) and the aligned path (an even offset \<open>offB\<close>, with the endianness
  flip when the reader's byte order is not the platform's) return the same array when
  they read the same \<open>sz\<close> bytes with the same byte order, for every even byte length
  \<open>sz\<close>, and for an odd one when at least one more byte follows the window of the
  fallback read.  The two readers may sit on platforms of different byte order.
\<close>

theorem readUint16Array_paths_agree:
  assumes "odd offA" and "even offB"
    and "isLittleEndian r1 = isLittleEndian r2"
    and "offA + sz \<le> length (bytes r1)" and "offB + sz \<le> length (bytes r2)"
    and "take sz (drop offA (bytes r1)) = take sz (drop offB (bytes r2))"
    and "even sz \<or> offA + sz < length (bytes r1)"
  shows "readUint16Array r1 offA sz = readUint16Array r2 offB sz"
proof -
  have it: "(sz + 2 - 1) div 2 * 2 = (if even sz then sz else sz + 1)"
    by (auto elim!: evenE oddE)
  have pre1: "offA + ((sz + BYTES_PER_ELEMENT Uint16 - 1) div BYTES_PER_ELEMENT Uint16)
                  * BYTES_PER_ELEMENT Uint16 \<le> length (bytes r1)"
    using assms(4,7) it by (auto split: if_splits)
  have pre2: "offB + sz div 2 * BYTES_PER_ELEMENT Uint16 \<le> length (bytes r2)"
    using assms(5) by simp
  have l: "readUint16Array r1 offA sz =
        Inr \<lparr>kind = Uint16, elems = map (\<lambda>i. interp Uint16 (isLittleEndian r1)
                   (take 2 (drop (offA + i * 2) (bytes r1)))) [0 ..< sz div 2]\<rparr>"
    using assms(1) readFallback_value[OF pre1, of Int16]
    by (simp add: readUint16Array_def readArray_def interp_def wrapU_wrapS odd_iff_mod_2_eq_one)
  have r: "readUint16Array r2 offB sz =
        Inr \<lparr>kind = Uint16, elems = map (\<lambda>i. interp Uint16 (isLittleEndian r2)
                   (take 2 (drop (offB + i * 2) (bytes r2)))) [0 ..< sz div 2]\<rparr>"
    using assms(2) readAligned_value[OF pre2]
    by (simp add: readUint16Array_def readArray_def even_iff_mod_2_eq_zero)
  have "take 2 (drop (offA + i * 2) (bytes r1)) = take 2 (drop (offB + i * 2) (bytes r2))"
    if "i \<in> set [0 ..< sz div 2]" for i
  proof -
    have "i * 2 + 2 \<le> sz" using that by auto
    then show ?thesis
      by (simp only: window_elem[of i 2 sz] assms(6))
  qed
  then show ?thesis
    unfolding l r using assms(3) by (auto intro!: map_cong)
qed

text \<open>The hypotheses hold, and the theorem applies, on a big-endian reader.\<close>

theorem readUint16Array_paths_agree_witness:
  "odd (1::nat) \<and> even (0::nat) \<and> (4::nat) + 1 \<le> length [9, 1, 2, 3, 4 :: byte]
   \<and> take 4 (drop 1 [9, 1, 2, 3, 4 :: byte]) = take 4 (drop 0 [1, 2, 3, 4 :: byte])
   \<and> readUint16Array \<lparr>bytes = [9, 1, 2, 3, 4], isLittleEndian = False, isNativeLittleEndian = True\<rparr> 1 4
       = readUint16Array \<lparr>bytes = [1, 2, 3, 4], isLittleEndian = False, isNativeLittleEndian = True\<rparr> 0 4"
  using readUint16Array_paths_agree
    [of 1 0 "\<lparr>bytes = [9, 1, 2, 3, 4], isLittleEndian = False, isNativeLittleEndian = True\<rparr>"
        "\<lparr>bytes = [1, 2, 3, 4], isLittleEndian = False, isNativeLittleEndian = True\<rparr>" 4]
  by simp



text \<open>
  C3 at three bytes that end the buffer.  The fallback path takes the fraction
  \<open>size / 2\<close> for the bound of its loop, runs while \<open>i < 3 / 2\<close> and reads the element
  at index 1, two bytes of which one lies behind the buffer: it raises a RangeError.
  The aligned path on the same three bytes returns the one whole element, \<open>513\<close>.
\<close>

theorem readUint16Array_odd_length_fallback_raises:
  "readUint16Array \<lparr>bytes = [0, 1, 2, 3], isLittleEndian = True, isNativeLittleEndian = True\<rparr> 1 3
     = Inl RangeError
   \<and> readUint16Array \<lparr>bytes = [1, 2, 3], isLittleEndian = True, isNativeLittleEndian = True\<rparr> 0 3
     = Inr \<lparr>kind = Uint16, elems = [513]\<rparr>"
  by (simp add: readUint16Array_def readArray_def readFallback_def readAligned_def needFlip_def
      chunks.simps dvGet_def viewBytes_def interp_def leValue_def wrapS_def wrapU_def Let_def upt_rec)

section \<open>Properties of the image\<close>

lemmas image_defs = exSlice_def exPoint_def newImage_def newGeometry_def getNumberOfSlices_def
  metaDiffers_def getSliceSize_def getSliceIndex_def getDistance_def minusPoint_def dotProduct_def
  getIdentityMat33_def getTypedArray_def newTyped_def ta_set_def splice_def appendOrigin_def
  wrapU_def Let_def relIndex_def subarray_def subarrayFrom_def jsSlice_def appendSlice_def
  setRescaleSlopeAndIntercept_def isID_def constantRSI_def getValue_def getValueAtOffset_def
  getRescaledValue_def indexToOffset_def rsi_apply_def

text \<open>
  Claim C8 at its failing input.  A slice with the rescale slope 2 is appended to an
  image whose RSI is the identity.  \<open>appendSlice\<close> splices the RSI in and does not
  update the flag \<open>isIdentityRSI\<close>, which stays true although slice 1 has the RSI
  (2, 0); \<open>getRescaledValue\<close> then returns the stored value 6 where the slice's RSI
  gives 12.
\<close>

theorem appendSlice_stale_identity_flag:
  "\<exists>rhs img.
     setRescaleSlopeAndIntercept (exSlice 1 6) \<lparr>getSlope = 2, getIntercept = 0\<rparr> 0 = Inr rhs
     \<and> appendSlice (exSlice 0 5) (Some rhs) None = Inr (img, 1)
     \<and> isIdentityRSI img
     \<and> rsis img = [\<lparr>getSlope = 1, getIntercept = 0\<rparr>, \<lparr>getSlope = 2, getIntercept = 0\<rparr>]
     \<and> getValue img 0 0 1 0 = Inr (Some 6)
     \<and> getRescaledValue img 0 0 1 0 = Inr (Some 6)
     \<and> rsi_apply (rsis img ! 1) 6 = 12"
  by (simp add: image_defs)

text \<open>
  Claim C9 at its failing input.  Slices at heights 0 and 2 hold the pixels 5 and 7;
  the slice at height 1 with the pixel 6 is inserted at index 1, between them.  The
  origins are spliced as the claim says, but the copy of the slices before the new
  one stops one element early (\<open>subarray(0, offset - 1)\<close>): the pixel 5 is lost.
\<close>

theorem appendSlice_middle_loses_pixel:
  "\<exists>img1 img2.
     appendSlice (exSlice 0 5) (Some (exSlice 2 7)) None = Inr (img1, 1)
     \<and> elems (buffer img1 ! 0) = [5, 7]
     \<and> appendSlice img1 (Some (exSlice 1 6)) None = Inr (img2, 1)
     \<and> origins (geometry img2) = [exPoint 0, exPoint 1, exPoint 2]
     \<and> elems (buffer img2 ! 0) = [0, 6, 7]"
  by (simp add: image_defs)

section \<open>Properties of the element reader\<close>

lemma bind_Inr: "bind m f = Inr y \<Longrightarrow> \<exists>x. m = Inr x \<and> f x = Inr y"
  by (cases m) (simp_all add: bind_def)

lemma bind_Inl: "bind m f = Inl e \<Longrightarrow> m = Inl e \<or> (\<exists>x. m = Inr x \<and> f x = Inl e)"
  by (cases m) (simp_all add: bind_def)

lemma mapR_Inr: "mapR f m = Inr y \<Longrightarrow> \<exists>x. m = Inr x \<and> y = f x"
  by (cases m) (auto simp: mapR_def)

lemma readDataElement_header:
  assumes "readDataElement fuel env els r off imp = Inr (e, endOff)"
  shows "\<exists>n voff. readHeader env r off imp = Inr (tag e, vr e, vl e, n, voff)
           \<and> endOffset e = Some endOff
           \<and> (\<not> isImplicitLengthPixels e \<longrightarrow> startOffset e = Some voff)
           \<and> (vr e \<noteq> ''SQ'' \<and> \<not> isImplicitLengthPixels e \<longrightarrow> endOff = voff + n)"
proof (cases fuel)
  case 0
  with assms show ?thesis by simp
next
  case (Suc m)
  from assms obtain h where h: "readHeader env r off imp = Inr h"
    unfolding Suc by (auto dest!: bind_Inr)
  obtain t v vlString n voff where hh: "h = (t, v, vlString, n, voff)"
    by (cases h) auto
  show ?thesis
    using assms unfolding Suc
    by (auto simp: h hh Let_def isImplicitLengthPixels_def
        dest!: bind_Inr mapR_Inr split: option.splits if_splits)
qed

lemma readUint16_range: "readUint16 r k = Inr x \<Longrightarrow> 0 \<le> x \<and> x < 65536"
  by (auto simp: readUint16_def dvGet_def interp_def wrapU_def split: sum.splits)

lemma readUint32_range: "readUint32 r k = Inr x \<Longrightarrow> 0 \<le> x \<and> x < 4294967296"
  by (auto simp: readUint32_def dvGet_def interp_def wrapU_def split: sum.splits)

lemma readHeader_explicit:
  assumes "readHeader env r off False = Inr (t, v, vlString, n, voff)"
    and "isTagWithVR (group t) (element t)"
  shows "readString r (off + 4) 2 = Inr v
         \<and> (if is32bitVLVRFunc v
             then voff = off + 12
                  \<and> (\<exists>raw. readUint32 r (off + 8) = Inr (int raw)
                        \<and> vlString = (if raw = 4294967295 then UndefinedLength else VL raw)
                        \<and> n = (if raw = 4294967295 then 0 else raw))
             else voff = off + 8
                  \<and> readUint16 r (off + 6) = Inr (int n) \<and> vlString = VL n)"
proof -
  from assms(1) obtain t' where t': "readTag r off = Inr t'"
    unfolding readHeader_def by (auto dest!: bind_Inr)
  have tt: "group t' = group t" "element t' = element t"
    using assms(1) unfolding readHeader_def t'
    by (auto simp: bind_def Let_def split: sum.splits if_splits prod.splits)
  from assms(1) obtain v' where v': "readString r (off + 4) 2 = Inr v'"
    unfolding readHeader_def t' using assms(2) tt
    by (auto simp: bind_def Let_def split: sum.splits)
  show ?thesis
  proof (cases "is32bitVLVRFunc v'")
    case True
    from assms(1) obtain x where x: "readUint32 r (off + 8) = Inr x"
      unfolding readHeader_def t' using assms(2) tt True v'
      by (auto simp: bind_def Let_def add.commute split: sum.splits)
    then have x0: "0 \<le> x" by (auto dest: readUint32_range)
    have "v = v' \<and> voff = off + 12 \<and> vlString = (if nat x = 4294967295 then UndefinedLength else VL (nat x))
          \<and> n = (if nat x = 4294967295 then 0 else nat x)"
      using assms unfolding readHeader_def t' using tt True v' x
      by (simp add: bind_def Let_def add.commute)
    then show ?thesis using True v' x x0 by (auto intro!: exI[of _ "nat x"])
  next
    case False
    from assms(1) obtain x where x: "readUint16 r (off + 6) = Inr x"
      unfolding readHeader_def t' using assms(2) tt False v'
      by (auto simp: bind_def Let_def add.commute split: sum.splits)
    then have x0: "0 \<le> x" "x < 65536" by (auto dest: readUint16_range)
    have "v = v' \<and> voff = off + 8 \<and> vlString = (if nat x = 4294967295 then UndefinedLength else VL (nat x))
          \<and> n = (if nat x = 4294967295 then 0 else nat x)"
      using assms unfolding readHeader_def t' using tt False v' x
      by (simp add: bind_def Let_def add.commute)
    moreover have "nat x \<noteq> 4294967295" using x0 by linarith
    ultimately show ?thesis using False v' x x0 by auto
  qed
qed

text \<open>
  Claim C2, as amended.  When \<open>readDataElement\<close> returns an element read with
  explicit VR, whose tag is not one of the three delimiter tags and whose VR is not
  OD, the two characters after the tag are its VR; exactly for the VRs OB, OW, OF,
  UT, SQ, UN and \<open>ox\<close>, the name the parser has for pixel data of either width, two
  bytes are skipped and the value length is the 32-bit number at offset 8 of the
  element (the value starts at offset 12); for every other VR the value length is the
  16-bit number at offset 6 and the value starts at offset 8 and ends that many bytes
  later.  Nothing is said of OD.
\<close>

theorem readDataElement_explicit_vl_rule:
  assumes "readDataElement fuel env els r off False = Inr (e, endOff)"
    and "isTagWithVR (group (tag e)) (element (tag e))"
    and "vr e \<noteq> ''OD''"
  shows "readString r (off + 4) 2 = Inr (vr e)
         \<and> (if vr e \<in> {''OB'', ''OW'', ''OF'', ''ox'', ''UT'', ''SQ'', ''UN''}
             then \<exists>raw. readUint32 r (off + 8) = Inr (int raw)
                    \<and> vl e = (if raw = 4294967295 then UndefinedLength else VL raw)
                    \<and> (\<not> isImplicitLengthPixels e \<longrightarrow> startOffset e = Some (off + 12))
                    \<and> (vr e \<noteq> ''SQ'' \<and> raw \<noteq> 4294967295
                         \<longrightarrow> endOffset e = Some (off + 12 + raw))
             else \<exists>raw. readUint16 r (off + 6) = Inr (int raw)
                    \<and> vl e = VL raw
                    \<and> startOffset e = Some (off + 8)
                    \<and> endOffset e = Some (off + 8 + raw))"
proof -
  from readDataElement_header[OF assms(1)] obtain n voff where
    h: "readHeader env r off False = Inr (tag e, vr e, vl e, n, voff)"
    and e: "endOffset e = Some endOff"
    and s: "\<not> isImplicitLengthPixels e \<longrightarrow> startOffset e = Some voff"
    and f: "vr e \<noteq> ''SQ'' \<and> \<not> isImplicitLengthPixels e \<longrightarrow> endOff = voff + n"
    by blast
  have set: "(vr e \<in> {''OB'', ''OW'', ''OF'', ''ox'', ''UT'', ''SQ'', ''UN''}) = is32bitVLVRFunc (vr e)"
    by (auto simp: is32bitVLVRFunc_def)
  note hx = readHeader_explicit[OF h assms(2)]
  show ?thesis
  proof (cases "is32bitVLVRFunc (vr e)")
    case True
    with hx obtain raw where raw: "voff = off + 12" "readUint32 r (off + 8) = Inr (int raw)"
      "vl e = (if raw = 4294967295 then UndefinedLength else VL raw)"
      "n = (if raw = 4294967295 then 0 else raw)"
      by auto
    have "vr e \<noteq> ''SQ'' \<and> raw \<noteq> 4294967295 \<longrightarrow> endOffset e = Some (off + 12 + raw)"
      using raw e f by (auto simp: isImplicitLengthPixels_def)
    then show ?thesis
      unfolding set using True hx raw s by (auto intro!: exI[of _ raw])
  next
    case False
    with hx have raw: "voff = off + 8" "readUint16 r (off + 6) = Inr (int n)" "vl e = VL n"
      by auto
    have "\<not> isImplicitLengthPixels e" using raw by (simp add: isImplicitLengthPixels_def)
    moreover have "vr e \<noteq> ''SQ''" using False by (auto simp: is32bitVLVRFunc_def)
    ultimately show ?thesis
      unfolding set using False hx raw s e f by (auto intro!: exI[of _ n])
  qed
qed

lemma exOB: "readDataElement 1 exampleEnv [] (exReader exElementOB) 0 False
    = Inr (DataElement \<lparr>group = ''0x0010'', element = ''0x0020'', name = Some ''x00100020'',
                         tagEndOffset = Some 4\<rparr>
             ''OB'' (VL 2) (JTyped \<lparr>kind = Int8, elems = [7, 9]\<rparr>) (Some 12) (Some 14), 14)"
  by code_simp

text \<open>The hypotheses of C2 hold for an OB element of two bytes.\<close>

theorem readDataElement_explicit_vl_rule_witness:
  "readDataElement 1 exampleEnv [] (exReader exElementOB) 0 False
     = Inr (DataElement \<lparr>group = ''0x0010'', element = ''0x0020'', name = Some ''x00100020'',
                          tagEndOffset = Some 4\<rparr>
              ''OB'' (VL 2) (JTyped \<lparr>kind = Int8, elems = [7, 9]\<rparr>) (Some 12) (Some 14), 14)
   \<and> isTagWithVR ''0x0010'' ''0x0020''
   \<and> readString (exReader exElementOB) 4 2 = Inr ''OB''
   \<and> (\<exists>raw. readUint32 (exReader exElementOB) 8 = Inr (int raw) \<and> VL 2 = VL raw)"
proof -
  have t: "isTagWithVR ''0x0010'' ''0x0020''" by (simp add: isTagWithVR_def)
  show ?thesis
    using readDataElement_explicit_vl_rule[OF exOB] exOB t
    by (auto simp: isImplicitLengthPixels_def split: if_splits)
qed

text \<open>
  Claim C2 as stated fails for the VR \<open>ox\<close>, which is none of its seven: the element
  is returned with the 32-bit length 2 read at offset 8 and its value at offset 12,
  where a 16-bit length at offset 6 would be the 0 of the reserved bytes.
\<close>

theorem explicit_ox_counterexample:
  "readDataElement 1 exampleEnv [] (exReader exElementOx) 0 False
     = Inr (DataElement \<lparr>group = ''0x0010'', element = ''0x0020'', name = Some ''x00100020'',
                          tagEndOffset = Some 4\<rparr>
              ''ox'' (VL 2) (JArr [JStr ''AB'']) (Some 12) (Some 14), 14)
   \<and> readUint16 (exReader exElementOx) 6 = Inr 0"
  by code_simp

text \<open>
  An element with the VR OD is not returned: its value would be read by
  \<open>readInt64Array\<close>, which the reader does not have.
\<close>

lemma readDataElement_OD_raises:
  "readDataElement 1 exampleEnv [] (exReader exElementOD) 0 False = Inl TypeError"
  by code_simp

section \<open>Properties of the writer's rules\<close>

lemma getElementToWrite_Inr:
  assumes "getElementToWrite env rs e = Inr (ret, e')"
  shows "\<exists>rule. selectRule env rs e = Some rule \<and>
           ((action rule = ''copy'' \<and> ret = Some e \<and> e' = e)
            \<or> (action rule = ''remove'' \<and> ret = None \<and> e' = e)
            \<or> (action rule = ''clear'' \<and> ret = Some e'
                \<and> (\<exists>v. setIndex0 (val e) (JStr []) = Inr v
                      \<and> e' = DataElement (tag e) (vr e) (VL 0) v (startOffset e) (startOffset e)))
            \<or> (action rule = ''replace'' \<and> ret = Some e'
                \<and> (\<exists>v n. setIndex0 (val e) (ruleValue rule) = Inr v
                      \<and> jsLength (ruleValue rule) = Inr (Some n)
                      \<and> e' = DataElement (tag e) (vr e) (VL n) v (startOffset e)
                                (map_option (\<lambda>st. st + n) (startOffset e)))))"
  using assms
  by (auto simp: getElementToWrite_def actionCopy_def actionRemove_def actionClear_def
      actionReplace_def bind_def Let_def split: option.splits if_splits sum.splits)

lemma selectElements_after:
  "selectElements env rs imp els sel = Inr sel' \<Longrightarrow>
     \<exists>afters. elementsAfter sel' = elementsAfter sel @ afters
       \<and> list_all2 (\<lambda>ke ke'. fst ke' = fst ke
            \<and> (\<exists>ret. getElementToWrite env rs (snd ke) = Inr (ret, snd ke'))) els afters"
proof (induction els arbitrary: sel)
  case Nil
  then show ?case by simp
next
  case (Cons ke rest)
  obtain key e0 where ke: "ke = (key, e0)" by (cases ke)
  from Cons.prems obtain ret e1 where g: "getElementToWrite env rs e0 = Inr (ret, e1)"
    by (cases "getElementToWrite env rs e0") (auto simp: ke bind_def)
  from Cons.prems g obtain sel1 where
    s1: "selectElements env rs imp rest sel1 = Inr sel'"
    and a1: "elementsAfter sel1 = elementsAfter sel @ [(key, e1)]"
    by (auto simp: ke bind_def Let_def split: option.splits if_splits)
  from Cons.IH[OF s1] obtain afters where
    "elementsAfter sel' = elementsAfter sel1 @ afters"
    and "list_all2 (\<lambda>ke ke'. fst ke' = fst ke
            \<and> (\<exists>ret. getElementToWrite env rs (snd ke) = Inr (ret, snd ke'))) rest afters"
    by blast
  then show ?case
    using g a1 by (intro exI[of _ "(key, e1) # afters"]) (auto simp: ke)
qed

lemma applyRules_after:
  assumes "applyRules env rs els = Inr (syntax, sel)"
  shows "list_all2 (\<lambda>ke ke'. fst ke' = fst ke
            \<and> (\<exists>ret. getElementToWrite env rs (snd ke) = Inr (ret, snd ke')))
           els (elementsAfter sel)"
proof -
  from assms obtain imp where
    "selectElements env rs imp els
       \<lparr>totalSize = Some 132, metaLength = Some 0, metaElements = [],
        rawElements = [], elementsAfter = []\<rparr> = Inr sel"
    by (auto simp: applyRules_def bind_def split: sum.splits)
  from selectElements_after[OF this] show ?thesis by simp
qed

text \<open>
  The rule \<open>getElementToWrite\<close> selects, and what its action returns.  The rule of
  an element is the one keyed by
  \<open>element.tag.name\<close>; without it, the one keyed by the keyword the dictionary has
  for the tag; without it, the one keyed by the name \<open>TagGroups\<close> has for the group;
  without it, the rule \<open>default\<close>.  With the selected rule, \<open>copy\<close> returns the element
  as it is, \<open>remove\<close> returns \<open>null\<close>, \<open>clear\<close> stores the empty string into the
  first entry of the value (an integer typed array holds 0 there afterwards, a plain
  array keeps its further entries) and sets \<open>vl\<close> to 0, and \<open>replace\<close> with a string
  stores it into the first entry of a plain array and sets \<open>vl\<close> to its length.
\<close>

theorem getElementToWrite_priority_and_actions:
  "(map_of rs (tagName (tag e)) = Some r \<longrightarrow> selectRule env rs e = Some r)
   \<and> (map_of rs (tagName (tag e)) = None
        \<and> dictEntry env (group (tag e)) (element (tag e)) = Some (v, m, kw)
        \<and> map_of rs kw = Some r
      \<longrightarrow> selectRule env rs e = Some r)
   \<and> (map_of rs (tagName (tag e)) = None
        \<and> (\<forall>v m kw. dictEntry env (group (tag e)) (element (tag e)) = Some (v, m, kw)
               \<longrightarrow> map_of rs kw = None)
        \<and> map_of (TagGroups env) (drop 1 (group (tag e))) = Some g
        \<and> map_of rs g = Some r
      \<longrightarrow> selectRule env rs e = Some r)
   \<and> (map_of rs (tagName (tag e)) = None
        \<and> (\<forall>v m kw. dictEntry env (group (tag e)) (element (tag e)) = Some (v, m, kw)
               \<longrightarrow> map_of rs kw = None)
        \<and> (\<forall>g. map_of (TagGroups env) (drop 1 (group (tag e))) = Some g \<longrightarrow> map_of rs g = None)
        \<and> (map_of (TagGroups env) (drop 1 (group (tag e))) = None
               \<longrightarrow> map_of rs ''undefined'' = None)
      \<longrightarrow> selectRule env rs e = map_of rs ''default'')
   \<and> (selectRule env rs e = Some rule \<longrightarrow>
        (action rule = ''copy'' \<longrightarrow> getElementToWrite env rs e = Inr (Some e, e))
        \<and> (action rule = ''remove'' \<longrightarrow> getElementToWrite env rs e = Inr (None, e))
        \<and> (action rule = ''clear'' \<and> val e = JArr xs \<longrightarrow>
             getElementToWrite env rs e =
               Inr (Some (DataElement (tag e) (vr e) (VL 0) (JArr (JStr [] # tl xs))
                            (startOffset e) (startOffset e)),
                    DataElement (tag e) (vr e) (VL 0) (JArr (JStr [] # tl xs))
                      (startOffset e) (startOffset e)))
        \<and> (action rule = ''clear'' \<and> val e = JTyped a \<and> \<not> isFloatKind (kind a) \<and> elems a \<noteq> []
             \<longrightarrow> getElementToWrite env rs e =
               Inr (Some (DataElement (tag e) (vr e) (VL 0) (JTyped (a\<lparr>elems := 0 # tl (elems a)\<rparr>))
                            (startOffset e) (startOffset e)),
                    DataElement (tag e) (vr e) (VL 0) (JTyped (a\<lparr>elems := 0 # tl (elems a)\<rparr>))
                      (startOffset e) (startOffset e)))
        \<and> (action rule = ''replace'' \<and> ruleValue rule = JStr str \<and> val e = JArr xs \<longrightarrow>
             getElementToWrite env rs e =
               Inr (Some (DataElement (tag e) (vr e) (VL (length str)) (JArr (JStr str # tl xs))
                            (startOffset e) (map_option (\<lambda>st. st + length str) (startOffset e))),
                    DataElement (tag e) (vr e) (VL (length str)) (JArr (JStr str # tl xs))
                      (startOffset e) (map_option (\<lambda>st. st + length str) (startOffset e)))))"
proof -
  have k0: "toKind k 0 = 0" for k
    by (cases k) (simp_all add: wrapU_def wrapS_def)
  show ?thesis
    by (auto simp: selectRule_def getElementToWrite_def actionCopy_def actionRemove_def
        actionClear_def actionReplace_def setIndex0_def jsLength_def toNumber_def trim_def
        bind_def Let_def k0 split: option.splits)
qed

text \<open>
  The anonymisation rules on the example: the patient name has no rule under its
  key and one under its keyword, which replaces it; the number of rows has neither
  and is copied by the rule of its group; the image type has none of the three and
  is removed by the default rule.
\<close>

theorem getElementToWrite_priority_and_actions_witness:
  "selectRule exampleEnv anonymisationRules exPatientName
     = Some \<lparr>action = ''replace'', ruleValue = JStr ''Anonymized''\<rparr>
   \<and> getElementToWrite exampleEnv anonymisationRules exPatientName
     = Inr (Some (DataElement (tag exPatientName) ''PN'' (VL 10) (JArr [JStr ''Anonymized''])
                    (Some 204) (Some 214)),
            DataElement (tag exPatientName) ''PN'' (VL 10) (JArr [JStr ''Anonymized''])
              (Some 204) (Some 214))
   \<and> getElementToWrite exampleEnv anonymisationRules exRows = Inr (Some exRows, exRows)
   \<and> getElementToWrite exampleEnv anonymisationRules exImageType = Inr (None, exImageType)"
  using getElementToWrite_priority_and_actions
          [of anonymisationRules exPatientName
              "\<lparr>action = ''replace'', ruleValue = JStr ''Anonymized''\<rparr>" exampleEnv
              "''PN''" "''1''" "''PatientName''" "''Patient''"
              "\<lparr>action = ''replace'', ruleValue = JStr ''Anonymized''\<rparr>"
              "[JStr ''Doe^John'']" "\<lparr>kind = Uint16, elems = [512]\<rparr>" "''Anonymized''"]
        getElementToWrite_priority_and_actions
          [of anonymisationRules exRows
              "\<lparr>action = ''copy'', ruleValue = JNull\<rparr>" exampleEnv
              "''US''" "''1''" "''Rows''" "''Image Presentation''"
              "\<lparr>action = ''copy'', ruleValue = JNull\<rparr>"
              "[]" "\<lparr>kind = Uint16, elems = [512]\<rparr>" "''''"]
        getElementToWrite_priority_and_actions
          [of anonymisationRules exImageType
              "\<lparr>action = ''remove'', ruleValue = JNull\<rparr>" exampleEnv
              "''CS''" "''2-n''" "''ImageType''" "''Identifying''"
              "\<lparr>action = ''remove'', ruleValue = JNull\<rparr>"
              "[JStr ''ORIGINAL'', JStr ''PRIMARY'']" "\<lparr>kind = Uint16, elems = [512]\<rparr>" "''''"]
  by (simp add: anonymisationRules_def exPatientName_def exRows_def exImageType_def
      exampleEnv_def dictEntry_def tagName_def)

text \<open>
  C7 for the action \<open>clear\<close>.  It sets \<open>vl\<close> to 0 and \<open>endOffset\<close> to \<open>startOffset\<close>, and
  of the value it blanks the first entry only: on the image type, whose values are
  \<open>ORIGINAL\<close> and \<open>PRIMARY\<close>, the second value stays, and on the number of rows the typed array holds a 0.  In
  neither case is the value the empty string, and what the writer has to write is
  longer than the 0 bytes the element is now sized for.
\<close>

theorem clear_leaves_value:
  "getElementToWrite exampleEnv clearRules exRows
     = Inr (Some (DataElement (tag exRows) ''US'' (VL 0) (JTyped \<lparr>kind = Uint16, elems = [0]\<rparr>)
                    (Some 220) (Some 220)),
            DataElement (tag exRows) ''US'' (VL 0) (JTyped \<lparr>kind = Uint16, elems = [0]\<rparr>)
              (Some 220) (Some 220))
   \<and> getElementToWrite exampleEnv clearRules exImageType
     = Inr (Some (DataElement (tag exImageType) ''CS'' (VL 0) (JArr [JStr '''', JStr ''PRIMARY''])
                    (Some 180) (Some 180)),
            DataElement (tag exImageType) ''CS'' (VL 0) (JArr [JStr '''', JStr ''PRIMARY''])
              (Some 180) (Some 180))"
  by code_simp

text \<open>
  C10, as the code has it.  The first loop of \<open>getBuffer\<close> applies the rule of every
  element to the element object of the caller's map.  Afterwards the map has the same
  keys in the same order; an element under \<open>copy\<close> or \<open>remove\<close> is as it was; an element
  under \<open>clear\<close> or \<open>replace\<close> has its first value, its \<open>vl\<close> and its \<open>endOffset\<close>
  overwritten, and is the object that goes on to be written.
\<close>

theorem applyRules_overwrites_elements:
  assumes "applyRules env rs els = Inr (syntax, sel)"
    and "i < length els"
  shows "length (elementsAfter sel) = length els
     \<and> fst (elementsAfter sel ! i) = fst (els ! i)
     \<and> (\<exists>rule ret. selectRule env rs (snd (els ! i)) = Some rule
          \<and> getElementToWrite env rs (snd (els ! i)) = Inr (ret, snd (elementsAfter sel ! i))
          \<and> (action rule = ''copy'' \<or> action rule = ''remove''
               \<longrightarrow> snd (elementsAfter sel ! i) = snd (els ! i))
          \<and> (action rule = ''clear'' \<longrightarrow>
                ret = Some (snd (elementsAfter sel ! i))
                \<and> setIndex0 (val (snd (els ! i))) (JStr []) = Inr (val (snd (elementsAfter sel ! i)))
                \<and> vl (snd (elementsAfter sel ! i)) = VL 0
                \<and> endOffset (snd (elementsAfter sel ! i)) = startOffset (snd (els ! i)))
          \<and> (action rule = ''replace'' \<longrightarrow>
                ret = Some (snd (elementsAfter sel ! i))
                \<and> setIndex0 (val (snd (els ! i))) (ruleValue rule)
                    = Inr (val (snd (elementsAfter sel ! i)))
                \<and> (\<exists>n. jsLength (ruleValue rule) = Inr (Some n)
                      \<and> vl (snd (elementsAfter sel ! i)) = VL n
                      \<and> endOffset (snd (elementsAfter sel ! i))
                          = map_option (\<lambda>st. st + n) (startOffset (snd (els ! i))))))"
proof -
  let ?P = "\<lambda>ke ke'. fst ke' = fst ke
              \<and> (\<exists>ret. getElementToWrite env rs (snd ke) = Inr (ret, snd ke'))"
  have all: "list_all2 ?P els (elementsAfter sel)"
    using applyRules_after[OF assms(1)] .
  then have len: "length (elementsAfter sel) = length els"
    by (simp add: list_all2_lengthD)
  from all assms(2) have Pi: "?P (els ! i) (elementsAfter sel ! i)"
    by (rule list_all2_nthD)
  then obtain ret where
    g: "getElementToWrite env rs (snd (els ! i)) = Inr (ret, snd (elementsAfter sel ! i))"
    by blast
  from getElementToWrite_Inr[OF g] obtain rule where
    r: "selectRule env rs (snd (els ! i)) = Some rule"
    and c: "(action rule = ''copy'' \<and> ret = Some (snd (els ! i))
               \<and> snd (elementsAfter sel ! i) = snd (els ! i))
            \<or> (action rule = ''remove'' \<and> ret = None
               \<and> snd (elementsAfter sel ! i) = snd (els ! i))
            \<or> (action rule = ''clear'' \<and> ret = Some (snd (elementsAfter sel ! i))
                \<and> (\<exists>v. setIndex0 (val (snd (els ! i))) (JStr []) = Inr v
                      \<and> snd (elementsAfter sel ! i)
                        = DataElement (tag (snd (els ! i))) (vr (snd (els ! i))) (VL 0) v
                            (startOffset (snd (els ! i))) (startOffset (snd (els ! i)))))
            \<or> (action rule = ''replace'' \<and> ret = Some (snd (elementsAfter sel ! i))
                \<and> (\<exists>v n. setIndex0 (val (snd (els ! i))) (ruleValue rule) = Inr v
                      \<and> jsLength (ruleValue rule) = Inr (Some n)
                      \<and> snd (elementsAfter sel ! i)
                        = DataElement (tag (snd (els ! i))) (vr (snd (els ! i))) (VL n) v
                            (startOffset (snd (els ! i)))
                            (map_option (\<lambda>st. st + n) (startOffset (snd (els ! i))))))"
    by blast
  from c have body:
    "(action rule = ''copy'' \<or> action rule = ''remove''
               \<longrightarrow> snd (elementsAfter sel ! i) = snd (els ! i))
          \<and> (action rule = ''clear'' \<longrightarrow>
                ret = Some (snd (elementsAfter sel ! i))
                \<and> setIndex0 (val (snd (els ! i))) (JStr []) = Inr (val (snd (elementsAfter sel ! i)))
                \<and> vl (snd (elementsAfter sel ! i)) = VL 0
                \<and> endOffset (snd (elementsAfter sel ! i)) = startOffset (snd (els ! i)))
          \<and> (action rule = ''replace'' \<longrightarrow>
                ret = Some (snd (elementsAfter sel ! i))
                \<and> setIndex0 (val (snd (els ! i))) (ruleValue rule)
                    = Inr (val (snd (elementsAfter sel ! i)))
                \<and> (\<exists>n. jsLength (ruleValue rule) = Inr (Some n)
                      \<and> vl (snd (elementsAfter sel ! i)) = VL n
                      \<and> endOffset (snd (elementsAfter sel ! i))
                          = map_option (\<lambda>st. st + n) (startOffset (snd (els ! i)))))"
    by (elim disjE conjE exE) simp_all
  from len Pi r g body show ?thesis by blast
qed

text \<open>
  The anonymisation rules on the example: after the loop the caller's patient name
  is \<open>Anonymized\<close>.
\<close>

theorem applyRules_overwrites_elements_witness:
  "applyRules exampleEnv anonymisationRules exElements
     = Inr (JStr ''1.2.840.10008.1.2.1'', exAnonymised)
   \<and> (2::nat) < length exElements
   \<and> length (elementsAfter exAnonymised) = length exElements
   \<and> fst (elementsAfter exAnonymised ! 2) = fst (exElements ! 2)
   \<and> val (snd (exElements ! 2)) = JArr [JStr ''Doe^John'']
   \<and> val (snd (elementsAfter exAnonymised ! 2)) = JArr [JStr ''Anonymized'']"
proof -
  have a: "applyRules exampleEnv anonymisationRules exElements
             = Inr (JStr ''1.2.840.10008.1.2.1'', exAnonymised)"
    by code_simp
  have b: "(2::nat) < length exElements"
    by (simp add: exElements_def)
  have c: "val (snd (exElements ! 2)) = JArr [JStr ''Doe^John'']"
    by (simp add: exElements_def exPatientName_def)
  have d: "val (snd (elementsAfter exAnonymised ! 2)) = JArr [JStr ''Anonymized'']"
    by (simp add: exAnonymised_def)
  from applyRules_overwrites_elements[OF a b] a b c d show ?thesis
    by blast
qed

text \<open>
  Under \<open>remove\<close> nothing is written of the elements and the caller's map is as it
  was.
\<close>

theorem remove_leaves_elements_counterexample:
  "applyRules exampleEnv removeRules exElements
     = Inr (JStr ''1.2.840.10008.1.2.1'',
            \<lparr>totalSize = Some 132, metaLength = Some 0, metaElements = [], rawElements = [],
             elementsAfter = exElements\<rparr>)"
  by code_simp

section \<open>Properties of the pixel buffer\<close>



section \<open>Properties of parse\<close>

lemma np_Inr [simp]: "noPlainError (Inr x)"
  by (simp add: noPlainError_def)

lemma np_Inl [simp]:
  "noPlainError (Inl RangeError)" "noPlainError (Inl TypeError)"
  "noPlainError (Inl OutOfFuel)" "noPlainError (Inl Unmodelled)"
  by (simp_all add: noPlainError_def)

lemma np_not_Error [simp]: "noPlainError m \<Longrightarrow> m \<noteq> Inl (Error s)"
  by (auto simp: noPlainError_def)

lemma np_bind:
  "noPlainError m \<Longrightarrow> (\<And>x. m = Inr x \<Longrightarrow> noPlainError (f x)) \<Longrightarrow> noPlainError (bind m f)"
  by (cases m) (simp_all add: bind_def noPlainError_def)

lemma np_mapR: "noPlainError m \<Longrightarrow> noPlainError (mapR f m)"
  by (cases m) (simp_all add: mapR_def noPlainError_def)

lemma np_viewBytes: "noPlainError (viewBytes buf off n)"
  by (simp add: viewBytes_def)

lemma np_dvGet: "noPlainError (dvGet k buf off le)"
  using np_viewBytes[of buf off "BYTES_PER_ELEMENT k"]
  by (cases "viewBytes buf off (BYTES_PER_ELEMENT k)") (simp_all add: dvGet_def noPlainError_def)

lemma np_readUint: "noPlainError (readUint16 r off)" "noPlainError (readUint32 r off)"
  by (simp_all add: readUint16_def readUint32_def np_dvGet)

lemma np_readHex: "noPlainError (readHex r off)"
  using np_readUint(1)[of r off]
  by (cases "readUint16 r off") (simp_all add: readHex_def noPlainError_def Let_def)

lemma np_readString: "noPlainError (readString r off n)"
  using np_viewBytes[of "bytes r" off n]
  by (cases "viewBytes (bytes r) off n") (simp_all add: readString_def noPlainError_def)

lemma np_readTag: "noPlainError (readTag r off)"
  unfolding readTag_def by (intro np_bind np_readHex np_Inr)

lemma np_readHeader: "noPlainError (readHeader env r off imp)"
  unfolding readHeader_def Let_def
  by (intro np_bind np_readTag)
     (auto intro!: np_bind np_readString np_readUint split: prod.splits)

lemma np_collect: "(\<And>x. x \<in> set xs \<Longrightarrow> noPlainError x) \<Longrightarrow> noPlainError (collect xs)"
proof (induction xs)
  case Nil
  then show ?case by simp
next
  case (Cons x xs)
  then have "noPlainError x" and "noPlainError (collect xs)" by simp_all
  then show ?case
    by (cases x; cases "collect xs") (simp_all add: noPlainError_def)
qed

lemma np_readArray: "noPlainError (readArray k g r off sz)"
proof -
  have a: "noPlainError (readAligned k r off n)" for n
    using np_viewBytes[of "bytes r" off "n * BYTES_PER_ELEMENT k"]
    by (cases "viewBytes (bytes r) off (n * BYTES_PER_ELEMENT k)")
       (simp_all add: readAligned_def noPlainError_def Let_def)
  let ?c = "collect (map (\<lambda>i. dvGet g (bytes r) (off + BYTES_PER_ELEMENT k * i)
                                  (isLittleEndian r))
                      [0 ..< (sz + BYTES_PER_ELEMENT k - 1) div BYTES_PER_ELEMENT k])"
  have c: "noPlainError ?c"
    by (rule np_collect) (auto simp: np_dvGet)
  have "readFallback k g r off sz
          = bind ?c (\<lambda>vs.
              if list_ex (isNaNPattern k) (take (sz div BYTES_PER_ELEMENT k) vs)
              then Inl Unmodelled
              else Inr \<lparr>kind = k, elems = map (toKind k) (take (sz div BYTES_PER_ELEMENT k) vs)\<rparr>)"
    unfolding readFallback_def Let_def bind_def ..
  moreover have "noPlainError (bind ?c (\<lambda>vs.
              if list_ex (isNaNPattern k) (take (sz div BYTES_PER_ELEMENT k) vs)
              then Inl Unmodelled
              else Inr \<lparr>kind = k, elems = map (toKind k) (take (sz div BYTES_PER_ELEMENT k) vs)\<rparr>))"
    by (rule np_bind[OF c]) simp
  ultimately have f: "noPlainError (readFallback k g r off sz)"
    by (simp only:)
  show ?thesis
    by (simp add: readArray_def a f)
qed

lemma np_read8: "noPlainError (readUint8Array r off sz)" "noPlainError (readInt8Array r off sz)"
  using np_viewBytes[of "bytes r" off sz]
  by (cases "viewBytes (bytes r) off sz";
      simp add: readUint8Array_def readInt8Array_def noPlainError_def)+

lemmas np_arrays =
  np_read8 np_readArray[of Uint16 Int16, folded readUint16Array_def]
  np_readArray[of Int16 Int16, folded readInt16Array_def]
  np_readArray[of Uint32 Uint32, folded readUint32Array_def]
  np_readArray[of Int32 Int32, folded readInt32Array_def]
  np_readArray[of Float32 Float32, folded readFloat32Array_def]
  np_readArray[of Float64 Float64, folded readFloat64Array_def]

lemma np_jsIndex: "noPlainError (jsIndex v i)"
  by (cases v) (simp_all add: jsIndex_def)

lemma np_jsLength: "noPlainError (jsLength v)"
  by (cases v) (simp_all add: jsLength_def)

lemma np_cleanString: "noPlainError (cleanString v)"
  by (cases v) (simp_all add: cleanString_def Let_def)

lemma np_toNumber: "noPlainError (toNumber v)"
  by (cases v) (simp_all add: toNumber_def Let_def)

lemma np_readPixelValue: "noPlainError (readPixelValue els r off n)"
  unfolding readPixelValue_def
  by (intro np_bind) (auto intro!: np_mapR np_arrays np_jsIndex split: option.splits)

lemma np_atStrings: "noPlainError (atStrings xs)"
  by (induction xs rule: atStrings.induct) (simp_all add: np_mapR)

lemma np_readNumericValue: "readNumericValue r v off n = Some res \<Longrightarrow> noPlainError res"
  unfolding readNumericValue_def
  by (auto intro!: np_mapR np_arrays np_bind np_atStrings split: if_splits)

lemma np_readStringValue: "noPlainError (readStringValue r v off n)"
  unfolding readStringValue_def readSpecialString_def
  by (auto intro!: np_mapR np_readString)

lemma np_readers:
  "noPlainError (readDataElement fuel env els r off imp)
   \<and> noPlainError (readItemDataElement fuel env els r off imp)
   \<and> noPlainError (itemExplicitLoop fuel env els r imp off endOff itemData)
   \<and> noPlainError (itemImplicitLoop fuel env els r imp off itemData)
   \<and> noPlainError (readPixelItemDataElement fuel env els r off imp)
   \<and> noPlainError (pixelItemLoop fuel env els r imp off pd)
   \<and> noPlainError (sqExplicitLoop fuel env els r imp off sqEnd data)
   \<and> noPlainError (sqImplicitLoop fuel env els r imp off data)"
proof (induction fuel arbitrary: off endOff itemData pd sqEnd data)
  case 0
  show ?case by simp
next
  case (Suc fuel)
  have ih1: "noPlainError (readDataElement fuel env els r off imp)" for off
    by (rule Suc.IH[THEN conjunct1])
  have ih2: "noPlainError (readItemDataElement fuel env els r off imp)" for off
    by (rule Suc.IH[THEN conjunct2, THEN conjunct1])
  have ih3: "noPlainError (itemExplicitLoop fuel env els r imp off endOff itemData)"
    for off endOff itemData
    by (rule Suc.IH[THEN conjunct2, THEN conjunct2, THEN conjunct1])
  have ih4: "noPlainError (itemImplicitLoop fuel env els r imp off itemData)" for off itemData
    by (rule Suc.IH[THEN conjunct2, THEN conjunct2, THEN conjunct2, THEN conjunct1])
  have ih5: "noPlainError (readPixelItemDataElement fuel env els r off imp)" for off
    by (rule Suc.IH[THEN conjunct2, THEN conjunct2, THEN conjunct2, THEN conjunct2,
                    THEN conjunct1])
  have ih6: "noPlainError (pixelItemLoop fuel env els r imp off pd)" for off pd
    by (rule Suc.IH[THEN conjunct2, THEN conjunct2, THEN conjunct2, THEN conjunct2,
                    THEN conjunct2, THEN conjunct1])
  have ih7: "noPlainError (sqExplicitLoop fuel env els r imp off sqEnd data)" for off sqEnd data
    by (rule Suc.IH[THEN conjunct2, THEN conjunct2, THEN conjunct2, THEN conjunct2,
                    THEN conjunct2, THEN conjunct2, THEN conjunct1])
  have ih8: "noPlainError (sqImplicitLoop fuel env els r imp off data)" for off data
    by (rule Suc.IH[THEN conjunct2, THEN conjunct2, THEN conjunct2, THEN conjunct2,
                    THEN conjunct2, THEN conjunct2, THEN conjunct2])
  have g1: "noPlainError (readDataElement (Suc fuel) env els r off imp)"
    unfolding readDataElement.simps
  proof (rule np_bind[OF np_readHeader])
    fix x :: "Tag \<times> string \<times> vlen \<times> nat \<times> nat"
    obtain t v vlString n offset where x: "x = (t, v, vlString, n, offset)"
      by (cases x) auto
    have a: "noPlainError
               (bind (readPixelItemDataElement fuel env els r offset imp)
                  (\<lambda>(data, endOff, offsetTableVl).
                     Inr (DataElement t v vlString (JArr data)
                            (case offsetTableVl of VL m \<Rightarrow> Some (offset + m)
                                                 | UndefinedLength \<Rightarrow> None)
                            (Some endOff), endOff)))"
      by (rule np_bind[OF ih5]) (simp add: split_beta)
    have b: "noPlainError
               (bind (readPixelValue els r offset n) (\<lambda>data.
                  Inr (DataElement t v vlString data (Some offset) (Some (offset + n)),
                       offset + n)))"
      by (rule np_bind[OF np_readPixelValue]) simp
    have sq: "noPlainError
                (bind (if vlString \<noteq> UndefinedLength then
                         (if n \<noteq> 0
                          then sqExplicitLoop fuel env els r imp offset (offset + n) []
                          else Inr ([], offset))
                       else sqImplicitLoop fuel env els r imp offset [])
                   (\<lambda>(data, endOff).
                      Inr (DataElement t v vlString (JArr data) (Some offset) (Some endOff),
                           endOff)))"
      by (rule np_bind) (simp_all add: ih7 ih8 split_beta)
    have st: "noPlainError
                (bind (readStringValue r v offset n) (\<lambda>data.
                   Inr (DataElement t v vlString data (Some offset) (Some (offset + n)),
                        offset + n)))"
      by (rule np_bind[OF np_readStringValue]) simp
    have c: "noPlainError
               (case readNumericValue r v offset n of
                  Some res \<Rightarrow>
                    bind res (\<lambda>data.
                      Inr (DataElement t v vlString data (Some offset) (Some (offset + n)),
                           offset + n))
                | None \<Rightarrow>
                    if v = ''SQ'' then
                      bind (if vlString \<noteq> UndefinedLength then
                              (if n \<noteq> 0
                               then sqExplicitLoop fuel env els r imp offset (offset + n) []
                               else Inr ([], offset))
                            else sqImplicitLoop fuel env els r imp offset [])
                        (\<lambda>(data, endOff).
                           Inr (DataElement t v vlString (JArr data) (Some offset)
                                  (Some endOff), endOff))
                    else
                      bind (readStringValue r v offset n) (\<lambda>data.
                        Inr (DataElement t v vlString data (Some offset) (Some (offset + n)),
                             offset + n)))"
    proof (cases "readNumericValue r v offset n")
      case None
      show ?thesis
        unfolding None option.case using sq st by (simp only: if_split) blast
    next
      case (Some res)
      have "noPlainError res"
        by (rule np_readNumericValue[OF Some])
      then show ?thesis
        unfolding Some option.case by (rule np_bind) simp
    qed
    show "noPlainError
            (case x of
               (t, v, vlString, n, offset) \<Rightarrow>
                 let isPixelData = (name t = Some ''x7FE00010'') in
                 if isPixelData \<and> vlString = UndefinedLength then
                   bind (readPixelItemDataElement fuel env els r offset imp)
                     (\<lambda>(data, endOff, offsetTableVl).
                        Inr (DataElement t v vlString (JArr data)
                               (case offsetTableVl of VL m \<Rightarrow> Some (offset + m)
                                                    | UndefinedLength \<Rightarrow> None)
                               (Some endOff), endOff))
                 else if isPixelData \<and> (v = ''OB'' \<or> v = ''OW'' \<or> v = ''OF'' \<or> v = ''ox'') then
                   bind (readPixelValue els r offset n) (\<lambda>data.
                     Inr (DataElement t v vlString data (Some offset) (Some (offset + n)),
                          offset + n))
                 else
                   (case readNumericValue r v offset n of
                      Some res \<Rightarrow>
                        bind res (\<lambda>data.
                          Inr (DataElement t v vlString data (Some offset)
                                 (Some (offset + n)), offset + n))
                    | None \<Rightarrow>
                        if v = ''SQ'' then
                          bind (if vlString \<noteq> UndefinedLength then
                                  (if n \<noteq> 0
                                   then sqExplicitLoop fuel env els r imp offset (offset + n) []
                                   else Inr ([], offset))
                                else sqImplicitLoop fuel env els r imp offset [])
                            (\<lambda>(data, endOff).
                               Inr (DataElement t v vlString (JArr data) (Some offset)
                                      (Some endOff), endOff))
                        else
                          bind (readStringValue r v offset n) (\<lambda>data.
                            Inr (DataElement t v vlString data (Some offset)
                                   (Some (offset + n)), offset + n))))"
      unfolding x prod.case Let_def using a b c by (simp only: if_split) blast
  qed
  have g2: "noPlainError (readItemDataElement (Suc fuel) env els r off imp)"
    unfolding readItemDataElement.simps Let_def
    by (rule np_bind[OF ih1])
       (auto intro!: np_bind ih3 ih4 split: prod.splits vlen.splits)
  have g3: "noPlainError (itemExplicitLoop (Suc fuel) env els r imp off endOff itemData)"
    unfolding itemExplicitLoop.simps
    by (auto intro!: np_bind ih1 ih3 split: prod.splits)
  have g4: "noPlainError (itemImplicitLoop (Suc fuel) env els r imp off itemData)"
    unfolding itemImplicitLoop.simps
    by (auto intro!: np_bind ih1 ih4 split: prod.splits)
  have g5: "noPlainError (readPixelItemDataElement (Suc fuel) env els r off imp)"
    unfolding readPixelItemDataElement.simps
    by (auto intro!: np_bind ih1 ih6 split: prod.splits)
  have g6: "noPlainError (pixelItemLoop (Suc fuel) env els r imp off pd)"
    unfolding pixelItemLoop.simps
    by (auto intro!: np_bind ih1 ih6 split: prod.splits)
  have g7: "noPlainError (sqExplicitLoop (Suc fuel) env els r imp off sqEnd data)"
    unfolding sqExplicitLoop.simps
    by (auto intro!: np_bind ih2 ih7 split: prod.splits)
  have g8: "noPlainError (sqImplicitLoop (Suc fuel) env els r imp off data)"
    unfolding sqImplicitLoop.simps
    by (auto intro!: np_bind ih2 ih8 split: prod.splits)
  from g1 g2 g3 g4 g5 g6 g7 g8 show ?case by (intro conjI)
qed

lemma np_readDataElement: "readDataElement fuel env els r off imp \<noteq> Inl (Error s)"
  using np_readers[of fuel env els r off imp] by simp

lemma np_metaLoop: "fst (metaLoop fuel env r off metaEnd els) \<noteq> Some (Error s)"
proof (induction fuel arbitrary: off els)
  case 0
  show ?case by simp
next
  case (Suc fuel)
  show ?case
    using np_readDataElement[of fuel env els r off False s] Suc.IH
    by (auto split: sum.splits)
qed

lemma np_checkCharacterSet: "checkCharacterSet e \<noteq> Inl (Error s)"
proof -
  have "noPlainError (checkCharacterSet e)"
    unfolding checkCharacterSet_def
    by (auto intro!: np_bind np_jsLength np_jsIndex np_cleanString)
  then show ?thesis by simp
qed

lemma np_dataLoop: "fst (dataLoop fuel env r imp off els) \<noteq> Some (Error s)"
proof (induction fuel arbitrary: off els)
  case 0
  show ?case by simp
next
  case (Suc fuel)
  show ?case
    using np_readDataElement[of fuel env els r off imp s] Suc.IH
      np_checkCharacterSet[of _ s]
    by (auto split: sum.splits)
qed

lemma np_sliceFrames: "noPlainError (sliceFrames v ss nf)"
proof -
  have "noPlainError (sliceValue v b e)" for b e
    by (cases v) (simp_all add: sliceValue_def)
  then show ?thesis
    unfolding sliceFrames_def
    by (auto intro!: np_collect split: option.splits)
qed

lemma np_groupFragments: "noPlainError (groupFragments xs nf)"
  by (simp add: groupFragments_def Let_def)

lemma np_value0: "noPlainError (value0 els k)"
  by (simp add: value0_def np_jsIndex split: option.splits)

lemma np_pixelBuffer: "pixelBuffer els \<noteq> Inl (Error s)"
proof -
  have "noPlainError (pixelBuffer els)"
    unfolding pixelBuffer_def
    by (auto intro!: np_bind np_jsIndex np_value0 np_toNumber np_sliceFrames np_jsLength
          np_groupFragments split: option.splits jsval.splits)
  then show ?thesis by simp
qed

lemma np_readFileMeta: "fst (readFileMeta env r fuel) \<noteq> Some (Error s)"
  using np_readDataElement[of fuel env "[]" r 132 False s] np_jsIndex[of _ 0]
    np_metaLoop[of fuel env r _ _ _ s]
  by (auto simp: readFileMeta_def Let_def split: sum.splits)

lemma np_readDataSet: "fst (readDataSet env native fuel buf syntax off els) \<noteq> Some (Error s)"
  using np_dataLoop[of fuel env _ _ off els s] np_pixelBuffer[of _ s]
  by (auto simp: readDataSet_def Let_def split: option.splits sum.splits)

lemma unsupportedSyntax_neq:
  "unsupportedSyntax str \<noteq> notDicomSyntax" "unsupportedSyntax str \<noteq> notDicomMagic"
  by (simp_all add: unsupportedSyntax_def notDicomSyntax_def notDicomMagic_def)

lemma notDicom_distinct:
  "notDicomMagic \<noteq> notDicomSyntax" "RangeError \<noteq> notDicomMagic" "RangeError \<noteq> notDicomSyntax"
  by (simp_all add: notDicomSyntax_def notDicomMagic_def)

lemma bind_neq_notDicom:
  assumes "noPlainError m"
    and "\<And>x. f x \<noteq> Inl notDicomSyntax \<and> f x \<noteq> Inl notDicomMagic"
  shows "bind m f \<noteq> Inl notDicomSyntax \<and> bind m f \<noteq> Inl notDicomMagic"
proof (cases m)
  case (Inl e)
  then show ?thesis
    using assms(1) by (cases e) (simp_all add: bind_def notDicomSyntax_def notDicomMagic_def)
next
  case (Inr x)
  then show ?thesis
    using assms(2)[of x] by (simp add: bind_def)
qed

lemma np_isReadSupportedTransferSyntax: "noPlainError (isReadSupportedTransferSyntax x)"
proof -
  have "noPlainError (isJpeg2000TransferSyntax x)"
    by (cases x) (simp_all add: isJpeg2000TransferSyntax_def)
  then show ?thesis
    unfolding isReadSupportedTransferSyntax_def by (simp only: if_split np_Inr) simp
qed

lemma getSyntax_errors:
  "(getSyntax els = Inl notDicomSyntax) = (map_of els ''x00020010'' = None)"
  "getSyntax els \<noteq> Inl notDicomMagic"
proof -
  have some: "getSyntax els \<noteq> Inl notDicomSyntax \<and> getSyntax els \<noteq> Inl notDicomMagic"
    if ts: "map_of els ''x00020010'' = Some ts" for ts
    unfolding getSyntax_def ts option.case
    by (intro bind_neq_notDicom np_jsIndex np_cleanString np_isReadSupportedTransferSyntax)
       (simp add: unsupportedSyntax_neq)
  have none: "getSyntax els = Inl notDicomSyntax" if "map_of els ''x00020010'' = None"
    using that by (simp add: getSyntax_def)
  show "(getSyntax els = Inl notDicomSyntax) = (map_of els ''x00020010'' = None)"
    using some none by (cases "map_of els ''x00020010''") blast+
  show "getSyntax els \<noteq> Inl notDicomMagic"
    using some none notDicom_distinct(1)
    by (cases "map_of els ''x00020010''") auto
qed

text \<open>
  C4, as the code has it.  \<open>parse\<close> raises the error of the missing magic word
  exactly when the buffer has the four bytes at 128..132 and they are not \<open>DICM\<close>;
  it raises the error of the missing transfer syntax exactly when the magic word is
  there, the file meta group is read without an exception, and no element
  \<open>(0002,0010)\<close> was stored.  In the first case no element was stored, in the second
  the elements of the file meta group and no other.
\<close>

theorem parse_NotDicom:
  assumes r: "metaReader = \<lparr>bytes = buf, isLittleEndian = True, isNativeLittleEndian = native\<rparr>"
    and fm: "fm = readFileMeta env metaReader fuel"
  shows "(fst (parse env native fuel buf) = Some notDicomMagic
            \<longleftrightarrow> 132 \<le> length buf \<and> decode (take 4 (drop 128 buf)) \<noteq> ''DICM'')
       \<and> (fst (parse env native fuel buf) = Some notDicomSyntax
            \<longleftrightarrow> 132 \<le> length buf \<and> decode (take 4 (drop 128 buf)) = ''DICM''
                \<and> fst fm = None \<and> map_of (fst (snd fm)) ''x00020010'' = None)
       \<and> (fst (parse env native fuel buf) = Some notDicomMagic
            \<longrightarrow> snd (parse env native fuel buf) = [])
       \<and> (fst (parse env native fuel buf) = Some notDicomSyntax
            \<longrightarrow> snd (parse env native fuel buf) = fst (snd fm))"
proof (cases "132 \<le> length buf")
  case False
  then have "parse env native fuel buf = (Some RangeError, [])"
    by (simp add: parse_def readString_def viewBytes_def)
  then show ?thesis
    using False notDicom_distinct by simp
next
  case True
  then have rs: "readString metaReader 128 4 = Inr (decode (take 4 (drop 128 buf)))"
    by (simp add: r readString_def viewBytes_def)
  show ?thesis
  proof (cases "decode (take 4 (drop 128 buf)) = ''DICM''")
    case False
    then have "parse env native fuel buf = (Some notDicomMagic, [])"
      using rs by (simp add: parse_def r[symmetric])
    then show ?thesis
      using True False notDicom_distinct by simp
  next
    case magic: True
    have p: "parse env native fuel buf
               = (case fst fm of
                    Some e \<Rightarrow> (Some e, fst (snd fm))
                  | None \<Rightarrow>
                      (case getSyntax (fst (snd fm)) of
                         Inl e \<Rightarrow> (Some e, fst (snd fm))
                       | Inr syntax \<Rightarrow>
                           readDataSet env native fuel buf syntax (snd (snd fm))
                             (fst (snd fm))))"
      using rs magic by (simp add: parse_def r[symmetric] fm[symmetric] Let_def)
    show ?thesis
    proof (cases "fst fm")
      case (Some e)
      have "e \<noteq> notDicomMagic" "e \<noteq> notDicomSyntax"
        using np_readFileMeta[of env metaReader fuel] Some
        by (auto simp: fm notDicomMagic_def notDicomSyntax_def)
      then show ?thesis
        using True magic Some by (simp add: p)
    next
      case None
      show ?thesis
      proof (cases "getSyntax (fst (snd fm))")
        case (Inl e)
        have "(e = notDicomSyntax) = (map_of (fst (snd fm)) ''x00020010'' = None)"
          and "e \<noteq> notDicomMagic"
          using getSyntax_errors[of "fst (snd fm)"] Inl by simp_all
        then show ?thesis
          using True magic None Inl by (simp add: p)
      next
        case (Inr stx)
        have ts: "map_of (fst (snd fm)) ''x00020010'' \<noteq> None"
          using getSyntax_errors(1)[of "fst (snd fm)"] Inr by auto
        have "fst (readDataSet env native fuel buf stx (snd (snd fm)) (fst (snd fm)))
                \<noteq> Some notDicomMagic"
          and "fst (readDataSet env native fuel buf stx (snd (snd fm)) (fst (snd fm)))
                \<noteq> Some notDicomSyntax"
          using np_readDataSet[of env native fuel buf stx "snd (snd fm)" "fst (snd fm)"]
          by (simp_all add: notDicomMagic_def notDicomSyntax_def)
        then show ?thesis
          using True magic None Inr ts by (simp add: p)
      qed
    qed
  qed
qed

theorem parse_NotDicom_witness:
  "parse exampleEnv True 10 exNoMagicFile = (Some notDicomMagic, [])
   \<and> parse exampleEnv True 10 exNoSyntaxFile
     = (Some notDicomSyntax, [(''x00020000'', exGroupLength)])"
proof -
  have m: "132 \<le> length exNoMagicFile \<and> decode (take 4 (drop 128 exNoMagicFile)) \<noteq> ''DICM''"
    by code_simp
  have s: "132 \<le> length exNoSyntaxFile \<and> decode (take 4 (drop 128 exNoSyntaxFile)) = ''DICM''"
    by code_simp
  have f: "readFileMeta exampleEnv (exReader exNoSyntaxFile) 10
             = (None, [(''x00020000'', exGroupLength)], 144)"
    by code_simp
  from parse_NotDicom[where env = exampleEnv and fuel = 10 and buf = exNoMagicFile,
                      OF exReader_def refl] m
  have 1: "fst (parse exampleEnv True 10 exNoMagicFile) = Some notDicomMagic
           \<and> snd (parse exampleEnv True 10 exNoMagicFile) = []"
    by blast
  from parse_NotDicom[where env = exampleEnv and fuel = 10 and buf = exNoSyntaxFile,
                      OF exReader_def refl] s
  have 2: "fst (parse exampleEnv True 10 exNoSyntaxFile) = Some notDicomSyntax
           \<and> snd (parse exampleEnv True 10 exNoSyntaxFile) = [(''x00020000'', exGroupLength)]"
    by (simp add: f)
  from 1 2 show ?thesis
    by (simp add: prod_eq_iff)
qed

text \<open>
  A buffer that ends after the magic word has the magic word and no transfer syntax,
  and an empty buffer has no magic word: both raise a RangeError.
\<close>

theorem parse_RangeError_counterexample:
  "decode (take 4 (drop 128 exMagicOnlyFile)) = ''DICM''
   \<and> parse exampleEnv True 10 exMagicOnlyFile = (Some RangeError, [])
   \<and> parse exampleEnv True 10 [] = (Some RangeError, [])"
  by code_simp

section \<open>Properties of getBuffer\<close>

lemma kl_Inl [simp]: "keepsLength buf (Inl e)"
  by (simp add: keepsLength_def)

lemma kl_Inr [simp]: "keepsLength buf (Inr (b, off)) = (length b = length buf)"
  by (simp add: keepsLength_def)

lemma kl_bind:
  assumes "keepsLength buf m"
    and "\<And>b off. m = Inr (b, off) \<Longrightarrow> length b = length buf \<Longrightarrow> keepsLength b (f (b, off))"
  shows "keepsLength buf (bind m f)"
proof (cases m)
  case (Inl e)
  then show ?thesis by (simp add: bind_def)
next
  case (Inr x)
  obtain b off where x: "x = (b, off)" by (cases x)
  from assms(1) Inr x have l: "length b = length buf" by simp
  from assms(2)[OF Inr[unfolded x] l] l show ?thesis
    by (cases "f (b, off)") (auto simp: bind_def Inr x keepsLength_def)
qed

lemma kl_bind_other:
  assumes "\<And>x. m = Inr x \<Longrightarrow> keepsLength buf (f x)"
  shows "keepsLength buf (bind m f)"
  using assms by (cases m) (simp_all add: bind_def)

lemma length_leBytes [simp]: "length (leBytes n v) = n"
  by (induction n arbitrary: v) simp_all

lemma kl_dvSet: "keepsLength buf (dvSet n buf off v le)"
  by (simp add: dvSet_def Let_def)

lemma kl_writeHex: "keepsLength buf (writeHex le buf off str)"
  by (simp add: writeHex_def kl_dvSet)

lemma kl_writeString: "keepsLength buf (writeString buf off s)"
proof (induction s arbitrary: buf off)
  case Nil
  show ?case by simp
next
  case (Cons c cs)
  show ?case
    unfolding writeString.simps
    by (rule kl_bind[OF kl_dvSet]) (simp add: Cons.IH)
qed

lemma kl_writeNumbers: "keepsLength buf (writeNumbers n le buf off vs)"
proof (induction vs arbitrary: buf off)
  case Nil
  show ?case by simp
next
  case (Cons v vs)
  show ?case
    unfolding writeNumbers.simps
    by (rule kl_bind[OF kl_dvSet]) (simp add: Cons.IH)
qed

lemma kl_writeIntArray: "keepsLength buf (writeIntArray n le buf off x)"
  unfolding writeIntArray_def by (rule kl_bind_other) (rule kl_writeNumbers)

lemma kl_writeFloatArray: "keepsLength buf (writeFloatArray k le buf off x)"
  by (cases x) (simp_all add: writeFloatArray_def kl_writeNumbers)

lemma kl_writeStrings: "keepsLength buf (writeStrings buf off first xs)"
proof (induction xs arbitrary: buf off first)
  case Nil
  show ?case by simp
next
  case (Cons x xs)
  have a: "keepsLength buf (if first then Inr (buf, off) else writeString buf off [backslash])"
    using kl_writeString[of buf off "[backslash]"] by (simp only: if_split kl_Inr) simp
  show ?case
    unfolding writeStrings.simps
    by (rule kl_bind[OF a], simp only: prod.case, rule kl_bind_other,
        rule kl_bind[OF kl_writeString], simp add: Cons.IH)
qed

lemma kl_writeStringArray: "keepsLength buf (writeStringArray buf off x)"
  by (cases x) (simp_all add: writeStringArray_def kl_writeStrings)

lemma kl_writeAttributeTags: "keepsLength buf (writeAttributeTags le buf off xs)"
proof (induction xs arbitrary: buf off)
  case Nil
  show ?case by simp
next
  case (Cons x xs)
  show ?case
    unfolding writeAttributeTags.simps
    by (rule kl_bind_other, rule kl_bind[OF kl_writeNumbers]) (simp add: Cons.IH)
qed

lemma kl_writeFlatValue: "keepsLength buf (writeFlatValue le v buf off x)"
proof -
  have at: "keepsLength buf
              (case x of
                 JArr xs \<Rightarrow> writeAttributeTags le buf off xs
               | JNum n \<Rightarrow> Inr (buf, off)
               | JUndefined \<Rightarrow> Inl TypeError
               | JNull \<Rightarrow> Inl TypeError
               | _ \<Rightarrow> Inl Unmodelled)"
    by (cases x) (simp_all add: kl_writeAttributeTags)
  show ?thesis
    unfolding writeFlatValue_def
    using at by (simp add: kl_writeIntArray kl_writeFloatArray kl_writeStringArray
                      split: option.splits)
qed

lemma kl_if: "(c \<Longrightarrow> keepsLength buf a) \<Longrightarrow> (\<not> c \<Longrightarrow> keepsLength buf b) \<Longrightarrow> keepsLength buf (if c then a else b)"
  by simp

lemma kl_vr:
  "keepsLength b (if c then bind (writeString b off s) (\<lambda>(b', off'). Inr (b', g off'))
                  else Inr (b, off))"
  by (rule kl_if, rule kl_bind[OF kl_writeString]) simp_all

lemma kl_writers:
  "keepsLength buf (writeDataElement fuel le buf e off imp)
   \<and> keepsLength buf (writeDataElementValue fuel le buf v off x imp)
   \<and> keepsLength buf (writeDataElementItems fuel le buf off items imp)
   \<and> keepsLength buf (writeItemRest fuel le buf off kes imp)
   \<and> keepsLength buf (writePixelDataElementValue fuel le buf v vlen off x imp)"
proof (induction fuel arbitrary: buf e off v x items kes vlen)
  case 0
  show ?case by simp
next
  case (Suc fuel)
  have ih1: "keepsLength buf (writeDataElement fuel le buf e off imp)" for buf e off
    by (rule Suc.IH[THEN conjunct1])
  have ih2: "keepsLength buf (writeDataElementValue fuel le buf v off x imp)" for buf v off x
    by (rule Suc.IH[THEN conjunct2, THEN conjunct1])
  have ih3: "keepsLength buf (writeDataElementItems fuel le buf off items imp)" for buf off items
    by (rule Suc.IH[THEN conjunct2, THEN conjunct2, THEN conjunct1])
  have ih4: "keepsLength buf (writeItemRest fuel le buf off kes imp)" for buf off kes
    by (rule Suc.IH[THEN conjunct2, THEN conjunct2, THEN conjunct2, THEN conjunct1])
  have ih5: "keepsLength buf (writePixelDataElementValue fuel le buf v vlen off x imp)"
    for buf v vlen off x
    by (rule Suc.IH[THEN conjunct2, THEN conjunct2, THEN conjunct2, THEN conjunct2])
  have g1: "keepsLength buf (writeDataElement (Suc fuel) le buf e off imp)"
    unfolding writeDataElement.simps Let_def
    apply (rule kl_bind[OF kl_writeHex])
    apply (simp only: prod.case)
    apply (rule kl_bind[OF kl_writeHex])
    apply (simp only: prod.case)
    apply (rule kl_bind[OF kl_vr])
    apply (simp only: prod.case)
    apply (rule kl_bind[OF kl_dvSet])
    apply (simp only: prod.case)
    apply (rule kl_bind[OF kl_if[OF ih5 ih2]])
    apply (simp only: prod.case)
    apply (rule kl_if[OF ih1])
    apply (simp only: kl_Inr)
    done
  have g2: "keepsLength buf (writeDataElementValue (Suc fuel) le buf v off x imp)"
    unfolding writeDataElementValue.simps
    by (rule kl_if; cases x) (simp_all add: ih3 kl_writeFlatValue)
  have g3: "keepsLength buf (writeDataElementItems (Suc fuel) le buf off items imp)"
  proof (cases items)
    case Nil
    then show ?thesis by simp
  next
    case (Cons item rest)
    show ?thesis
    proof (cases item)
      case (JObj kes)
      show ?thesis
      proof (cases "kes = []")
        case True
        then show ?thesis by (simp add: Cons JObj ih3)
      next
        case False
        show ?thesis
        proof (cases "map_of kes ''xFFFEE000''")
          case None
          then show ?thesis using False by (simp add: Cons JObj)
        next
          case (Some itemElement)
          show ?thesis
            unfolding writeDataElementItems.simps Cons list.case JObj jsval.case Some option.case
              Let_def if_not_P[OF False]
            apply (rule kl_bind[OF ih1])
            apply (simp only: prod.case)
            apply (rule kl_bind[OF ih4])
            apply (simp only: prod.case)
            apply (rule kl_bind[OF kl_if[OF ih1]])
             apply (simp only: kl_Inr)
            apply (simp only: prod.case ih3)
            done
        qed
      qed
    qed (simp_all add: Cons)
  qed
  have g4: "keepsLength buf (writeItemRest (Suc fuel) le buf off kes imp)"
  proof (cases kes)
    case Nil
    then show ?thesis by simp
  next
    case (Cons ke rest)
    show ?thesis
      unfolding writeItemRest.simps Cons list.case
      by (rule kl_bind[OF ih1]) (simp only: prod.case ih4)
  qed
  have g5: "keepsLength buf (writePixelDataElementValue (Suc fuel) le buf v vlen off x imp)"
    unfolding writePixelDataElementValue.simps
    apply (rule kl_if)
     apply (rule kl_bind_other)
     apply (rule kl_bind_other)
     apply (rule ih2)
    apply (cases x)
          apply (simp_all only: jsval.case kl_Inl)
    apply (rule kl_bind_other)
    apply (rule ih3)
    done
  from g1 g2 g3 g4 g5 show ?case by (intro conjI)
qed

lemma kl_writeElements: "keepsLength buf (writeElements fuel le buf off es imp)"
proof (induction es arbitrary: buf off)
  case Nil
  show ?case by simp
next
  case (Cons e es)
  show ?case
    unfolding writeElements.simps
    by (rule kl_bind[OF kl_writers[THEN conjunct1]]) (simp only: prod.case Cons.IH)
qed

lemma getBuffer_length:
  assumes "getBuffer env rs fuel els = Inr out"
  shows "\<exists>stx sel0 fmigl sel.
           applyRules env rs els = Inr (stx, sel0)
           \<and> writerElements env (isImplicitTransferSyntax stx) sel0 = Inr (fmigl, sel)
           \<and> newArrayBuffer (totalSize sel) = Inr (replicate (length out) 0)"
proof -
  from assms have
    "bind (applyRules env rs els) (\<lambda>(stx, sel0).
             bind (writerElements env (isImplicitTransferSyntax stx) sel0) (\<lambda>(fmigl, sel).
             bind (newArrayBuffer (totalSize sel)) (\<lambda>buf0.
             bind (writeString buf0 128 ''DICM'') (\<lambda>(b1, o1).
             bind (writeDataElement fuel True b1 fmigl o1 False) (\<lambda>(b2, o2).
             bind (writeElements fuel True b2 o2 (metaElements sel) False) (\<lambda>(b3, o3).
             bind (writeElements fuel (\<not> isBigEndianTransferSyntax stx) b3 o3
                     (rawElements sel) (isImplicitTransferSyntax stx))
               (\<lambda>(b4, o4). Inr b4))))))) = Inr out"
    unfolding getBuffer_def Let_def .
  from bind_Inr[OF this] obtain stx sel0 where
    a: "applyRules env rs els = Inr (stx, sel0)"
    and r1: "bind (writerElements env (isImplicitTransferSyntax stx) sel0) (\<lambda>(fmigl, sel).
             bind (newArrayBuffer (totalSize sel)) (\<lambda>buf0.
             bind (writeString buf0 128 ''DICM'') (\<lambda>(b1, o1).
             bind (writeDataElement fuel True b1 fmigl o1 False) (\<lambda>(b2, o2).
             bind (writeElements fuel True b2 o2 (metaElements sel) False) (\<lambda>(b3, o3).
             bind (writeElements fuel (\<not> isBigEndianTransferSyntax stx) b3 o3
                     (rawElements sel) (isImplicitTransferSyntax stx))
               (\<lambda>(b4, o4). Inr b4)))))) = Inr out"
    by auto
  from bind_Inr[OF r1] obtain fmigl sel where
    w: "writerElements env (isImplicitTransferSyntax stx) sel0 = Inr (fmigl, sel)"
    and r2: "bind (newArrayBuffer (totalSize sel)) (\<lambda>buf0.
             bind (writeString buf0 128 ''DICM'') (\<lambda>(b1, o1).
             bind (writeDataElement fuel True b1 fmigl o1 False) (\<lambda>(b2, o2).
             bind (writeElements fuel True b2 o2 (metaElements sel) False) (\<lambda>(b3, o3).
             bind (writeElements fuel (\<not> isBigEndianTransferSyntax stx) b3 o3
                     (rawElements sel) (isImplicitTransferSyntax stx))
               (\<lambda>(b4, o4). Inr b4))))) = Inr out"
    by auto
  from bind_Inr[OF r2] obtain buf0 where
    n: "newArrayBuffer (totalSize sel) = Inr buf0"
    and r3: "bind (writeString buf0 128 ''DICM'') (\<lambda>(b1, o1).
             bind (writeDataElement fuel True b1 fmigl o1 False) (\<lambda>(b2, o2).
             bind (writeElements fuel True b2 o2 (metaElements sel) False) (\<lambda>(b3, o3).
             bind (writeElements fuel (\<not> isBigEndianTransferSyntax stx) b3 o3
                     (rawElements sel) (isImplicitTransferSyntax stx))
               (\<lambda>(b4, o4). Inr b4)))) = Inr out"
    by auto
  from bind_Inr[OF r3] obtain b1 o1 where
    s1: "writeString buf0 128 ''DICM'' = Inr (b1, o1)"
    and r4: "bind (writeDataElement fuel True b1 fmigl o1 False) (\<lambda>(b2, o2).
             bind (writeElements fuel True b2 o2 (metaElements sel) False) (\<lambda>(b3, o3).
             bind (writeElements fuel (\<not> isBigEndianTransferSyntax stx) b3 o3
                     (rawElements sel) (isImplicitTransferSyntax stx))
               (\<lambda>(b4, o4). Inr b4))) = Inr out"
    by auto
  from bind_Inr[OF r4] obtain b2 o2 where
    s2: "writeDataElement fuel True b1 fmigl o1 False = Inr (b2, o2)"
    and r5: "bind (writeElements fuel True b2 o2 (metaElements sel) False) (\<lambda>(b3, o3).
             bind (writeElements fuel (\<not> isBigEndianTransferSyntax stx) b3 o3
                     (rawElements sel) (isImplicitTransferSyntax stx))
               (\<lambda>(b4, o4). Inr b4)) = Inr out"
    by auto
  from bind_Inr[OF r5] obtain b3 o3 where
    s3: "writeElements fuel True b2 o2 (metaElements sel) False = Inr (b3, o3)"
    and r6: "bind (writeElements fuel (\<not> isBigEndianTransferSyntax stx) b3 o3
                     (rawElements sel) (isImplicitTransferSyntax stx))
               (\<lambda>(b4, o4). Inr b4) = Inr out"
    by auto
  from bind_Inr[OF r6] obtain o4 where
    s4: "writeElements fuel (\<not> isBigEndianTransferSyntax stx) b3 o3
           (rawElements sel) (isImplicitTransferSyntax stx) = Inr (out, o4)"
    by auto
  have "length b1 = length buf0"
    using kl_writeString[of buf0 128 "''DICM''"] s1 by simp
  moreover have "length b2 = length b1"
    using kl_writers[THEN conjunct1, of b1 fuel True fmigl o1 False] s2 by simp
  moreover have "length b3 = length b2"
    using kl_writeElements[of b2 fuel True o2 "metaElements sel" False] s3 by simp
  moreover have "length out = length b3"
    using kl_writeElements[of b3 fuel "\<not> isBigEndianTransferSyntax stx" o3 "rawElements sel"
            "isImplicitTransferSyntax stx"] s4 by simp
  ultimately have l: "length out = length buf0"
    by simp
  from n have "buf0 = replicate (length buf0) 0"
    by (auto simp: newArrayBuffer_def split: option.splits if_splits)
  with n l have "newArrayBuffer (totalSize sel) = Inr (replicate (length out) 0)"
    by simp
  with a w show ?thesis
    by blast
qed

text \<open>
  C1 on the file with the empty sequence of undefined length.  The size the first
  loop of \<open>getBuffer\<close> gives the sequence is its prefix, the distance from
  \<open>startOffset\<close> to \<open>endOffset\<close> and the size of a sequence delimitation item; the
  \<open>endOffset\<close> that \<open>readDataElement\<close> stored is already behind the delimitation item
  of the file.  The buffer the writer allocates has 260 bytes for the 252 of the
  file and is returned at that length.
\<close>

theorem getBuffer_undefined_length_sequence:
  "parse exampleEnv True 10 exSequenceFile = (None, exSequenceElements)
   \<and> length exSequenceFile = 252
   \<and> (\<forall>fuel. getBuffer exampleEnv defaultRules fuel exSequenceElements
                \<in> range Inl \<union> Inr ` {out. length out = 260})
   \<and> (\<forall>fuel. getBuffer exampleEnv defaultRules fuel exSequenceElements \<noteq> Inr exSequenceFile)"
proof -
  have p: "parse exampleEnv True 10 exSequenceFile = (None, exSequenceElements)"
    by code_simp
  have l: "length exSequenceFile = 252"
    by code_simp
  have a: "applyRules exampleEnv defaultRules exSequenceElements
             = Inr (JStr ''1.2.840.10008.1.2.1'',
                    \<lparr>totalSize = Some 188, metaLength = Some 28,
                     metaElements = [snd (exSequenceElements ! 1)],
                     rawElements = [snd (exSequenceElements ! 4)],
                     elementsAfter = exSequenceElements\<rparr>)"
    by code_simp
  have t: "mapR (\<lambda>(fmigl, sel). totalSize sel)
             (writerElements exampleEnv False
                \<lparr>totalSize = Some 188, metaLength = Some 28,
                 metaElements = [snd (exSequenceElements ! 1)],
                 rawElements = [snd (exSequenceElements ! 4)],
                 elementsAfter = exSequenceElements\<rparr>) = Inr (Some 260)"
    by code_simp
  have len: "length out = 260"
    if "getBuffer exampleEnv defaultRules fuel exSequenceElements = Inr out" for fuel out
  proof -
    from getBuffer_length[OF that] a obtain fmigl sel where
      w: "writerElements exampleEnv False
            \<lparr>totalSize = Some 188, metaLength = Some 28,
             metaElements = [snd (exSequenceElements ! 1)],
             rawElements = [snd (exSequenceElements ! 4)],
             elementsAfter = exSequenceElements\<rparr> = Inr (fmigl, sel)"
      and n: "newArrayBuffer (totalSize sel) = Inr (replicate (length out) 0)"
      by (auto simp: isImplicitTransferSyntax_def)
    from t w have "totalSize sel = Some 260"
      by (simp add: mapR_def)
    with n show ?thesis
      by (simp add: newArrayBuffer_def)
  qed
  have r: "getBuffer exampleEnv defaultRules fuel exSequenceElements
             \<in> range Inl \<union> Inr ` {out. length out = 260}" for fuel
    using len[of fuel]
    by (cases "getBuffer exampleEnv defaultRules fuel exSequenceElements") auto
  have "getBuffer exampleEnv defaultRules fuel exSequenceElements \<noteq> Inr exSequenceFile" for fuel
    using len[of fuel exSequenceFile] l by auto
  with p l r show ?thesis
    by blast
qed

section \<open>Properties of parse: the frames of the pixel data\<close>


lemma typed_items:
  "list_all (\<lambda>v. typedOf v \<noteq> None) xs \<Longrightarrow> map JTyped (map (\<lambda>v. the (typedOf v)) xs) = xs"
proof (induction xs)
  case Nil
  then show ?case by simp
next
  case (Cons x xs)
  then show ?case by (cases x) simp_all
qed

text \<open>
  When \<open>parse\<close> completes, the file meta group was read, the transfer syntax is
  supported, the data loop came to its end, and the elements returned are those the
  loop stored after the step of the pixel buffer.
\<close>

lemma parse_pixelBuffer:
  assumes "parse env native fuel buf = (None, els')"
    and "readFileMeta env \<lparr>bytes = buf, isLittleEndian = True, isNativeLittleEndian = native\<rparr> fuel
           = (None, metaEls, off)"
    and "getSyntax metaEls = Inr stx"
    and "dataLoop fuel env
           \<lparr>bytes = buf, isLittleEndian = \<not> isBigEndianTransferSyntax stx,
            isNativeLittleEndian = native\<rparr>
           (isImplicitTransferSyntax stx) off metaEls = (None, els, endOff)"
  shows "pixelBuffer els = Inr els'"
  using assms
  by (auto simp: parse_def readDataSet_def Let_def split: sum.splits if_splits option.splits)



text \<open>
  C6.  \<open>parse\<close> has completed on \<open>buf\<close>; \<open>els\<close> are the elements its data loop
  stored, among them the pixel data \<open>px\<close> of undefined length, and the number of
  frames (1 without \<open>(0028,0008)\<close>) is the number \<open>nf\<close>, at least 1.  The value of
  \<open>px\<close> is the array of the fragments read after the offset table.  When there are
  more fragments than frames, the number of frames divides their number, and the
  elements \<open>parse\<close> returns are \<open>els\<close> with the value of the pixel data replaced by
  \<open>nf\<close> frames, frame \<open>f\<close> the concatenation of the \<open>k\<close> consecutive fragments from
  \<open>f * k\<close> on, for \<open>k\<close> the number of fragments divided by \<open>nf\<close>.  Otherwise the
  elements returned are \<open>els\<close>, the fragments as they were read.
\<close>

theorem parse_fragments:
  assumes p: "parse env native fuel buf = (None, els')"
    and fm: "readFileMeta env
               \<lparr>bytes = buf, isLittleEndian = True, isNativeLittleEndian = native\<rparr> fuel
               = (None, metaEls, off)"
    and stx: "getSyntax metaEls = Inr stx"
    and dl: "dataLoop fuel env
               \<lparr>bytes = buf, isLittleEndian = \<not> isBigEndianTransferSyntax stx,
                isNativeLittleEndian = native\<rparr>
               (isImplicitTransferSyntax stx) off metaEls = (None, els, endOff)"
    and px: "map_of els ''x7FE00010'' = Some px"
    and len: "vl px = UndefinedLength"
    and nfv: "(case map_of els ''x00280008'' of
                 None \<Rightarrow> Inr (JNum 1) | Some e \<Rightarrow> jsIndex (val e) 0) = Inr numberOfFrames"
    and nf: "toNumber numberOfFrames = Inr (Some nf)"
    and pos: "1 \<le> nf"
  shows "\<exists>pixItems.
           val px = JArr pixItems
           \<and> (nf < int (length pixItems) \<longrightarrow>
                (\<exists>frs frames.
                   pixItems = map JTyped frs
                   \<and> int (length frs) mod nf = 0
                   \<and> els' = AList.update ''x7FE00010'' (setValue px (JArr frames)) els
                   \<and> map_of els' ''x7FE00010'' = Some (setValue px (JArr frames))
                   \<and> length frames = nat nf
                   \<and> (\<forall>f<nat nf. frames ! f
                         = concatFragments (kind (hd frs))
                             (take (length frs div nat nf)
                                (drop (f * (length frs div nat nf)) frs)))))
           \<and> (int (length pixItems) \<le> nf \<longrightarrow> els' = els)"
proof -
  have pb: "pixelBuffer els = Inr els'"
    by (rule parse_pixelBuffer[OF p fm stx dl])
  then obtain pixItems where v: "val px = JArr pixItems"
    unfolding pixelBuffer_def
    by (cases "val px") (auto simp: px len nfv bind_def jsLength_def)
  have same: "els' = els" if "int (length pixItems) \<le> nf"
    using pb that unfolding pixelBuffer_def
    by (auto simp: px len nfv nf v bind_def jsLength_def split: if_splits)
  have more: "\<exists>frs frames.
                pixItems = map JTyped frs
                \<and> int (length frs) mod nf = 0
                \<and> els' = AList.update ''x7FE00010'' (setValue px (JArr frames)) els
                \<and> map_of els' ''x7FE00010'' = Some (setValue px (JArr frames))
                \<and> length frames = nat nf
                \<and> (\<forall>f<nat nf. frames ! f
                      = concatFragments (kind (hd frs))
                          (take (length frs div nat nf)
                             (drop (f * (length frs div nat nf)) frs)))"
    if gt: "nf < int (length pixItems)"
  proof -
    let ?frs = "map (\<lambda>v. the (typedOf v)) pixItems"
    let ?k = "length ?frs div nat nf"
    let ?frames = "map (\<lambda>f. concatFragments (kind (hd ?frs)) (take ?k (drop (f * ?k) ?frs)))
                     [0 ..< nat nf]"
    from gt pos have "1 < length pixItems" by linarith
    with pb gt have "bind (groupFragments pixItems nf) (\<lambda>newPixItems.
                       Inr (AList.update ''x7FE00010'' (setValue px (JArr newPixItems)) els))
                     = Inr els'"
      unfolding pixelBuffer_def
      by (simp add: px len nfv nf v bind_def jsLength_def)
    from bind_Inr[OF this] obtain frames where
      g: "groupFragments pixItems nf = Inr frames"
      and e: "els' = AList.update ''x7FE00010'' (setValue px (JArr frames)) els"
      by auto
    from g pos have ty: "list_all (\<lambda>v. typedOf v \<noteq> None) pixItems"
      and dv: "int (length pixItems) mod nf = 0"
      and fr: "frames = ?frames"
      by (auto simp: groupFragments_def Let_def split: if_splits)
    have items: "pixItems = map JTyped ?frs"
      using typed_items[OF ty] by simp
    have m: "map_of els' ''x7FE00010'' = Some (setValue px (JArr frames))"
      by (simp add: e update_conv')
    show ?thesis
      by (rule exI[of _ ?frs], rule exI[of _ frames])
         (use items dv e m fr in simp)
  qed
  show ?thesis
    by (rule exI[of _ pixItems]) (use v same more in blast)
qed

text \<open>
  \<open>parse\<close> on the file of two frames in four fragments: the fragments are joined two
  by two.
\<close>

theorem parse_fragments_witness:
  "parse exampleEnv True 10 exFragmentsFile
     = (None, AList.update ''x7FE00010''
                (exPixelFragments
                   (JArr [JTyped \<lparr>kind = Uint8, elems = [1, 2, 3]\<rparr>,
                          JTyped \<lparr>kind = Uint8, elems = [4, 5, 6]\<rparr>]))
                exFragmentsRead)
   \<and> map_of exFragmentsRead ''x7FE00010''
     = Some (exPixelFragments (JArr (map JTyped exFragments)))
   \<and> toNumber (JStr ''2 '') = Inr (Some 2)
   \<and> (2::int) < int (length (map JTyped exFragments))"
proof -
  let ?stx = "JStr ''1.2.840.10008.1.2.4.50''"
  let ?parsed = "AList.update ''x7FE00010''
                   (exPixelFragments
                      (JArr [JTyped \<lparr>kind = Uint8, elems = [1, 2, 3]\<rparr>,
                             JTyped \<lparr>kind = Uint8, elems = [4, 5, 6]\<rparr>]))
                   exFragmentsRead"
  have magic: "readString
                 \<lparr>bytes = exFragmentsFile, isLittleEndian = True, isNativeLittleEndian = True\<rparr>
                 128 4 = Inr ''DICM''"
    by code_simp
  have fm: "readFileMeta exampleEnv
              \<lparr>bytes = exFragmentsFile, isLittleEndian = True, isNativeLittleEndian = True\<rparr> 10
              = (None, exFragmentsMeta, 174)"
    by code_simp
  have stx: "getSyntax exFragmentsMeta = Inr ?stx"
    by code_simp
  have dl: "dataLoop 10 exampleEnv
              \<lparr>bytes = exFragmentsFile, isLittleEndian = \<not> isBigEndianTransferSyntax ?stx,
               isNativeLittleEndian = True\<rparr>
              (isImplicitTransferSyntax ?stx) 174 exFragmentsMeta = (None, exFragmentsRead, 250)"
    by code_simp
  have pb: "pixelBuffer exFragmentsRead = Inr ?parsed"
    by code_simp
  have p: "parse exampleEnv True 10 exFragmentsFile = (None, ?parsed)"
    unfolding parse_def readDataSet_def Let_def
    by (simp only: magic fm stx dl pb fst_conv snd_conv sum.case option.case if_False
                   refl not_True_eq_False simp_thms)
  have px: "map_of exFragmentsRead ''x7FE00010''
              = Some (exPixelFragments (JArr (map JTyped exFragments)))"
    by code_simp
  have len: "vl (exPixelFragments (JArr (map JTyped exFragments))) = UndefinedLength"
    by (simp add: exPixelFragments_def)
  have nfv: "(case map_of exFragmentsRead ''x00280008'' of
                None \<Rightarrow> Inr (JNum 1) | Some e \<Rightarrow> jsIndex (val e) 0) = Inr (JStr ''2 '')"
    by code_simp
  have nf: "toNumber (JStr ''2 '') = Inr (Some 2)"
    by code_simp
  have gt: "(2::int) < int (length (map JTyped exFragments))"
    by (simp add: exFragments_def)
  from parse_fragments[OF p fm stx dl px len nfv nf] p px nf gt show ?thesis
    by simp
qed

end
